theory Spec2Isabelle
  imports Main "HOL-Library.Word"
begin

unbundle bit_operations_syntax

section \<open>Common types\<close>

type_synonym uint8 = "8 word"
type_synonym uint32 = "32 word"

section \<open>Errors.go\<close>

record StratumError =
  ErrNo :: int
  ErrMsg :: string

definition NewStratumError :: "int \<Rightarrow> string \<Rightarrow> StratumError" where
  "NewStratumError errNo errMsg = \<lparr> ErrNo = errNo, ErrMsg = errMsg \<rparr>"

definition StratumErrNeedSubscribed :: StratumError where
  "StratumErrNeedSubscribed = NewStratumError 101 ''Need Subscribed''"

definition StratumErrDuplicateSubscribed :: StratumError where
  "StratumErrDuplicateSubscribed = NewStratumError 102 ''Duplicate Subscribed''"

definition StratumErrTooFewParams :: StratumError where
  "StratumErrTooFewParams = NewStratumError 103 ''Too Few Params''"

definition StratumErrWorkerNameMustBeString :: StratumError where
  "StratumErrWorkerNameMustBeString = NewStratumError 104 ''Worker Name Must be a String''"

definition StratumErrWorkerNameStartWrong :: StratumError where
  "StratumErrWorkerNameStartWrong = NewStratumError 105 ''Sub-account Name Cannot be Empty''"

definition StratumErrStratumServerNotFound :: StratumError where
  "StratumErrStratumServerNotFound = NewStratumError 301 ''Stratum Server Not Found''"

definition StratumErrConnectStratumServerFailed :: StratumError where
  "StratumErrConnectStratumServerFailed = NewStratumError 302 ''Connect Stratum Server Failed''"

text \<open>
  The values of Go's \<open>error\<close> that the modelled code produces. \<open>ErrStratum\<close> is a
  \<open>*StratumError\<close> returned as an \<open>error\<close>; \<open>ErrIndexBitsTooLarge\<close> and
  \<open>ErrServerIDNotSet\<close> are the two \<open>errors.New\<close> of \<open>NewSessionIDManager\<close>;
  \<open>ErrReadLineFailed\<close>, \<open>ErrConnWriteFailed\<close>, \<open>ErrDialFailed\<close> and
  \<open>ErrConnFromFdFailed\<close> are the errors of the network calls, \<open>ErrZookeeper\<close> an error of
  the coordinator connection; \<open>ErrAuthorizeFailedForServer\<close> is
  \<open>errors.New("Authorize Failed for Server")\<close>; \<open>GoPanic\<close> is a run-time panic
  (nil dereference, index or slice bound out of range) and \<open>GlogFatal\<close> the process exit of
  \<open>glog.Fatal\<close>.
\<close>

datatype error =
    ErrIndexBitsTooLarge
  | ErrServerIDNotSet
  | ErrSessionIDFull
  | ErrSessionIDOccupied
  | ErrParseSubscribeResponseFailed
  | ErrSessionIDInconformity
  | ErrReadLineFailed
  | ErrConnWriteFailed
  | ErrDialFailed
  | ErrConnFromFdFailed
  | ErrZookeeper
  | ErrAuthorizeFailedForServer
  | ErrStratum StratumError
  | GoPanic
  | GlogFatal

section \<open>SessionIDManager.go\<close>

text \<open>
  \<open>bitset.BitSet\<close> (github.com/willf/bitset) is seen as the set of the indices whose bit is set.
  \<open>Test\<close> of an index beyond the length answers false, \<open>Set\<close> of such an index grows the
  bit set and sets the bit, \<open>Clear\<close> of such an index does nothing: all three are what the
  set of indices gives.
\<close>

type_synonym BitSet = "nat set"

definition BitSet_Test :: "BitSet \<Rightarrow> nat \<Rightarrow> bool" where
  "BitSet_Test b i = (i \<in> b)"

definition BitSet_Set :: "BitSet \<Rightarrow> nat \<Rightarrow> BitSet" where
  "BitSet_Set b i = insert i b"

definition BitSet_Clear :: "BitSet \<Rightarrow> nat \<Rightarrow> BitSet" where
  "BitSet_Clear b i = b - {i}"

record SessionIDManager =
  serverID :: uint32
  sessionIDs :: BitSet
  count :: uint32
  allocIDx :: uint32
  allocInterval :: uint32
  indexBits :: uint8
  sessionIDMask :: uint32

text \<open>
  \<open>NewSessionIDManager\<close>: the field \<open>indexBits\<close> is never assigned by the constructor and
  keeps Go's zero value.
\<close>

definition NewSessionIDManager :: "uint8 \<Rightarrow> uint8 \<Rightarrow> error + SessionIDManager" where
  "NewSessionIDManager sid ib =
     (if ib > 24 then Inl ErrIndexBitsTooLarge
      else if sid = 0 then Inl ErrServerIDNotSet
      else Inr \<lparr> serverID = push_bit (unat ib) (ucast sid),
                 sessionIDs = {},
                 count = 0,
                 allocIDx = 128,
                 allocInterval = 0,
                 indexBits = 0,
                 sessionIDMask = push_bit (unat ib) 1 - 1 \<rparr>)"

definition setAllocInterval :: "uint32 \<Rightarrow> SessionIDManager \<Rightarrow> SessionIDManager" where
  "setAllocInterval interval m = m\<lparr>allocInterval := interval\<rparr>"

definition isFullWithoutLock :: "SessionIDManager \<Rightarrow> bool" where
  "isFullWithoutLock m = (count m > sessionIDMask m)"

text \<open>
  The scan of \<open>AllocSessionID\<close>:
  \<^verbatim>\<open>for manager.sessionIDs.Test(uint(manager.allocIDx)) {
      manager.allocIDx = (manager.allocIDx + 1) & manager.sessionIDMask }\<close>
  It returns the cursor at which it stops, and \<open>None\<close> when it never stops.
\<close>

partial_function (option) findEmptyBit :: "BitSet \<Rightarrow> uint32 \<Rightarrow> uint32 \<Rightarrow> uint32 option" where
  "findEmptyBit b msk i =
     (if BitSet_Test b (unat i) then findEmptyBit b msk ((i + 1) AND msk) else Some i)"

text \<open>
  \<open>AllocSessionID\<close> returns the manager after the call, the session ID and the error
  (\<open>None\<close> is Go's \<open>nil\<close>).
\<close>

definition AllocSessionID ::
  "SessionIDManager \<Rightarrow> (SessionIDManager \<times> uint32 \<times> error option) option" where
  "AllocSessionID m =
     (if isFullWithoutLock m then Some (m, sessionIDMask m, Some ErrSessionIDFull)
      else case findEmptyBit (sessionIDs m) (sessionIDMask m) (allocIDx m) of
             None \<Rightarrow> None
           | Some i \<Rightarrow>
               Some (m\<lparr> sessionIDs := BitSet_Set (sessionIDs m) (unat i),
                        count := count m + 1,
                        allocIDx := (i + allocInterval m) AND sessionIDMask m \<rparr>,
                     serverID m OR i, None))"

definition ResumeSessionID :: "uint32 \<Rightarrow> SessionIDManager \<Rightarrow> SessionIDManager \<times> error option" where
  "ResumeSessionID sessionID m =
     (let idx = sessionID AND sessionIDMask m in
      if BitSet_Test (sessionIDs m) (unat idx) then (m, Some ErrSessionIDOccupied)
      else
        let m1 = m\<lparr> sessionIDs := BitSet_Set (sessionIDs m) (unat idx), count := count m + 1 \<rparr>;
            m2 = (if allocIDx m1 \<le> idx then m1\<lparr>allocIDx := idx + allocInterval m1\<rparr> else m1)
        in (m2, None))"

definition FreeSessionID :: "uint32 \<Rightarrow> SessionIDManager \<Rightarrow> SessionIDManager" where
  "FreeSessionID sessionID m =
     (let idx = sessionID AND sessionIDMask m in
      if \<not> BitSet_Test (sessionIDs m) (unat idx) then m
      else m\<lparr> sessionIDs := BitSet_Clear (sessionIDs m) (unat idx), count := count m - 1 \<rparr>)"

text \<open>\<open>n\<close> calls of \<open>AllocSessionID\<close> in a row, each of which returns an ID.\<close>

fun allocN :: "nat \<Rightarrow> SessionIDManager \<Rightarrow> SessionIDManager option" where
  "allocN 0 m = Some m"
| "allocN (Suc n) m =
     (case AllocSessionID m of
        Some (m', _, None) \<Rightarrow> allocN n m'
      | _ \<Rightarrow> None)"

text \<open>
  The states of the allocator the proofs range over: the mask is \<open>2 ^ k - 1\<close>, the server-ID
  prefix has no bit below \<open>k\<close>, and \<open>count\<close> is the number of set bits.
\<close>

definition wf :: "nat \<Rightarrow> SessionIDManager \<Rightarrow> bool" where
  "wf k m \<longleftrightarrow> k \<le> 24 \<and> sessionIDMask m = mask k \<and> serverID m AND mask k = 0
     \<and> finite (sessionIDs m) \<and> card (sessionIDs m) = unat (count m)"

section \<open>JSONRPC.go\<close>

text \<open>
  A value of Go's \<open>interface{}\<close>, as \<open>encoding/json\<close> decodes it or as the code builds it:
  \<open>JNull\<close> is \<open>nil\<close>, \<open>JArr\<close> a \<open>[]interface{}\<close> or \<open>JSONRPCArray\<close>, \<open>JObj\<close> a
  \<open>map[string]interface{}\<close> or \<open>JSONRPCObj\<close> (the pairs in the order of the text, a later
  pair overriding an earlier one of the same key). Numbers are kept as integers.
\<close>

datatype json =
    JNull
  | JBool bool
  | JNum int
  | JStr string
  | JArr "json list"
  | JObj "(string \<times> json) list"

record JSONRPCRequest =
  ID :: json
  Method :: string
  Params :: "json list"
  Worker :: string

record JSONRPCResponse =
  RespID :: json
  Result :: json
  Error :: json

text \<open>\<open>(err *StratumError) ToJSONRPCArray(extData)\<close>; \<open>None\<close> is the nil pointer.\<close>

definition ToJSONRPCArray :: "StratumError option \<Rightarrow> json \<Rightarrow> json" where
  "ToJSONRPCArray err extData =
     (case err of
        None \<Rightarrow> JNull
      | Some e \<Rightarrow> JArr [JNum (ErrNo e), JStr (ErrMsg e), extData])"

section \<open>Strings and helpers\<close>

text \<open>
  Go strings are byte strings. \<open>strings.ToLower\<close> of the standard library lowers a string
  of ASCII bytes (every byte below \<open>utf8.RuneSelf = 0x80\<close>) byte by byte, the letters \<open>A\<close>
  to \<open>Z\<close>. Any other string goes through \<open>strings.Map(unicode.ToLower, s)\<close>, which decodes
  UTF-8 and reads the case tables of the Unicode version of the library: that function
  is the parameter \<open>unicodeLower\<close> of \<open>ToLower\<close> and of every function that calls it.
\<close>

definition isASCII :: "string \<Rightarrow> bool" where
  "isASCII s = list_all (\<lambda>c. of_char c < (128 :: nat)) s"

definition toLowerChar :: "char \<Rightarrow> char" where
  "toLowerChar c =
     (case map_of (zip ''ABCDEFGHIJKLMNOPQRSTUVWXYZ'' ''abcdefghijklmnopqrstuvwxyz'') c of
        None \<Rightarrow> c
      | Some l \<Rightarrow> l)"

definition ToLower :: "(string \<Rightarrow> string) \<Rightarrow> string \<Rightarrow> string" where
  "ToLower unicodeLower s = (if isASCII s then map toLowerChar s else unicodeLower s)"

definition HasPrefix :: "string \<Rightarrow> string \<Rightarrow> bool" where
  "HasPrefix s p = (take (length p) s = p)"

text \<open>\<open>strings.Index(s, ".")\<close>: the position of the first dot, \<open>None\<close> for Go's \<open>-1\<close>.\<close>

fun IndexDot :: "string \<Rightarrow> nat option" where
  "IndexDot [] = None"
| "IndexDot (c # cs) =
     (if c = CHR ''.'' then Some 0
      else case IndexDot cs of None \<Rightarrow> None | Some n \<Rightarrow> Some (Suc n))"

text \<open>The slice expression \<open>s[lo:hi]\<close> of Go; \<open>None\<close> is the panic on bounds out of range.\<close>

definition goSlice :: "string \<Rightarrow> nat \<Rightarrow> nat \<Rightarrow> string option" where
  "goSlice s lo hi = (if lo \<le> hi \<and> hi \<le> length s then Some (take (hi - lo) (drop lo s)) else None)"

definition hexDigit :: "nat \<Rightarrow> char" where
  "hexDigit n = ''0123456789abcdef'' ! (n mod 16)"

definition isHexDigit :: "char \<Rightarrow> bool" where
  "isHexDigit c \<longleftrightarrow> c \<in> set ''0123456789abcdefABCDEF''"

definition nibble :: "uint32 \<Rightarrow> nat \<Rightarrow> char" where
  "nibble w i = hexDigit (unat (drop_bit (4 * i) w AND 0xF))"

text \<open>
  Modelled from the spec: \<open>Uint32ToHex\<close>, a helper of this repository that is not among the
  source files. The spec renders a session ID as big-endian hex of 8 characters
  (\<open>"03000001"\<close> for server ID 3 and index 1).
\<close>

definition Uint32ToHex :: "uint32 \<Rightarrow> string" where
  "Uint32ToHex w = map (nibble w) [7, 6, 5, 4, 3, 2, 1, 0]"

text \<open>
  Modelled from the spec: \<open>Uint32ToHexLE\<close>, a helper of this repository that is not among the
  source files. The spec calls the Decred rendering little-endian hex of 8 characters: the
  four bytes in reverse order.
\<close>

definition Uint32ToHexLE :: "uint32 \<Rightarrow> string" where
  "Uint32ToHexLE w = map (nibble w) [1, 0, 3, 2, 5, 4, 7, 6]"

text \<open>
  Modelled from the spec: \<open>FilterWorkerName\<close>, a helper of this repository that is not among
  the source files. The spec: strip non-printable characters and control characters. The
  printable characters are taken to be the ASCII codes 32 to 126.
\<close>

definition FilterWorkerName :: "string \<Rightarrow> string" where
  "FilterWorkerName s = filter (\<lambda>c. 32 \<le> (of_char c :: nat) \<and> (of_char c :: nat) \<le> 126) s"

text \<open>
  Modelled from the spec: \<open>StripEthAddrFromFullName\<close>, a helper of this repository that is not
  among the source files. The spec: strip a leading hex Ethereum address (\<open>0x\<close> and 40 hex
  characters); the remainder alone becomes the name. The dot that separates the address
  from the remainder goes with the address.
\<close>

definition StripEthAddrFromFullName :: "string \<Rightarrow> string" where
  "StripEthAddrFromFullName s =
     (if 42 \<le> length s \<and> take 2 s = ''0x'' \<and> list_all isHexDigit (take 40 (drop 2 s))
      then (if take 1 (drop 42 s) = ''.'' then drop 43 s else drop 42 s)
      else s)"

fun hexVal :: "char \<Rightarrow> nat option" where
  "hexVal c =
     (let n = (of_char c :: nat) in
      if 48 \<le> n \<and> n \<le> 57 then Some (n - 48)
      else if 97 \<le> n \<and> n \<le> 102 then Some (n - 87)
      else if 65 \<le> n \<and> n \<le> 70 then Some (n - 55)
      else None)"

fun parseHexFrom :: "nat \<Rightarrow> string \<Rightarrow> nat option" where
  "parseHexFrom acc [] = Some acc"
| "parseHexFrom acc (c # cs) =
     (case hexVal c of None \<Rightarrow> None | Some d \<Rightarrow> parseHexFrom (16 * acc + d) cs)"

text \<open>
  \<open>strconv.ParseUint(s, 16, 32)\<close>: \<open>None\<close> is a returned error (empty string, a character
  that is no hex digit, a value that does not fit 32 bits).
\<close>

definition ParseUint_16_32 :: "string \<Rightarrow> uint32 option" where
  "ParseUint_16_32 s =
     (if s = [] then None
      else case parseHexFrom 0 s of
             None \<Rightarrow> None
           | Some n \<Rightarrow> if n < 2 ^ 32 then Some (word_of_nat n) else None)"

section \<open>ZookeeperManager.go\<close>

text \<open>
  Go channels live in a heap \<open>chans\<close>: a channel is named by its index there, and
  \<open>make(chan zk.Event, 1)\<close> appends a channel, so that the new name is fresh. The
  coordinator itself is the map \<open>zk\<close> from a path to the value of its node;
  \<open>zookeeperConn.GetW\<close> fails where the map has no entry. \<open>zkGetWCalls\<close> lists the paths on
  which \<open>zookeeperConn.GetW\<close> has been called, \<open>watcherRuns\<close> the paths of the watchers whose
  \<open>Run\<close> has been started.
\<close>

type_synonym zkEvent = nat

record Chan =
  capacity :: nat
  buffer :: "zkEvent list"
  closed :: bool

record NodeWatcher =
  nodePath :: string
  nodeValue :: string
  zkWatchEvent :: "nat option"
  watcherChannels :: "uint32 \<rightharpoonup> nat"

record ZookeeperManager =
  watcherMap :: "string \<rightharpoonup> NodeWatcher"
  chans :: "Chan list"
  zkGetWCalls :: "string list"
  watcherRuns :: "string list"

definition makeChan :: "nat \<Rightarrow> Chan" where
  "makeChan n = \<lparr> capacity = n, buffer = [], closed = False \<rparr>"

definition NewNodeWatcher :: NodeWatcher where
  "NewNodeWatcher =
     \<lparr> nodePath = [], nodeValue = [], zkWatchEvent = None, watcherChannels = Map.empty \<rparr>"

text \<open>
  The second half of \<open>GetW\<close>, common to both branches: a new channel of capacity 1 is stored
  under the session ID in the watcher (which the map holds by pointer), and the value the
  watcher holds is returned with that channel.
\<close>

definition addWatcherChannel ::
  "ZookeeperManager \<Rightarrow> string \<Rightarrow> NodeWatcher \<Rightarrow> uint32
     \<Rightarrow> ZookeeperManager \<times> string \<times> nat option \<times> error option" where
  "addWatcherChannel manager path watcher sid =
     (let eventChan = length (chans manager);
          watcher1 = watcher\<lparr>watcherChannels := (watcherChannels watcher)(sid \<mapsto> eventChan)\<rparr>
      in (manager\<lparr> chans := chans manager @ [makeChan 1],
                    watcherMap := (watcherMap manager)(path \<mapsto> watcher1) \<rparr>,
          nodeValue watcher1, Some eventChan, None))"

text \<open>
  \<open>GetW\<close> returns the manager after the call, the value, the event channel and the error.
  The channel that \<open>zookeeperConn.GetW\<close> returns is a new channel of the heap.
\<close>

definition GetW ::
  "(string \<rightharpoonup> string) \<Rightarrow> ZookeeperManager \<Rightarrow> string \<Rightarrow> uint32
     \<Rightarrow> ZookeeperManager \<times> string \<times> nat option \<times> error option" where
  "GetW zk manager path sid =
     (case watcherMap manager path of
        None \<Rightarrow>
          (let manager1 = manager\<lparr>zkGetWCalls := zkGetWCalls manager @ [path]\<rparr>
           in case zk path of
                None \<Rightarrow> (manager1, [], None, Some ErrZookeeper)
              | Some v \<Rightarrow>
                  (let watcher = NewNodeWatcher\<lparr> nodePath := path, nodeValue := v,
                                    zkWatchEvent := Some (length (chans manager1)) \<rparr>;
                       manager2 = manager1\<lparr> chans := chans manager1 @ [makeChan 1],
                                    watcherMap := (watcherMap manager1)(path \<mapsto> watcher),
                                    watcherRuns := watcherRuns manager1 @ [path] \<rparr>
                   in addWatcherChannel manager2 path watcher sid))
      | Some watcher \<Rightarrow> addWatcherChannel manager path watcher sid)"

text \<open>
  \<open>ReleaseW\<close>; \<open>Inl GoPanic\<close> is the panic of \<open>close\<close> on a closed channel.
\<close>

definition ReleaseW :: "ZookeeperManager \<Rightarrow> string \<Rightarrow> uint32 \<Rightarrow> error + ZookeeperManager" where
  "ReleaseW manager path sid =
     (case watcherMap manager path of
        None \<Rightarrow> Inr manager
      | Some watcher \<Rightarrow>
          (case watcherChannels watcher sid of
             None \<Rightarrow> Inr manager
           | Some eventChan \<Rightarrow>
               if eventChan < length (chans manager) \<and> \<not> closed (chans manager ! eventChan) then
                 Inr (manager\<lparr> chans := (chans manager)[eventChan :=
                                   (chans manager ! eventChan)\<lparr>closed := True\<rparr>],
                               watcherMap := (watcherMap manager)(path \<mapsto>
                                   watcher\<lparr>watcherChannels := (watcherChannels watcher)(sid := None)\<rparr>) \<rparr>)
               else Inl GoPanic))"

section \<open>ConfigData.go and StratumSessionManager.go\<close>

datatype ChainType =
    ChainTypeBitcoin
  | ChainTypeDecredNormal
  | ChainTypeDecredGoMiner
  | ChainTypeEthereum

record StratumServerInfo =
  URL :: string
  UserSuffix :: string

record StratumSessionData =
  SessionID :: uint32
  MiningCoin :: string
  ClientConnFD :: nat
  ServerConnFD :: nat
  StratumSubscribeRequest :: "JSONRPCRequest option"
  StratumAuthorizeRequest :: "JSONRPCRequest option"
  VersionMask :: uint32

text \<open>
  The fields of \<open>StratumSessionManager\<close> that the modelled functions read or write.
  \<open>sessions\<close> holds the keys of the session map; \<open>mgrServerID\<close> is the field \<open>serverID\<close>.
\<close>

record StratumSessionManager =
  sessions :: "uint32 set"
  sessionIDManager :: SessionIDManager
  zookeeperManager :: ZookeeperManager
  stratumServerInfoMap :: "string \<rightharpoonup> StratumServerInfo"
  zookeeperSwitcherWatchDir :: string
  stratumServerCaseInsensitive :: bool
  zkUserCaseInsensitiveIndex :: string
  chainType :: ChainType
  mgrServerID :: uint8

text \<open>
  \<open>GetRegularSubaccountName\<close>. The coordinator is the map \<open>zk\<close> from a path to the value
  of its node; \<open>zookeeperConn.Get\<close> fails where the map has no entry.
\<close>

definition GetRegularSubaccountName ::
  "(string \<Rightarrow> string) \<Rightarrow> StratumSessionManager \<Rightarrow> (string \<rightharpoonup> string) \<Rightarrow> string
     \<Rightarrow> string" where
  "GetRegularSubaccountName unicodeLower mgr zk subAccountName =
     (if stratumServerCaseInsensitive mgr then ToLower unicodeLower subAccountName
      else if length (zkUserCaseInsensitiveIndex mgr) \<le> 0 then subAccountName
      else case zk (zkUserCaseInsensitiveIndex mgr @ ToLower unicodeLower subAccountName) of
             None \<Rightarrow> subAccountName
           | Some regularName \<Rightarrow> regularName)"

section \<open>StratumSession.go: the session and its handshake with the client\<close>

definition btcAgentClientTypePrefix :: string where
  "btcAgentClientTypePrefix = ''btccom-agent/''"

definition niceHashClientTypePrefix :: string where
  "niceHashClientTypePrefix = ''nicehash/''"

definition ethereumStratumNiceHashPrefix :: string where
  "ethereumStratumNiceHashPrefix = ''ethereumstratum/''"

definition ethereumStratumNiceHashVersion :: string where
  "ethereumStratumNiceHashVersion = ''EthereumStratum/1.0.0''"

definition ethproxyVersion :: string where
  "ethproxyVersion = ''ETHProxy/1.0.0''"

definition retryTimeWhenServerDown :: int where
  "retryTimeWhenServerDown = 10"

datatype ProtocolType =
    ProtocolBitcoinStratum
  | ProtocolEthereumStratum
  | ProtocolEthereumStratumNiceHash
  | ProtocolEthereumProxy
  | ProtocolUnknown

datatype RunningStat = StatRunning | StatStoped | StatReconnecting

datatype AuthorizeStat = StatConnected | StatSubScribed | StatAuthorized

text \<open>
  The data fields of \<open>StratumSession\<close>. The sockets and their readers are in the record
  \<open>world\<close> below; \<open>None\<close> in a request field is the nil pointer; \<open>zkWatchEventChan\<close> is
  the field \<open>zkWatchEvent\<close>, a channel of the heap of the coordinator client.
\<close>

record StratumSession =
  protocolType :: ProtocolType
  isBTCAgent :: bool
  isNiceHashClient :: bool
  jsonRPCVersion :: int
  versionMask :: uint32
  runningStat :: RunningStat
  reconnectCounter :: uint32
  clientIPPort :: string
  sessionID :: uint32
  sessionIDString :: string
  fullWorkerName :: string
  subaccountName :: string
  minerNameWithDot :: string
  stratumSubscribeRequest :: "JSONRPCRequest option"
  stratumAuthorizeRequest :: "JSONRPCRequest option"
  miningCoin :: string
  zkWatchPath :: string
  zkWatchEventChan :: "nat option"

text \<open>
  \<open>NewStratumSession\<close>; \<open>addr\<close> is \<open>clientConn.RemoteAddr().String()\<close>. Every field the
  constructor does not assign has Go's zero value. \<open>Inl GoPanic\<close> is the panic of the slice
  expression \<open>[2:8]\<close>.
\<close>

definition NewStratumSession ::
  "StratumSessionManager \<Rightarrow> string \<Rightarrow> uint32 \<Rightarrow> error + StratumSession" where
  "NewStratumSession mgr addr sid =
     (let session = \<lparr> protocolType = ProtocolBitcoinStratum, isBTCAgent = False,
            isNiceHashClient = False, jsonRPCVersion = 1, versionMask = 0,
            runningStat = StatStoped, reconnectCounter = 0, clientIPPort = addr,
            sessionID = sid, sessionIDString = [], fullWorkerName = [], subaccountName = [],
            minerNameWithDot = [], stratumSubscribeRequest = None,
            stratumAuthorizeRequest = None, miningCoin = [], zkWatchPath = [],
            zkWatchEventChan = None \<rparr>
      in case chainType mgr of
           ChainTypeBitcoin \<Rightarrow> Inr (session\<lparr>sessionIDString := Uint32ToHex sid\<rparr>)
         | ChainTypeDecredNormal \<Rightarrow>
             Inr (session\<lparr>sessionIDString := ''0000000000000000'' @ Uint32ToHexLE sid\<rparr>)
         | ChainTypeDecredGoMiner \<Rightarrow> Inr (session\<lparr>sessionIDString := Uint32ToHexLE sid\<rparr>)
         | ChainTypeEthereum \<Rightarrow>
             (case goSlice (Uint32ToHex sid) 2 8 of
                None \<Rightarrow> Inl GoPanic
              | Some str \<Rightarrow> Inr (session\<lparr>sessionIDString := str\<rparr>)))"

definition getDefaultStratumProtocol :: "StratumSessionManager \<Rightarrow> ProtocolType" where
  "getDefaultStratumProtocol mgr =
     (case chainType mgr of
        ChainTypeBitcoin \<Rightarrow> ProtocolBitcoinStratum
      | ChainTypeDecredNormal \<Rightarrow> ProtocolBitcoinStratum
      | ChainTypeDecredGoMiner \<Rightarrow> ProtocolBitcoinStratum
      | ChainTypeEthereum \<Rightarrow> ProtocolEthereumProxy)"

text \<open>The type assertion \<open>x.(string)\<close> on the parameter at a position, where there is one.\<close>

definition paramString :: "json list \<Rightarrow> nat \<Rightarrow> string option" where
  "paramString ps i =
     (if i < length ps then (case ps ! i of JStr str \<Rightarrow> Some str | _ \<Rightarrow> None) else None)"

definition hasLowerPrefix ::
  "(string \<Rightarrow> string) \<Rightarrow> string option \<Rightarrow> string \<Rightarrow> bool" where
  "hasLowerPrefix unicodeLower x p =
     (case x of None \<Rightarrow> False | Some str \<Rightarrow> HasPrefix (ToLower unicodeLower str) p)"

text \<open>
  The parse functions return the session after the call, the result (\<open>None\<close> is a nil
  result) and the Stratum error (\<open>None\<close> is nil). \<open>Inl GoPanic\<close> is a panic.
\<close>

type_synonym parsed = "error + (StratumSession \<times> json option \<times> StratumError option)"

definition parseSubscribeRequest ::
  "(string \<Rightarrow> string) \<Rightarrow> StratumSessionManager \<Rightarrow> StratumSession \<Rightarrow> JSONRPCRequest
     \<Rightarrow> parsed" where
  "parseSubscribeRequest unicodeLower mgr session0 request =
     (let session = session0\<lparr>stratumSubscribeRequest := Some request\<rparr>;
          userAgent = paramString (Params request) 0;
          sid = sessionIDString session
      in if chainType mgr \<noteq> ChainTypeEthereum then
           (let session1 =
                  (if hasLowerPrefix unicodeLower userAgent btcAgentClientTypePrefix
                   then session\<lparr>isBTCAgent := True\<rparr> else session)
            in Inr (session1,
                    Some (JArr [JArr [JArr [JStr ''mining.set_difficulty'', JStr sid],
                                      JArr [JStr ''mining.notify'', JStr sid]],
                                JStr sid, JNum 8]),
                    None))
         else
           (let session1 = session\<lparr>protocolType := ProtocolEthereumStratum\<rparr>;
                session2 =
                  (if hasLowerPrefix unicodeLower userAgent niceHashClientTypePrefix
                   then session1\<lparr>isNiceHashClient := True\<rparr> else session1);
                session3 =
                  (if hasLowerPrefix unicodeLower userAgent btcAgentClientTypePrefix
                   then session2\<lparr>isBTCAgent := True,
                                  protocolType := ProtocolEthereumStratumNiceHash\<rparr>
                   else session2);
                session4 =
                  (if hasLowerPrefix unicodeLower (paramString (Params request) 1)
                        ethereumStratumNiceHashPrefix
                   then session3\<lparr>protocolType := ProtocolEthereumStratumNiceHash\<rparr>
                   else session3)
            in if protocolType session4 = ProtocolEthereumStratumNiceHash then
                 (case (if isNiceHashClient session4 then goSlice sid 0 4 else Some sid) of
                    None \<Rightarrow> Inl GoPanic
                  | Some extraNonce \<Rightarrow>
                      Inr (session4,
                           Some (JArr [JArr [JStr ''mining.notify'', JStr sid,
                                             JStr ethereumStratumNiceHashVersion],
                                       JStr extraNonce]),
                           None))
               else Inr (session4, Some (JBool True), None)))"

definition makeSubscribeMessageForEthProxy :: "StratumSession \<Rightarrow> StratumSession" where
  "makeSubscribeMessageForEthProxy session =
     session\<lparr>stratumSubscribeRequest :=
       Some \<lparr> ID = JNull, Method = ''mining.subscribe'',
              Params = [JStr ''ETHProxy'', JStr ethproxyVersion], Worker = [] \<rparr>\<rparr>"

definition splitWorkerName ::
  "(string \<Rightarrow> string) \<Rightarrow> StratumSessionManager \<Rightarrow> (string \<rightharpoonup> string) \<Rightarrow> StratumSession
     \<Rightarrow> StratumSession" where
  "splitWorkerName unicodeLower mgr zk session =
     (case IndexDot (fullWorkerName session) of
        Some pos \<Rightarrow>
          (let sub = GetRegularSubaccountName unicodeLower mgr zk
                       (take pos (fullWorkerName session));
               miner = drop pos (fullWorkerName session)
           in session\<lparr>subaccountName := sub, minerNameWithDot := miner,
                       fullWorkerName := sub @ miner\<rparr>)
      | None \<Rightarrow>
          (let sub = GetRegularSubaccountName unicodeLower mgr zk (fullWorkerName session)
           in session\<lparr>subaccountName := sub, minerNameWithDot := [],
                       fullWorkerName := sub\<rparr>))"

definition parseAuthorizeRequest ::
  "(string \<Rightarrow> string) \<Rightarrow> StratumSessionManager \<Rightarrow> (string \<rightharpoonup> string) \<Rightarrow> StratumSession
     \<Rightarrow> JSONRPCRequest
     \<Rightarrow> StratumSession \<times> json option \<times> StratumError option" where
  "parseAuthorizeRequest unicodeLower mgr zk session0 request =
     (let session = session0\<lparr>stratumAuthorizeRequest := Some request\<rparr>
      in if length (Params request) < 1 then (session, None, Some StratumErrTooFewParams)
         else case Params request ! 0 of
           JStr name \<Rightarrow>
             (let session1 = session\<lparr>fullWorkerName := FilterWorkerName name\<rparr>;
                  session2 =
                    (if protocolType session1 \<noteq> ProtocolBitcoinStratum then
                       (let session1a =
                              (if Worker request \<noteq> [] then
                                 session1\<lparr>fullWorkerName := fullWorkerName session1 @ ''.''
                                    @ FilterWorkerName (Worker request)\<rparr>
                               else session1)
                        in session1a\<lparr>fullWorkerName :=
                             StripEthAddrFromFullName (fullWorkerName session1a)\<rparr>)
                     else session1);
                  session3 = splitWorkerName unicodeLower mgr zk session2
              in if length (subaccountName session3) < 1
                 then (session3, None, Some StratumErrWorkerNameStartWrong)
                 else (session3, None, None))
         | _ \<Rightarrow> (session, None, Some StratumErrWorkerNameMustBeString))"

text \<open>\<open>fmt.Sprintf("%08x", session.versionMask)\<close>.\<close>

definition getVersionMaskStr :: "StratumSession \<Rightarrow> string" where
  "getVersionMaskStr session = map (nibble (versionMask session)) [7, 6, 5, 4, 3, 2, 1, 0]"

text \<open>The lookup of a key in a decoded JSON object: the last pair of that key.\<close>

definition objLookup :: "(string \<times> json) list \<Rightarrow> string \<Rightarrow> json option" where
  "objLookup kvs key = map_of (rev kvs) key"

definition parseConfigureRequest ::
  "StratumSession \<Rightarrow> JSONRPCRequest \<Rightarrow> StratumSession \<times> json option \<times> StratumError option" where
  "parseConfigureRequest session request =
     (if length (Params request) < 2 then (session, None, Some StratumErrTooFewParams)
      else
        let session1 =
              (case Params request ! 1 of
                 JObj options \<Rightarrow>
                   (case objLookup options ''version-rolling.mask'' of
                      Some (JStr versionMaskStr) \<Rightarrow>
                        (case ParseUint_16_32 versionMaskStr of
                           Some v \<Rightarrow> session\<lparr>versionMask := v\<rparr>
                         | None \<Rightarrow> session)
                    | _ \<Rightarrow> session)
               | _ \<Rightarrow> session)
        in if versionMask session1 \<noteq> 0 then
             (session1,
              Some (JObj [(''version-rolling'', JBool True),
                          (''version-rolling.mask'', JStr (getVersionMaskStr session1))]),
              None)
           else (session1, None, None))"

text \<open>
  \<open>stratumHandleRequest\<close>: \<open>stat\<close> is the value behind the pointer \<open>stat\<close> before the call,
  and the second component of the result its value after the call.
\<close>

definition stratumHandleRequest ::
  "(string \<Rightarrow> string) \<Rightarrow> StratumSessionManager \<Rightarrow> (string \<rightharpoonup> string) \<Rightarrow> StratumSession
     \<Rightarrow> JSONRPCRequest
     \<Rightarrow> AuthorizeStat
     \<Rightarrow> error + (StratumSession \<times> AuthorizeStat \<times> json option \<times> StratumError option)" where
  "stratumHandleRequest unicodeLower mgr zk session request stat =
     (if Method request = ''mining.subscribe'' then
        (if stat \<noteq> StatConnected then Inr (session, stat, None, Some StratumErrDuplicateSubscribed)
         else case parseSubscribeRequest unicodeLower mgr session request of
                Inl e \<Rightarrow> Inl e
              | Inr (session1, result, err) \<Rightarrow>
                  Inr (session1, (if err = None then StatSubScribed else stat), result, err))
      else if Method request = ''eth_submitLogin'' \<or> Method request = ''mining.authorize'' then
        (let (session1, stat1) =
               (if Method request = ''eth_submitLogin''
                     \<and> protocolType session = ProtocolEthereumProxy
                then ((makeSubscribeMessageForEthProxy session)\<lparr>jsonRPCVersion := 2\<rparr>,
                      StatSubScribed)
                else (session, stat))
         in if stat1 \<noteq> StatSubScribed
            then Inr (session1, stat1, None, Some StratumErrNeedSubscribed)
            else case parseAuthorizeRequest unicodeLower mgr zk session1 request of
                   (session2, result, err) \<Rightarrow>
                     Inr (session2, (if err = None then StatAuthorized else stat1), result, err))
      else if Method request = ''mining.configure'' then
        (if protocolType session = ProtocolBitcoinStratum then
           (case parseConfigureRequest session request of
              (session1, result, err) \<Rightarrow> Inr (session1, stat, result, err))
         else Inr (session, stat, None, None))
      else Inr (session, stat, None, None))"

section \<open>StratumSession.go: the handshake with the upstream server\<close>

text \<open>
  A line read from the upstream server is what \<open>json.Unmarshal\<close> makes of it as a
  \<open>JSONRPCResponse\<close> and as a \<open>JSONRPCRequest\<close>; \<open>None\<close> is a decoding error.
\<close>

record srvline =
  asResponse :: "JSONRPCResponse option"
  asRequest :: "JSONRPCRequest option"

text \<open>
  A connection: the address of its peer (\<open>None\<close> where \<open>RemoteAddr()\<close> is nil), the lines that
  will be read from it, and whether a write to it succeeds.
\<close>

record Conn =
  remoteAddr :: "string option"
  incoming :: "srvline list"
  writable :: bool

datatype climsg =
    ClientResponse int JSONRPCResponse
  | ClientNotify JSONRPCRequest

datatype event =
    CallConnectStratumServer
  | Sleep nat
  | GoStop
  | GoProxyStratum
  | StartRelay
  | CloseServerConn
  | CloseClientConn
  | GlogError "error option"

text \<open>
  What a session does to the outside is kept in the record \<open>world\<close>: \<open>dials\<close> are the
  results of the coming calls of \<open>net.Dial\<close> in order (\<open>None\<close>, or no result left, is a
  failed dial), \<open>serverConn\<close> and \<open>clientConn\<close> are the two sockets of the session with
  their readers (\<open>None\<close> is nil), \<open>toServer\<close> and \<open>toClient\<close> are the messages written
  so far, and \<open>events\<close> lists in order the calls of \<open>connectStratumServer\<close>, the sleeps in
  seconds, the goroutines started and the sockets closed. Bytes that a reader has buffered
  beyond the lines are not in the model, and neither are the timeouts of
  \<open>serverSubscribeAndAuthorize\<close> and of the reads.

  \<open>IP2Long\<close> is a helper of this repository that is not among the source files; it is a
  parameter of the model.
\<close>

record world =
  dials :: "Conn option list"
  serverConn :: "Conn option"
  clientConn :: Conn
  toServer :: "JSONRPCRequest list"
  toClient :: "climsg list"
  events :: "event list"
  IP2Long :: "string \<Rightarrow> uint32"

definition logEvent :: "event \<Rightarrow> world \<Rightarrow> world" where
  "logEvent e w = w\<lparr>events := events w @ [e]\<rparr>"

definition writeJSONRequestToServer :: "world \<Rightarrow> JSONRPCRequest \<Rightarrow> world \<times> error option" where
  "writeJSONRequestToServer w jsonData =
     (case serverConn w of
        None \<Rightarrow> (w, Some GoPanic)
      | Some c \<Rightarrow>
          if writable c then (w\<lparr>toServer := toServer w @ [jsonData]\<rparr>, None)
          else (w, Some ErrConnWriteFailed))"

definition writeJSONResponseToClient ::
  "StratumSession \<Rightarrow> world \<Rightarrow> JSONRPCResponse \<Rightarrow> world \<times> error option" where
  "writeJSONResponseToClient session w jsonData =
     (if writable (clientConn w)
      then (w\<lparr>toClient := toClient w @ [ClientResponse (jsonRPCVersion session) jsonData]\<rparr>, None)
      else (w, Some ErrConnWriteFailed))"

definition writeJSONNotifyToClient :: "world \<Rightarrow> JSONRPCRequest \<Rightarrow> world \<times> error option" where
  "writeJSONNotifyToClient w jsonData =
     (if writable (clientConn w)
      then (w\<lparr>toClient := toClient w @ [ClientNotify jsonData]\<rparr>, None)
      else (w, Some ErrConnWriteFailed))"

definition sendMiningConfigureToServer :: "StratumSession \<Rightarrow> world \<Rightarrow> world \<times> error option" where
  "sendMiningConfigureToServer session w =
     (if versionMask session = 0 then (w, None)
      else writeJSONRequestToServer w
             \<lparr> ID = JStr ''configure'', Method = ''mining.configure'',
               Params = [JArr [JStr ''version-rolling''],
                         JObj [(''version-rolling.mask'', JStr (getVersionMaskStr session))]],
               Worker = [] \<rparr>)"

text \<open>\<open>strings.LastIndex(s, ":")\<close>, \<open>None\<close> for Go's \<open>-1\<close>.\<close>

fun lastIndexColonFrom :: "nat \<Rightarrow> nat option \<Rightarrow> string \<Rightarrow> nat option" where
  "lastIndexColonFrom i found [] = found"
| "lastIndexColonFrom i found (c # cs) =
     lastIndexColonFrom (Suc i) (if c = CHR '':'' then Some i else found) cs"

definition LastIndexColon :: "string \<Rightarrow> nat option" where
  "LastIndexColon s = lastIndexColonFrom 0 None s"

text \<open>
  The value of \<open>userAgent, _ = Params[i].(string)\<close> after the guard on the length: the
  default where there is no such parameter, and the empty string where the parameter is
  not a string.
\<close>

definition paramOrDefault :: "json list \<Rightarrow> nat \<Rightarrow> string \<Rightarrow> string" where
  "paramOrDefault ps i dflt =
     (if i < length ps then (case ps ! i of JStr str \<Rightarrow> str | _ \<Rightarrow> []) else dflt)"

text \<open>
  \<open>sendMiningSubscribeToServer\<close>. The variable \<open>request\<close> is the pointer of the session, so
  the ID and the parameters are written into the saved subscribe request.
\<close>

definition sendMiningSubscribeToServer ::
  "StratumSession \<Rightarrow> world \<Rightarrow> StratumSession \<times> world \<times> error option" where
  "sendMiningSubscribeToServer session w =
     (case stratumSubscribeRequest session of
        None \<Rightarrow> (session, w, Some GoPanic)
      | Some request0 \<Rightarrow>
          (let request = request0\<lparr>ID := JStr ''subscribe''\<rparr>;
               userAgent = paramOrDefault (Params request) 0 ''stratumSwitcher'';
               protocol = paramOrDefault (Params request) 1 ''Stratum''
           in if protocolType session = ProtocolUnknown then
                (session\<lparr>stratumSubscribeRequest := Some request\<rparr>, w, Some GlogFatal)
              else case LastIndexColon (clientIPPort session) of
                None \<Rightarrow> (session\<lparr>stratumSubscribeRequest := Some request\<rparr>, w, Some GoPanic)
              | Some pos \<Rightarrow>
                  (let clientIPLong = JNum (uint (IP2Long w (take pos (clientIPPort session))));
                       request1 =
                         (if protocolType session = ProtocolBitcoinStratum then
                            request\<lparr>Params := [JStr userAgent,
                                                JStr (Uint32ToHex (sessionID session)),
                                                clientIPLong]\<rparr>
                          else
                            request\<lparr>Params := [JStr userAgent, JStr protocol,
                                                JStr (sessionIDString session), clientIPLong]\<rparr>);
                       session1 = session\<lparr>stratumSubscribeRequest := Some request1\<rparr>
                   in case writeJSONRequestToServer w request1 of
                        (w1, err) \<Rightarrow> (session1, w1, err))))"

definition getUserSuffix :: "StratumSessionManager \<Rightarrow> StratumSession \<Rightarrow> string" where
  "getUserSuffix mgr session =
     (case stratumServerInfoMap mgr (miningCoin session) of
        None \<Rightarrow> miningCoin session
      | Some serverInfo \<Rightarrow> UserSuffix serverInfo)"

definition authWorkerName :: "StratumSessionManager \<Rightarrow> StratumSession \<Rightarrow> bool \<Rightarrow> string" where
  "authWorkerName mgr session withSuffix =
     (if withSuffix
      then subaccountName session @ ''_'' @ getUserSuffix mgr session @ minerNameWithDot session
      else fullWorkerName session)"

text \<open>
  The request that \<open>sendMiningAuthorizeToServer\<close> builds: the method and a copy of the
  parameters of the saved authorize request, the worker name at position 0 and the ID
  \<open>"auth"\<close>.
\<close>

definition upstreamAuthorizeRequest ::
  "StratumSessionManager \<Rightarrow> StratumSession \<Rightarrow> JSONRPCRequest \<Rightarrow> bool \<Rightarrow> JSONRPCRequest" where
  "upstreamAuthorizeRequest mgr session saved withSuffix =
     \<lparr> ID = JStr ''auth'', Method = Method saved,
       Params = (Params saved)[0 := JStr (authWorkerName mgr session withSuffix)],
       Worker = [] \<rparr>"

text \<open>
  \<open>sendMiningAuthorizeToServer\<close>; \<open>GoPanic\<close> is the nil dereference or the index out of
  range of \<open>request.Params[0]\<close>.
\<close>

definition sendMiningAuthorizeToServer ::
  "StratumSessionManager \<Rightarrow> StratumSession \<Rightarrow> world \<Rightarrow> bool \<Rightarrow> world \<times> error option" where
  "sendMiningAuthorizeToServer mgr session w withSuffix =
     (case stratumAuthorizeRequest session of
        None \<Rightarrow> (w, Some GoPanic)
      | Some saved \<Rightarrow>
          if Params saved = [] then (w, Some GoPanic)
          else writeJSONRequestToServer w (upstreamAuthorizeRequest mgr session saved withSuffix))"

text \<open>The local variables of the receiving loop of \<open>serverSubscribeAndAuthorize\<close>.\<close>

record authState =
  authMsgCounter :: int
  authSuccess :: bool
  authResponse :: JSONRPCResponse
  allowedVersionMask :: uint32

definition initAuthState :: authState where
  "initAuthState =
     \<lparr> authMsgCounter = 0, authSuccess = False,
       authResponse = \<lparr> RespID = JNull, Result = JNull, Error = JNull \<rparr>,
       allowedVersionMask = 0 \<rparr>"

definition stratumHandleServerNotify :: "JSONRPCRequest \<Rightarrow> authState \<Rightarrow> authState" where
  "stratumHandleServerNotify notify st =
     (if Method notify = ''mining.set_version_mask'' then
        (case paramString (Params notify) 0 of
           None \<Rightarrow> st
         | Some versionMaskStr \<Rightarrow>
             (case ParseUint_16_32 versionMaskStr of
                None \<Rightarrow> st
              | Some m \<Rightarrow> st\<lparr>allowedVersionMask := m\<rparr>))
      else st)"

definition stratumHandleServerAuthorizeResponse :: "JSONRPCResponse \<Rightarrow> bool" where
  "stratumHandleServerAuthorizeResponse response = (Result response = JBool True)"

definition sessionExtraNonce :: "StratumSession \<Rightarrow> string option" where
  "sessionExtraNonce session =
     (if isNiceHashClient session then goSlice (sessionIDString session) 0 4
      else Some (sessionIDString session))"

definition stratumHandleServerSubscribeResponse ::
  "StratumSession \<Rightarrow> JSONRPCResponse \<Rightarrow> error option" where
  "stratumHandleServerSubscribeResponse session response =
     (case protocolType session of
        ProtocolBitcoinStratum \<Rightarrow>
          (case Result response of
             JArr result \<Rightarrow>
               if length result < 2 then Some ErrParseSubscribeResponseFailed
               else (case result ! 1 of
                       JStr sid \<Rightarrow>
                         if sid \<noteq> sessionIDString session then Some ErrSessionIDInconformity
                         else None
                     | _ \<Rightarrow> Some ErrParseSubscribeResponseFailed)
           | _ \<Rightarrow> Some ErrParseSubscribeResponseFailed)
      | ProtocolEthereumStratumNiceHash \<Rightarrow>
          (case Result response of
             JArr result \<Rightarrow>
               if length result < 2 then Some ErrParseSubscribeResponseFailed
               else (case result ! 0 of
                       JArr notify \<Rightarrow>
                         if length notify < 2 then Some GoPanic
                         else (case notify ! 1 of
                                 JStr sid \<Rightarrow>
                                   (case sessionExtraNonce session of
                                      None \<Rightarrow> Some GoPanic
                                    | Some expected \<Rightarrow>
                                        (case result ! 1 of
                                           JStr extraNonce \<Rightarrow>
                                             if sid \<noteq> sessionIDString session
                                             then Some ErrSessionIDInconformity
                                             else if extraNonce \<noteq> expected
                                             then Some ErrSessionIDInconformity
                                             else None
                                         | _ \<Rightarrow> Some ErrParseSubscribeResponseFailed))
                               | _ \<Rightarrow> Some ErrParseSubscribeResponseFailed)
                     | _ \<Rightarrow> Some ErrParseSubscribeResponseFailed)
           | _ \<Rightarrow> Some ErrParseSubscribeResponseFailed)
      | ProtocolEthereumStratum \<Rightarrow>
          (if Result response = JBool True then None else Some ErrParseSubscribeResponseFailed)
      | ProtocolEthereumProxy \<Rightarrow>
          (if Result response = JBool True then None else Some ErrParseSubscribeResponseFailed)
      | ProtocolUnknown \<Rightarrow> Some GlogFatal)"

definition handleAuthResponse :: "JSONRPCResponse \<Rightarrow> authState \<Rightarrow> authState" where
  "handleAuthResponse response st =
     (let st1 = st\<lparr>authMsgCounter := authMsgCounter st + 1\<rparr>;
          success = stratumHandleServerAuthorizeResponse response;
          st2 = (if success \<or> \<not> authSuccess st1 then st1\<lparr>authResponse := response\<rparr> else st1)
      in if success then st2\<lparr>authSuccess := True, authMsgCounter := 2\<rparr> else st2)"

definition stratumHandleServerResponse ::
  "StratumSession \<Rightarrow> JSONRPCResponse \<Rightarrow> authState \<Rightarrow> error option \<times> authState" where
  "stratumHandleServerResponse session response st =
     (case RespID response of
        JStr rid \<Rightarrow>
          if rid = ''configure'' then (None, st)
          else if rid = ''subscribe'' then (stratumHandleServerSubscribeResponse session response, st)
          else if rid = ''auth'' then (None, handleAuthResponse response st)
          else (None, st)
      | _ \<Rightarrow> (None, st))"

text \<open>
  The body of the receiving loop of \<open>serverSubscribeAndAuthorize\<close> for one line read: a
  line that decodes as a response with an ID is handled as a response, and the second
  authorize (with the suffix) is sent when the first has failed; any other line is handled
  as a notification where it decodes as a request. The error is the one that ends the
  goroutine.
\<close>

definition responseWithID :: "srvline \<Rightarrow> JSONRPCResponse option" where
  "responseWithID l =
     (case asResponse l of
        Some response \<Rightarrow> if RespID response \<noteq> JNull then Some response else None
      | None \<Rightarrow> None)"

definition serverResponseStep ::
  "StratumSessionManager \<Rightarrow> StratumSession \<Rightarrow> world \<Rightarrow> authState \<Rightarrow> srvline
     \<Rightarrow> error option \<times> authState \<times> world" where
  "serverResponseStep mgr session w st l =
     (case responseWithID l of
        Some response \<Rightarrow>
          (case stratumHandleServerResponse session response st of
             (Some e, st1) \<Rightarrow> (Some e, st1, w)
           | (None, st1) \<Rightarrow>
               if \<not> authSuccess st1 \<and> authMsgCounter st1 = 1 then
                 (case sendMiningAuthorizeToServer mgr session w True of
                    (w1, e) \<Rightarrow> (e, st1, w1))
               else (None, st1, w))
      | None \<Rightarrow>
          (case asRequest l of
             Some notify \<Rightarrow> (None, stratumHandleServerNotify notify st, w)
           | None \<Rightarrow> (None, st, w)))"

text \<open>
  The receiving loop, \<open>for authMsgCounter < 2\<close>, over the lines of the server that are
  still unread; reading fails where no line is left. It returns the error that ends the
  goroutine (\<open>None\<close> where the loop ends by its condition), the local variables, the
  world and the unread lines.
\<close>

fun serverResponseLoop ::
  "StratumSessionManager \<Rightarrow> StratumSession \<Rightarrow> world \<Rightarrow> authState \<Rightarrow> srvline list
     \<Rightarrow> error option \<times> authState \<times> world \<times> srvline list" where
  "serverResponseLoop mgr session w st [] =
     (if authMsgCounter st < 2 then (Some ErrReadLineFailed, st, w, []) else (None, st, w, []))"
| "serverResponseLoop mgr session w st (l # ls) =
     (if authMsgCounter st < 2 then
        (case serverResponseStep mgr session w st l of
           (Some e, st1, w1) \<Rightarrow> (Some e, st1, w1, ls)
         | (None, st1, w1) \<Rightarrow> serverResponseLoop mgr session w1 st1 ls)
      else (None, st, w, l # ls))"

text \<open>
  Two kinds of lines of the server: the response to an authorize request, and a line that
  is no such response and raises no error in the loop (a notification, a line that does
  not decode, the response to the configure request, a subscribe response that passes
  the checks).
\<close>

definition authLine :: "srvline \<Rightarrow> JSONRPCResponse \<Rightarrow> bool" where
  "authLine l response \<longleftrightarrow> asResponse l = Some response \<and> RespID response = JStr ''auth''"

definition noAuthLine :: "StratumSession \<Rightarrow> srvline \<Rightarrow> bool" where
  "noAuthLine session l =
     (case responseWithID l of
        None \<Rightarrow> True
      | Some response \<Rightarrow>
          RespID response \<noteq> JStr ''auth''
          \<and> fst (stratumHandleServerResponse session response initAuthState) = None)"

definition notAuthorize :: "JSONRPCRequest \<Rightarrow> bool" where
  "notAuthorize request \<longleftrightarrow> ID request \<noteq> JStr ''auth''"

definition setVersionMaskNotify :: "uint32 \<Rightarrow> JSONRPCRequest" where
  "setVersionMaskNotify m =
     \<lparr> ID = JNull, Method = ''mining.set_version_mask'',
       Params = [JStr (map (nibble m) [7, 6, 5, 4, 3, 2, 1, 0])], Worker = [] \<rparr>"

text \<open>
  What the goroutine of \<open>serverSubscribeAndAuthorize\<close> does after its loop: the authorize
  response goes to the client under the ID of the client's request, then the version
  mask where there is one.
\<close>

definition forwardAuthResponse ::
  "StratumSession \<Rightarrow> world \<Rightarrow> authState \<Rightarrow> world \<times> error option" where
  "forwardAuthResponse session w st =
     (case stratumAuthorizeRequest session of
        None \<Rightarrow> (w, Some GoPanic)
      | Some saved \<Rightarrow>
          (case writeJSONResponseToClient session w ((authResponse st)\<lparr>RespID := ID saved\<rparr>) of
             (w1, Some e) \<Rightarrow> (w1, Some e)
           | (w1, None) \<Rightarrow>
               if authSuccess st \<and> versionMask session \<noteq> 0 then
                 (case writeJSONNotifyToClient w1
                         (setVersionMaskNotify (allowedVersionMask st AND versionMask session)) of
                    (w2, Some e) \<Rightarrow> (w2, Some e)
                  | (w2, None) \<Rightarrow> (w2, None))
               else if \<not> authSuccess st then (w1, Some ErrAuthorizeFailedForServer)
               else (w1, None)))"

definition serverSubscribeAndAuthorize ::
  "StratumSessionManager \<Rightarrow> StratumSession \<Rightarrow> world
     \<Rightarrow> StratumSession \<times> world \<times> error option" where
  "serverSubscribeAndAuthorize mgr session w =
     (case sendMiningConfigureToServer session w of
        (w1, Some e) \<Rightarrow> (session, w1, Some e)
      | (w1, None) \<Rightarrow>
          (case sendMiningSubscribeToServer session w1 of
             (session1, w2, Some e) \<Rightarrow> (session1, w2, Some e)
           | (session1, w2, None) \<Rightarrow>
               (case sendMiningAuthorizeToServer mgr session1 w2 False of
                  (w3, Some e) \<Rightarrow> (session1, w3, Some e)
                | (w3, None) \<Rightarrow>
                    (case serverConn w3 of
                       None \<Rightarrow> (session1, w3, Some GoPanic)
                     | Some c \<Rightarrow>
                         (case serverResponseLoop mgr session1 w3 initAuthState (incoming c) of
                            (err, st, w4, rest) \<Rightarrow>
                              (let w5 = w4\<lparr>serverConn := Some (c\<lparr>incoming := rest\<rparr>)\<rparr>
                               in case err of
                                    Some e \<Rightarrow> (session1, w5, Some e)
                                  | None \<Rightarrow>
                                      (case forwardAuthResponse session1 w5 st of
                                         (w6, err1) \<Rightarrow> (session1, w6, err1))))))))"

section \<open>StratumSession.go and StratumSessionManager.go: connecting, reconnecting, stopping\<close>

text \<open>
  \<open>connectStratumServer\<close>. The error of the write of the error response to the client is
  dropped, as in the source.
\<close>

definition connectStratumServer ::
  "StratumSessionManager \<Rightarrow> StratumSession \<Rightarrow> world
     \<Rightarrow> StratumSession \<times> world \<times> error option" where
  "connectStratumServer mgr session w0 =
     (let w = logEvent CallConnectStratumServer w0;
          runningStat0 = runningStat session;
          rpcID = (case stratumAuthorizeRequest session of None \<Rightarrow> JNull | Some saved \<Rightarrow> ID saved);
          sid = JNum (uint (mgrServerID mgr))
      in case stratumServerInfoMap mgr (miningCoin session) of
           None \<Rightarrow>
             (let w1 = (if runningStat0 \<noteq> StatReconnecting then
                          fst (writeJSONResponseToClient session w
                                 \<lparr> RespID = rpcID, Result = JNull,
                                   Error = ToJSONRPCArray (Some StratumErrStratumServerNotFound) sid \<rparr>)
                        else w)
              in (session, w1, Some (ErrStratum StratumErrStratumServerNotFound)))
         | Some serverInfo \<Rightarrow>
             (case dials w of
                Some c # ds \<Rightarrow>
                  serverSubscribeAndAuthorize mgr session (w\<lparr>dials := ds, serverConn := Some c\<rparr>)
              | _ \<Rightarrow>
                  (let w1 = w\<lparr>dials := tl (dials w)\<rparr>;
                       w2 = (if runningStat0 \<noteq> StatReconnecting then
                               fst (writeJSONResponseToClient session w1
                                      \<lparr> RespID = rpcID, Result = JNull,
                                        Error = ToJSONRPCArray
                                          (Some StratumErrConnectStratumServerFailed) sid \<rparr>)
                             else w1)
                   in (session, w2, Some (ErrStratum StratumErrConnectStratumServerFailed)))))"

definition RegisterStratumSession ::
  "StratumSessionManager \<Rightarrow> StratumSession \<Rightarrow> StratumSessionManager" where
  "RegisterStratumSession mgr session = mgr\<lparr>sessions := insert (sessionID session) (sessions mgr)\<rparr>"

definition UnRegisterStratumSession ::
  "StratumSessionManager \<Rightarrow> StratumSession \<Rightarrow> error + StratumSessionManager" where
  "UnRegisterStratumSession mgr session =
     (case ReleaseW (zookeeperManager mgr) (zkWatchPath session) (sessionID session) of
        Inl e \<Rightarrow> Inl e
      | Inr zm \<Rightarrow>
          Inr (mgr\<lparr> sessions := sessions mgr - {sessionID session}, zookeeperManager := zm \<rparr>))"

definition ReleaseStratumSession ::
  "StratumSessionManager \<Rightarrow> StratumSession \<Rightarrow> error + StratumSessionManager" where
  "ReleaseStratumSession mgr session =
     (case ReleaseW (zookeeperManager mgr) (zkWatchPath session) (sessionID session) of
        Inl e \<Rightarrow> Inl e
      | Inr zm \<Rightarrow>
          Inr (mgr\<lparr> sessions := sessions mgr - {sessionID session},
                    sessionIDManager := FreeSessionID (sessionID session) (sessionIDManager mgr),
                    zookeeperManager := zm \<rparr>))"

type_synonym sessionState = "StratumSessionManager \<times> StratumSession \<times> world"

text \<open>\<open>Stop\<close>; the field \<open>manager\<close> that it sets to nil is not in the model.\<close>

definition Stop :: "StratumSessionManager \<Rightarrow> StratumSession \<Rightarrow> world \<Rightarrow> error + sessionState" where
  "Stop mgr session w =
     (if runningStat session = StatStoped then Inr (mgr, session, w)
      else
        let session1 = session\<lparr>runningStat := StatStoped\<rparr>;
            w1 = (if serverConn w \<noteq> None then logEvent CloseServerConn w else w);
            w2 = logEvent CloseClientConn w1
        in case ReleaseStratumSession mgr session1 of
             Inl e \<Rightarrow> Inl e
           | Inr mgr1 \<Rightarrow> Inr (mgr1, session1, w2))"

text \<open>
  \<open>proxyStratum\<close>: the session is registered and the three goroutines of the relay are
  started (\<open>StartRelay\<close>); what they do afterwards is the business of \<open>tryStop\<close>,
  \<open>tryReconnect\<close> and \<open>switchCoinType\<close>.
\<close>

definition proxyStratum :: "StratumSessionManager \<Rightarrow> StratumSession \<Rightarrow> world \<Rightarrow> sessionState" where
  "proxyStratum mgr session w =
     (if runningStat session \<noteq> StatRunning then (mgr, session, w)
      else (RegisterStratumSession mgr session, session, logEvent StartRelay w))"

text \<open>
  The loop of \<open>reconnectStratumServer\<close>,
  \<^verbatim>\<open>for i := -1; i < retryTime; i++ {
      err = session.connectStratumServer()
      if err == nil { break } else { time.Sleep(1 * time.Second) } }\<close>
  from the value \<open>i\<close> of the counter and the value \<open>err\<close> of the variable. A panic or a
  \<open>glog.Fatal\<close> inside ends the loop at once.
\<close>

function reconnectLoop ::
  "StratumSessionManager \<Rightarrow> int \<Rightarrow> int \<Rightarrow> error option \<Rightarrow> StratumSession \<Rightarrow> world
     \<Rightarrow> StratumSession \<times> world \<times> error option" where
  "reconnectLoop mgr retryTime i err session w =
     (if i < retryTime then
        (case connectStratumServer mgr session w of
           (session1, w1, None) \<Rightarrow> (session1, w1, None)
         | (session1, w1, Some e) \<Rightarrow>
             if e = GoPanic \<or> e = GlogFatal then (session1, w1, Some e)
             else reconnectLoop mgr retryTime (i + 1) (Some e) session1 (logEvent (Sleep 1) w1))
      else (session, w, err))"
  by pat_completeness auto
termination
  by (relation "measure (\<lambda>(mgr, retryTime, i, err, session, w). nat (retryTime - i))") auto

declare reconnectLoop.simps [simp del]

text \<open>
  \<open>reconnectStratumServer\<close>. \<open>Inl GoPanic\<close> is a panic: of \<open>close\<close> in \<open>ReleaseW\<close>, of
  \<open>session.serverConn.Close()\<close> on a nil connection, or inside the loop.
\<close>

definition reconnectStratumServer ::
  "StratumSessionManager \<Rightarrow> StratumSession \<Rightarrow> world \<Rightarrow> int \<Rightarrow> error + sessionState" where
  "reconnectStratumServer mgr session w retryTime =
     (case UnRegisterStratumSession mgr session of
        Inl e \<Rightarrow> Inl e
      | Inr mgr1 \<Rightarrow>
          (case serverConn w of
             None \<Rightarrow> Inl GoPanic
           | Some c \<Rightarrow>
               (let w1 = (logEvent CloseServerConn w)\<lparr>serverConn := None\<rparr>
                in case reconnectLoop mgr1 retryTime (- 1) None session w1 of
                     (session1, w2, Some e) \<Rightarrow>
                       if e = GoPanic \<or> e = GlogFatal then Inl e
                       else Inr (mgr1, session1, logEvent GoStop w2)
                   | (session1, w2, None) \<Rightarrow>
                       Inr (mgr1, session1\<lparr>runningStat := StatRunning\<rparr>,
                            logEvent GoProxyStratum w2))))"

text \<open>
  \<open>tryStop\<close>, \<open>tryReconnect\<close> and \<open>switchCoinType\<close> run under the lock of the session. The
  Boolean is the value returned.
\<close>

definition tryStop :: "StratumSession \<Rightarrow> world \<Rightarrow> uint32 \<Rightarrow> world \<times> bool" where
  "tryStop session w currentReconnectCounter =
     (if runningStat session \<noteq> StatRunning then (w, False)
      else if currentReconnectCounter = reconnectCounter session then (logEvent GoStop w, True)
      else (w, False))"

definition tryReconnect ::
  "StratumSessionManager \<Rightarrow> StratumSession \<Rightarrow> world \<Rightarrow> uint32 \<Rightarrow> error + (sessionState \<times> bool)" where
  "tryReconnect mgr session w currentReconnectCounter =
     (if runningStat session \<noteq> StatRunning then Inr ((mgr, session, w), False)
      else if currentReconnectCounter = reconnectCounter session then
        (case reconnectStratumServer mgr
                (session\<lparr>runningStat := StatReconnecting,
                         reconnectCounter := reconnectCounter session + 1\<rparr>)
                w retryTimeWhenServerDown of
           Inl e \<Rightarrow> Inl e
         | Inr st \<Rightarrow> Inr (st, True))
      else Inr ((mgr, session, w), False))"

definition switchCoinType ::
  "StratumSessionManager \<Rightarrow> StratumSession \<Rightarrow> world \<Rightarrow> string \<Rightarrow> uint32 \<Rightarrow> error + sessionState" where
  "switchCoinType mgr session0 w newMiningCoin currentReconnectCounter =
     (let session = session0\<lparr>miningCoin := newMiningCoin\<rparr>
      in if runningStat session \<noteq> StatRunning then Inr (mgr, session, w)
         else if currentReconnectCounter \<noteq> reconnectCounter session then Inr (mgr, session, w)
         else reconnectStratumServer mgr
                (session\<lparr>runningStat := StatReconnecting,
                         reconnectCounter := reconnectCounter session + 1\<rparr>)
                w retryTimeWhenServerDown)"

section \<open>Resuming a session after an upgrade\<close>

text \<open>
  \<open>findMiningCoin(false)\<close>: the call without automatic registration. The error of the
  write to the client is dropped, as in the source.
\<close>

definition findMiningCoin ::
  "(string \<rightharpoonup> string) \<Rightarrow> StratumSessionManager \<Rightarrow> StratumSession \<Rightarrow> world
     \<Rightarrow> sessionState \<times> error option" where
  "findMiningCoin zk mgr session0 w =
     (let session = session0\<lparr>zkWatchPath := zookeeperSwitcherWatchDir mgr @ subaccountName session0\<rparr>
      in case GetW zk (zookeeperManager mgr) (zkWatchPath session) (sessionID session) of
           (zm, data, event, Some e) \<Rightarrow>
             (let response =
                    \<lparr> RespID = (case stratumAuthorizeRequest session of
                                   None \<Rightarrow> JNull | Some saved \<Rightarrow> ID saved),
                      Result = JNull,
                      Error = ToJSONRPCArray (Some (NewStratumError 201 ''Invalid Sub-account Name''))
                                (JNum (uint (mgrServerID mgr))) \<rparr>
              in ((mgr\<lparr>zookeeperManager := zm\<rparr>, session,
                   fst (writeJSONResponseToClient session w response)), Some e))
         | (zm, data, event, None) \<Rightarrow>
             ((mgr\<lparr>zookeeperManager := zm\<rparr>,
               session\<lparr>miningCoin := data, zkWatchEventChan := event\<rparr>, w), None))"

text \<open>
  The replay of a saved request in \<open>Resume\<close>: nothing is done for a nil request, and the
  result of \<open>stratumHandleRequest\<close> is dropped but for its error.
\<close>

definition replayRequest ::
  "(string \<Rightarrow> string) \<Rightarrow> StratumSessionManager \<Rightarrow> (string \<rightharpoonup> string) \<Rightarrow> StratumSession
     \<Rightarrow> AuthorizeStat
     \<Rightarrow> JSONRPCRequest option \<Rightarrow> error + (StratumSession \<times> AuthorizeStat \<times> StratumError option)" where
  "replayRequest unicodeLower mgr zk session stat saved =
     (case saved of
        None \<Rightarrow> Inr (session, stat, None)
      | Some request \<Rightarrow>
          (case stratumHandleRequest unicodeLower mgr zk session request stat of
             Inl e \<Rightarrow> Inl e
           | Inr (session1, stat1, result, err) \<Rightarrow> Inr (session1, stat1, err)))"

definition Resume ::
  "(string \<Rightarrow> string) \<Rightarrow> (string \<rightharpoonup> string) \<Rightarrow> StratumSessionManager \<Rightarrow> StratumSession
     \<Rightarrow> world
     \<Rightarrow> StratumSessionData \<Rightarrow> Conn \<Rightarrow> error + sessionState" where
  "Resume unicodeLower zk mgr session0 w0 sessionData srvConn =
     (if runningStat session0 \<noteq> StatStoped then Inr (mgr, session0, w0)
      else
        let session = session0\<lparr> runningStat := StatRunning,
                                protocolType := getDefaultStratumProtocol mgr,
                                versionMask := VersionMask sessionData \<rparr>;
            w = w0\<lparr>serverConn := Some srvConn\<rparr>
        in case replayRequest unicodeLower mgr zk session StatConnected
                  (StratumSubscribeRequest sessionData) of
             Inl e \<Rightarrow> Inl e
           | Inr (session1, stat1, Some e) \<Rightarrow> Stop mgr session1 w
           | Inr (session1, stat1, None) \<Rightarrow>
               (case replayRequest unicodeLower mgr zk session1 stat1
                       (StratumAuthorizeRequest sessionData) of
                  Inl e \<Rightarrow> Inl e
                | Inr (session2, stat2, Some e) \<Rightarrow> Stop mgr session2 w
                | Inr (session2, stat2, None) \<Rightarrow>
                    if stat2 \<noteq> StatAuthorized then Stop mgr session2 w
                    else (case findMiningCoin zk mgr session2 w of
                            ((mgr3, session3, w3), Some e) \<Rightarrow> Stop mgr3 session3 w3
                          | ((mgr3, session3, w3), None) \<Rightarrow>
                              if miningCoin session3 \<noteq> MiningCoin sessionData
                              then Stop mgr3 session3 w3
                              else Inr (proxyStratum mgr3 session3 w3))))"

text \<open>
  \<open>ResumeStratumSession\<close>. \<open>newConnFromFd\<close> is a helper of this repository that is not among
  the source files: its two results are parameters. \<open>GlogError\<close> is a call of
  \<open>glog.Error\<close> with the error value it is given (the branch of \<open>serverErr\<close> passes
  \<open>clientErr\<close>, which is nil there). The result holds the manager, the session that was
  built and resumed (\<open>None\<close> where the function returns before it builds one) and the
  world.
\<close>

definition ResumeStratumSession ::
  "(string \<Rightarrow> string) \<Rightarrow> (string \<rightharpoonup> string) \<Rightarrow> StratumSessionManager \<Rightarrow> world
     \<Rightarrow> StratumSessionData
     \<Rightarrow> error + Conn \<Rightarrow> error + Conn
     \<Rightarrow> error + (StratumSessionManager \<times> StratumSession option \<times> world)" where
  "ResumeStratumSession unicodeLower zk mgr w sessionData clientRes serverRes =
     (case clientRes of
        Inl clientErr \<Rightarrow> Inr (mgr, None, logEvent (GlogError (Some clientErr)) w)
      | Inr cliConn \<Rightarrow>
          (case serverRes of
             Inl serverErr \<Rightarrow> Inr (mgr, None, logEvent (GlogError None) w)
           | Inr srvConn \<Rightarrow>
               (case remoteAddr cliConn of
                  None \<Rightarrow> Inr (mgr, None, logEvent (GlogError None) w)
                | Some addr \<Rightarrow>
                    if remoteAddr srvConn = None
                    then Inr (mgr, None, logEvent (GlogError None) w)
                    else
                      (case ResumeSessionID (SessionID sessionData) (sessionIDManager mgr) of
                         (idm, err) \<Rightarrow>
                           (let w1 = (case err of None \<Rightarrow> w | Some e \<Rightarrow> logEvent (GlogError (Some e)) w);
                                mgr1 = mgr\<lparr>sessionIDManager := idm\<rparr>
                            in case NewStratumSession mgr1 addr (SessionID sessionData) of
                                 Inl e \<Rightarrow> Inl e
                               | Inr session \<Rightarrow>
                                   (case Resume unicodeLower zk mgr1 session
                                            (w1\<lparr>clientConn := cliConn\<rparr>) sessionData srvConn of
                                      Inl e \<Rightarrow> Inl e
                                    | Inr (mgr2, session2, w2) \<Rightarrow>
                                        Inr (mgr2, Some session2, w2)))))))"

section \<open>Example states\<close>

text \<open>The manager that \<open>NewSessionIDManager(2, 16)\<close> builds: server 2 of an Ethereum chain.\<close>

definition ethManager0 :: SessionIDManager where
  "ethManager0 =
     \<lparr> serverID = 0x20000, sessionIDs = {}, count = 0, allocIDx = 128, allocInterval = 0,
       indexBits = 0, sessionIDMask = 0xFFFF \<rparr>"

text \<open>
  A manager of a Bitcoin chain with server ID 3 and upstream servers for \<open>btc\<close> and
  \<open>bch\<close>, and the same manager for an Ethereum chain with server ID 2.
\<close>

definition btcManager :: StratumSessionManager where
  "btcManager =
     \<lparr> sessions = {},
       sessionIDManager =
         \<lparr> serverID = 0x03000000, sessionIDs = {}, count = 0, allocIDx = 128,
           allocInterval = 0, indexBits = 0, sessionIDMask = 0xFFFFFF \<rparr>,
       zookeeperManager =
         \<lparr> watcherMap = Map.empty, chans = [], zkGetWCalls = [], watcherRuns = [] \<rparr>,
       stratumServerInfoMap =
         [''btc'' \<mapsto> \<lparr> URL = ''btc.pool:3333'', UserSuffix = ''btc'' \<rparr>,
          ''bch'' \<mapsto> \<lparr> URL = ''bch.pool:3333'', UserSuffix = ''bch'' \<rparr>],
       zookeeperSwitcherWatchDir = ''/switcher/'',
       stratumServerCaseInsensitive = False,
       zkUserCaseInsensitiveIndex = [],
       chainType = ChainTypeBitcoin,
       mgrServerID = 3 \<rparr>"

definition ethManager :: StratumSessionManager where
  "ethManager =
     btcManager\<lparr> sessionIDManager := setAllocInterval 256 ethManager0,
                 chainType := ChainTypeEthereum, mgrServerID := 2 \<rparr>"

text \<open>The requests of a miner \<open>alice.rig1\<close>, and the login of an EthProxy miner.\<close>

definition subscribeRequest :: JSONRPCRequest where
  "subscribeRequest =
     \<lparr> ID = JNum 1, Method = ''mining.subscribe'', Params = [JStr ''cgminer/4.10.0''],
       Worker = [] \<rparr>"

definition authorizeRequest :: JSONRPCRequest where
  "authorizeRequest =
     \<lparr> ID = JNum 2, Method = ''mining.authorize'', Params = [JStr ''alice.rig1'', JStr ''x''],
       Worker = [] \<rparr>"

definition loginRequest :: JSONRPCRequest where
  "loginRequest =
     \<lparr> ID = JNum 1, Method = ''eth_submitLogin'', Params = [JStr ''alice''],
       Worker = ''rig1'' \<rparr>"

text \<open>
  The session of \<open>alice.rig1\<close> with the ID \<open>0x03000001\<close> on the Bitcoin manager, in pure
  proxy mode on \<open>btc\<close> after its handshake.
\<close>

definition btcSession :: StratumSession where
  "btcSession =
     \<lparr> protocolType = ProtocolBitcoinStratum, isBTCAgent = False, isNiceHashClient = False,
       jsonRPCVersion = 1, versionMask = 0, runningStat = StatRunning, reconnectCounter = 0,
       clientIPPort = ''10.0.0.7:51234'', sessionID = 0x03000001,
       sessionIDString = ''03000001'', fullWorkerName = ''alice.rig1'',
       subaccountName = ''alice'', minerNameWithDot = ''.rig1'',
       stratumSubscribeRequest = Some subscribeRequest,
       stratumAuthorizeRequest = Some authorizeRequest, miningCoin = ''btc'',
       zkWatchPath = ''/switcher/alice'', zkWatchEventChan = None \<rparr>"

text \<open>
  The same session as \<open>NewStratumSession\<close> builds it, the session with the ID
  \<open>0x02003f\<close> as \<open>NewStratumSession\<close> builds it on the Ethereum manager, and that
  session after \<open>Run\<close> has set the default protocol of the chain.
\<close>

definition btcSession0 :: StratumSession where
  "btcSession0 =
     btcSession\<lparr> runningStat := StatStoped, fullWorkerName := [], subaccountName := [],
                 minerNameWithDot := [], stratumSubscribeRequest := None,
                 stratumAuthorizeRequest := None, miningCoin := [], zkWatchPath := [] \<rparr>"

definition ethSession0 :: StratumSession where
  "ethSession0 = btcSession0\<lparr> sessionID := 0x0002003F, sessionIDString := ''02003f'' \<rparr>"

definition ethSession :: StratumSession where
  "ethSession = ethSession0\<lparr> runningStat := StatRunning, protocolType := ProtocolEthereumProxy \<rparr>"

definition niceHashSubscribeRequest :: JSONRPCRequest where
  "niceHashSubscribeRequest =
     \<lparr> ID = JNum 1, Method = ''mining.subscribe'',
       Params = [JStr ''NiceHash/1.0.0'', JStr ''EthereumStratum/1.0.0''], Worker = [] \<rparr>"

definition dotAuthorizeRequest :: JSONRPCRequest where
  "dotAuthorizeRequest = authorizeRequest\<lparr> Params := [JStr ''.'', JStr ''x''] \<rparr>"

text \<open>
  A world in which the upstream server is down: the session has its two sockets, and
  every coming dial fails.
\<close>

definition downWorld :: world where
  "downWorld =
     \<lparr> dials = [],
       serverConn = Some \<lparr> remoteAddr = Some ''btc.pool:3333'', incoming = [], writable = True \<rparr>,
       clientConn = \<lparr> remoteAddr = Some ''10.0.0.7:51234'', incoming = [], writable = True \<rparr>,
       toServer = [], toClient = [], events = [], IP2Long = (\<lambda>ip. 0) \<rparr>"

text \<open>
  The coordinator client with a live watcher on the path of \<open>alice\<close>, which holds the
  value \<open>btc\<close> and a channel for the session \<open>0x03000001\<close>.
\<close>

definition exampleZookeeperManager :: ZookeeperManager where
  "exampleZookeeperManager =
     \<lparr> watcherMap = [''/switcher/alice'' \<mapsto>
          \<lparr> nodePath = ''/switcher/alice'', nodeValue = ''btc'', zkWatchEvent = Some 0,
            watcherChannels = [0x03000001 \<mapsto> 1] \<rparr>],
       chans = [makeChan 1, makeChan 1],
       zkGetWCalls = [''/switcher/alice''],
       watcherRuns = [''/switcher/alice''] \<rparr>"

text \<open>
  A handshake in which the upstream server answers the subscription, refuses the first
  authorize and accepts the second: the three lines that the session of \<open>alice.rig1\<close> reads.
\<close>

definition subscribeResponseLine :: srvline where
  "subscribeResponseLine =
     \<lparr> asResponse = Some \<lparr> RespID = JStr ''subscribe'',
                            Result = JArr [JArr [], JStr ''03000001'', JNum 8],
                            Error = JNull \<rparr>,
       asRequest = Some \<lparr> ID = JStr ''subscribe'', Method = [], Params = [], Worker = [] \<rparr> \<rparr>"

definition authFailureResponse :: JSONRPCResponse where
  "authFailureResponse =
     \<lparr> RespID = JStr ''auth'', Result = JNull,
       Error = JArr [JNum 24, JStr ''Unauthorized worker'', JNull] \<rparr>"

definition authSuccessResponse :: JSONRPCResponse where
  "authSuccessResponse = \<lparr> RespID = JStr ''auth'', Result = JBool True, Error = JNull \<rparr>"

definition authFailureLine :: srvline where
  "authFailureLine =
     \<lparr> asResponse = Some authFailureResponse,
       asRequest = Some \<lparr> ID = JStr ''auth'', Method = [], Params = [], Worker = [] \<rparr> \<rparr>"

definition authSuccessLine :: srvline where
  "authSuccessLine =
     \<lparr> asResponse = Some authSuccessResponse,
       asRequest = Some \<lparr> ID = JStr ''auth'', Method = [], Params = [], Worker = [] \<rparr> \<rparr>"

definition handshakeConn :: Conn where
  "handshakeConn =
     \<lparr> remoteAddr = Some ''btc.pool:3333'',
       incoming = [subscribeResponseLine, authFailureLine, authSuccessLine],
       writable = True \<rparr>"

definition handshakeWorld :: world where
  "handshakeWorld = downWorld\<lparr> serverConn := Some handshakeConn \<rparr>"

text \<open>
  An upgrade resume of the session of \<open>alice.rig1\<close> on a manager whose session ID
  \<open>0x03000001\<close> is already held by a registered session: the manager, the saved session
  data, the coordinator's nodes, the world and the two connections made from the inherited
  file descriptors.
\<close>

definition resumedManager :: StratumSessionManager where
  "resumedManager =
     btcManager\<lparr> sessions := {0x03000001},
                 sessionIDManager :=
                   (sessionIDManager btcManager)\<lparr> sessionIDs := {1}, count := 1 \<rparr> \<rparr>"

definition resumeData :: StratumSessionData where
  "resumeData =
     \<lparr> SessionID = 0x03000001, MiningCoin = ''btc'', ClientConnFD = 7, ServerConnFD = 8,
       StratumSubscribeRequest = Some subscribeRequest,
       StratumAuthorizeRequest = Some authorizeRequest, VersionMask = 0 \<rparr>"

definition resumeZk :: "string \<rightharpoonup> string" where
  "resumeZk = [''/switcher/alice'' \<mapsto> ''btc'']"

definition resumeWorld :: world where
  "resumeWorld = downWorld\<lparr> serverConn := None \<rparr>"

definition resumeClientConn :: Conn where
  "resumeClientConn = \<lparr> remoteAddr = Some ''10.0.0.7:51234'', incoming = [], writable = True \<rparr>"

definition resumeServerConn :: Conn where
  "resumeServerConn = \<lparr> remoteAddr = Some ''btc.pool:3333'', incoming = [], writable = True \<rparr>"

text \<open>
  The manager that \<open>NewSessionIDManager(3, 16)\<close> builds, and that manager with the stride
  256 after the session IDs \<open>0x03ff80\<close> and \<open>0x030080\<close> have been resumed on it.
\<close>

definition server3Manager0 :: SessionIDManager where
  "server3Manager0 =
     \<lparr> serverID = 0x30000, sessionIDs = {}, count = 0, allocIDx = 128, allocInterval = 0,
       indexBits = 0, sessionIDMask = 0xFFFF \<rparr>"

definition server3Resumed :: SessionIDManager where
  "server3Resumed =
     \<lparr> serverID = 0x30000, sessionIDs = {0x80, 0xFF80}, count = 2, allocIDx = 0x10080,
       allocInterval = 256, indexBits = 0, sessionIDMask = 0xFFFF \<rparr>"

text \<open>
  The session of \<open>alice.rig1\<close> after one reconnect: its reconnect counter is 1, and a
  goroutine that has read the counter before the reconnect holds the epoch 0.
\<close>

definition reconnectedSession :: StratumSession where
  "reconnectedSession = btcSession\<lparr> reconnectCounter := 1 \<rparr>"

section \<open>Properties of the session ID allocator\<close>

lemma unat_and_mask_eq:
  fixes i :: uint32
  shows "unat (i AND mask k) = unat i mod 2 ^ k"
proof -
  have "i AND mask k = take_bit k i" by (simp add: take_bit_eq_mask)
  then have "unat (i AND mask k) = take_bit k (unat i)" by (simp only: unsigned_take_bit_eq)
  then show ?thesis by (simp add: take_bit_eq_mod)
qed

lemma unat_step:
  fixes i :: uint32
  assumes "k \<le> 24" "unat i < 2 ^ k"
  shows "unat ((i + 1) AND mask k) = (unat i + 1) mod 2 ^ k"
proof -
  have "(2::nat) ^ k \<le> 2 ^ 24" using assms(1) by (intro power_increasing) simp_all
  then have "unat i + 1 < 2 ^ 32" using assms(2) by simp
  then have "unat (i + 1) = unat i + 1"
    by (simp add: unat_word_ariths)
  moreover have "unat ((i + 1) AND mask k) = unat (i + 1) mod 2 ^ k"
    by (rule unat_and_mask_eq)
  ultimately show ?thesis by simp
qed

lemma unat_and_mask_less:
  fixes i :: uint32
  shows "unat (i AND mask k) < 2 ^ k"
  by (simp add: unat_and_mask_eq)

lemma scan_up:
  fixes i :: uint32
  assumes "k \<le> 24" "j < 2 ^ k" "j \<notin> b" "unat i \<le> j"
  shows "\<exists>r. findEmptyBit b (mask k) i = Some r \<and> unat r \<notin> b \<and> unat r \<le> j"
  using assms(4)
proof (induction "j - unat i" arbitrary: i)
  case 0
  then have "unat i = j" by simp
  then show ?case using assms(3) by (subst findEmptyBit.simps) (simp add: BitSet_Test_def)
next
  case (Suc d)
  show ?case
  proof (cases "unat i \<in> b")
    case False
    then show ?thesis using Suc.prems by (subst findEmptyBit.simps) (simp add: BitSet_Test_def)
  next
    case True
    have lt: "unat i < j" using Suc.hyps(2) by simp
    then have "unat i < 2 ^ k" using assms(2) by simp
    then have st: "unat ((i + 1) AND mask k) = unat i + 1"
      using unat_step [OF assms(1), of i] lt assms(2) by simp
    have "\<exists>r. findEmptyBit b (mask k) ((i + 1) AND mask k) = Some r \<and> unat r \<notin> b \<and> unat r \<le> j"
      using Suc.hyps(2) lt st by (intro Suc.hyps(1)) simp_all
    then show ?thesis using True by (subst findEmptyBit.simps) (simp add: BitSet_Test_def)
  qed
qed

lemma scan_wrap:
  fixes i :: uint32
  assumes "k \<le> 24" "unat i < 2 ^ k" "\<forall>a. unat i \<le> a \<and> a < 2 ^ k \<longrightarrow> a \<in> b"
  shows "findEmptyBit b (mask k) i = findEmptyBit b (mask k) 0"
  using assms(2,3)
proof (induction "2 ^ k - unat i" arbitrary: i)
  case 0
  then show ?case by simp
next
  case (Suc d)
  have mem: "unat i \<in> b" using Suc.prems by simp
  have unf: "findEmptyBit b (mask k) i = findEmptyBit b (mask k) ((i + 1) AND mask k)"
    using mem by (subst findEmptyBit.simps) (simp add: BitSet_Test_def)
  show ?case
  proof (cases "unat i + 1 = 2 ^ k")
    case True
    then have "unat ((i + 1) AND mask k) = 0"
      using unat_step [OF assms(1) Suc.prems(1)] by simp
    then have "(i + 1) AND mask k = 0" by (simp add: unat_eq_0)
    then show ?thesis using unf by simp
  next
    case False
    then have st: "unat ((i + 1) AND mask k) = unat i + 1"
      using unat_step [OF assms(1) Suc.prems(1)] Suc.prems(1) by simp
    have "findEmptyBit b (mask k) ((i + 1) AND mask k) = findEmptyBit b (mask k) 0"
      using Suc.hyps(2) Suc.prems False st by (intro Suc.hyps(1)) simp_all
    then show ?thesis using unf by simp
  qed
qed

lemma scan_in_range:
  fixes i :: uint32
  assumes "k \<le> 24" "j < 2 ^ k" "j \<notin> b" "unat i < 2 ^ k"
  shows "\<exists>r. findEmptyBit b (mask k) i = Some r \<and> unat r \<notin> b \<and> unat r < 2 ^ k"
proof (cases "\<exists>a. unat i \<le> a \<and> a < 2 ^ k \<and> a \<notin> b")
  case True
  then obtain a where a: "unat i \<le> a" "a < 2 ^ k" "a \<notin> b" by blast
  from scan_up [OF assms(1) a(2) a(3) a(1)] a(2) show ?thesis by fastforce
next
  case False
  then have "findEmptyBit b (mask k) i = findEmptyBit b (mask k) 0"
    using scan_wrap [OF assms(1) assms(4)] by blast
  moreover have "\<exists>r. findEmptyBit b (mask k) (0::uint32) = Some r \<and> unat r \<notin> b \<and> unat r \<le> j"
    using scan_up [OF assms(1-3), of 0] by simp
  ultimately show ?thesis using assms(2) by fastforce
qed

lemma scan_any:
  fixes i :: uint32
  assumes "k \<le> 24" "j < 2 ^ k" "j \<notin> b"
  shows "\<exists>r. findEmptyBit b (mask k) i = Some r \<and> unat r \<notin> b \<and> (r = i \<or> unat r < 2 ^ k)"
proof (cases "unat i \<in> b")
  case False
  then show ?thesis by (subst findEmptyBit.simps) (simp add: BitSet_Test_def)
next
  case True
  have "\<exists>r. findEmptyBit b (mask k) ((i + 1) AND mask k) = Some r \<and> unat r \<notin> b \<and> unat r < 2 ^ k"
    using scan_in_range [OF assms] unat_and_mask_less by blast
  then obtain r where "findEmptyBit b (mask k) ((i + 1) AND mask k) = Some r" "unat r \<notin> b" "unat r < 2 ^ k"
    by blast
  moreover have "findEmptyBit b (mask k) i = findEmptyBit b (mask k) ((i + 1) AND mask k)"
    using True by (subst findEmptyBit.simps) (simp add: BitSet_Test_def)
  ultimately show ?thesis by simp
qed

lemma free_bit_exists:
  assumes "finite b" "card b < n"
  shows "\<exists>j<n. j \<notin> b"
proof (rule ccontr)
  assume "\<not> (\<exists>j<n. j \<notin> b)"
  then have "{..<n} \<subseteq> b" by auto
  then have "card {..<n} \<le> card b" using assms(1) by (rule card_mono [rotated])
  then show False using assms(2) by simp
qed

lemma unat_mask32: "k \<le> 24 \<Longrightarrow> unat (mask k :: uint32) = 2 ^ k - 1"
proof -
  assume k: "k \<le> 24"
  have "uint (mask k :: uint32) = mask k" using k by (simp add: uint_mask_eq min_def)
  then have "unat (mask k :: uint32) = nat (mask k)" by (simp add: unat_eq_nat_uint)
  also have "\<dots> = 2 ^ k - 1" by (simp add: mask_eq_exp_minus_1 nat_diff_distrib nat_power_eq)
  finally show ?thesis .
qed

lemma not_full_iff:
  assumes "wf k m"
  shows "\<not> isFullWithoutLock m \<longleftrightarrow> card (sessionIDs m) < 2 ^ k"
proof -
  have "\<not> isFullWithoutLock m \<longleftrightarrow> unat (count m) \<le> unat (mask k :: uint32)"
    using assms by (simp add: isFullWithoutLock_def wf_def word_le_nat_alt not_less)
  also have "\<dots> \<longleftrightarrow> unat (count m) \<le> 2 ^ k - 1"
    using assms by (simp add: unat_mask32 wf_def)
  also have "\<dots> \<longleftrightarrow> card (sessionIDs m) < 2 ^ k"
  proof -
    have "(1::nat) \<le> 2 ^ k" by simp
    moreover have "card (sessionIDs m) = unat (count m)" using assms by (simp add: wf_def)
    ultimately show ?thesis by arith
  qed
  finally show ?thesis .
qed

lemma AllocSessionID_not_full:
  assumes "wf k m" "\<not> isFullWithoutLock m"
  shows "\<exists>i. AllocSessionID m =
            Some (m\<lparr> sessionIDs := insert (unat i) (sessionIDs m), count := count m + 1,
                     allocIDx := (i + allocInterval m) AND sessionIDMask m \<rparr>,
                  serverID m OR i, None)
          \<and> unat i \<notin> sessionIDs m
          \<and> (i = allocIDx m \<or> i \<le> sessionIDMask m)
          \<and> wf k (m\<lparr> sessionIDs := insert (unat i) (sessionIDs m), count := count m + 1,
                     allocIDx := (i + allocInterval m) AND sessionIDMask m \<rparr>)"
proof -
  have k: "k \<le> 24" and msk: "sessionIDMask m = mask k" and fin: "finite (sessionIDs m)"
    and cnt: "card (sessionIDs m) = unat (count m)"
    using assms(1) by (simp_all add: wf_def)
  have lt: "card (sessionIDs m) < 2 ^ k" using assms not_full_iff by blast
  then obtain j where j: "j < 2 ^ k" "j \<notin> sessionIDs m"
    using free_bit_exists [OF fin] by blast
  obtain r where r: "findEmptyBit (sessionIDs m) (mask k) (allocIDx m) = Some r"
      "unat r \<notin> sessionIDs m" "r = allocIDx m \<or> unat r < 2 ^ k"
    using scan_any [OF k j] by blast
  have p24: "(2::nat) ^ k \<le> 2 ^ 24" using k by (intro power_increasing) simp_all
  have "unat (count m) + 1 < 2 ^ 32" using lt cnt p24 by simp
  then have c1: "unat (count m + 1) = unat (count m) + 1" by (simp add: unat_word_ariths)
  have rle: "r = allocIDx m \<or> r \<le> sessionIDMask m"
    using r(3) k by (auto simp: msk word_le_nat_alt unat_mask32)
  have "wf k (m\<lparr> sessionIDs := insert (unat r) (sessionIDs m), count := count m + 1,
                     allocIDx := (r + allocInterval m) AND sessionIDMask m \<rparr>)"
    using assms(1) r(2) c1 by (simp add: wf_def)
  then show ?thesis
    using r(1,2) rle assms(2) by (intro exI [of _ r]) (simp add: AllocSessionID_def msk BitSet_Set_def)
qed


lemma AllocSessionID_full:
  "isFullWithoutLock m \<Longrightarrow> AllocSessionID m = Some (m, sessionIDMask m, Some ErrSessionIDFull)"
  by (simp add: AllocSessionID_def)

lemma allocN_fill:
  assumes "wf k m" "card (sessionIDs m) + n = 2 ^ k"
  shows "\<exists>m'. allocN n m = Some m' \<and> wf k m' \<and> isFullWithoutLock m'
            \<and> sessionIDs m \<subseteq> sessionIDs m' \<and> card (sessionIDs m') = 2 ^ k"
  using assms
proof (induction n arbitrary: m)
  case 0
  then show ?case using not_full_iff [of k m] by simp
next
  case (Suc n)
  have nf: "\<not> isFullWithoutLock m" using Suc.prems not_full_iff [of k m] by simp
  from AllocSessionID_not_full [OF Suc.prems(1) nf]
  obtain i m1 where a: "AllocSessionID m = Some (m1, serverID m OR i, None)"
    "unat i \<notin> sessionIDs m" "wf k m1" "sessionIDs m1 = insert (unat i) (sessionIDs m)"
    by fastforce
  have fin: "finite (sessionIDs m)" using Suc.prems(1) by (simp add: wf_def)
  have "card (sessionIDs m1) + n = 2 ^ k" using a(2,4) fin Suc.prems(2) by simp
  from Suc.IH [OF a(3) this] obtain m' where m': "allocN n m1 = Some m'" "wf k m'"
    "isFullWithoutLock m'" "sessionIDs m1 \<subseteq> sessionIDs m'" "card (sessionIDs m') = 2 ^ k"
    by blast
  then show ?case using a(1,4) by auto
qed

lemma allocN_partial:
  assumes "wf k m" "card (sessionIDs m) + n < 2 ^ k"
  shows "\<exists>m'. allocN n m = Some m' \<and> wf k m' \<and> \<not> isFullWithoutLock m'"
  using assms
proof (induction n arbitrary: m)
  case 0
  then show ?case using not_full_iff [of k m] by simp
next
  case (Suc n)
  have nf: "\<not> isFullWithoutLock m" using Suc.prems not_full_iff [of k m] by simp
  from AllocSessionID_not_full [OF Suc.prems(1) nf]
  obtain i m1 where a: "AllocSessionID m = Some (m1, serverID m OR i, None)"
    "unat i \<notin> sessionIDs m" "wf k m1" "sessionIDs m1 = insert (unat i) (sessionIDs m)"
    by fastforce
  have fin: "finite (sessionIDs m)" using Suc.prems(1) by (simp add: wf_def)
  have "card (sessionIDs m1) + n < 2 ^ k" using a(2,4) fin Suc.prems(2) by simp
  from Suc.IH [OF a(3) this] show ?case using a(1) by auto
qed

lemma wf_New:
  assumes "NewSessionIDManager sid ib = Inr m"
  shows "wf (unat ib) (setAllocInterval v m) \<and> sessionIDs (setAllocInterval v m) = {}"
proof -
  have ib: "unat ib \<le> 24" using assms
    by (auto simp: NewSessionIDManager_def word_le_nat_alt not_less split: if_splits)
  have m: "m = \<lparr> serverID = push_bit (unat ib) (ucast sid), sessionIDs = {}, count = 0,
      allocIDx = 128, allocInterval = 0, indexBits = 0, sessionIDMask = push_bit (unat ib) 1 - 1 \<rparr>"
    using assms by (auto simp: NewSessionIDManager_def split: if_splits)
  have "push_bit (unat ib) 1 - 1 = (mask (unat ib) :: uint32)"
    by (simp add: mask_eq_exp_minus_1 push_bit_eq_mult)
  moreover have "push_bit (unat ib) (ucast sid :: uint32) AND mask (unat ib) = 0"
    by (simp add: take_bit_eq_mask [symmetric] take_bit_push_bit)
  ultimately show ?thesis using ib by (simp add: wf_def m setAllocInterval_def)
qed

lemma or_prefix_and_mask:
  fixes i :: uint32
  assumes "p AND mask k = 0" "i \<le> mask k" "k \<le> 24"
  shows "(p OR i) AND mask k = i"
proof -
  have "unat i \<le> 2 ^ k - 1" using assms(2,3) by (simp add: word_le_nat_alt unat_mask32)
  moreover have "(1::nat) \<le> 2 ^ k" by simp
  ultimately have "unat i < 2 ^ k" by arith
  then have "int (unat i) < 2 ^ k" by (metis of_nat_less_iff of_nat_numeral of_nat_power)
  then have "i AND mask k = i" by (simp add: mask_eq_iff)
  then show ?thesis using assms(1) by (simp add: bit.conj_disj_distrib2)
qed

text \<open>
  In a state of the allocator that is not full, \<open>AllocSessionID\<close> returns: the bit of
  the index it found was clear, the call sets that bit and counts it, and the ID is the
  server-ID prefix OR-ed with that index (with a cursor within the mask the index is
  within the mask, and is the index part of the ID). From a new manager, with any stride,
  every one of the first \<open>2 ^ indexBits\<close> calls finds the allocator not full and returns an
  ID; after exactly that many the allocator is full, and the next call returns the mask
  with \<open>ErrSessionIDFull\<close> and leaves the manager, the bit set with it, as it is.
\<close>

lemma AllocSessionID_fresh_until_full:
  "(wf k m \<and> \<not> isFullWithoutLock m \<longrightarrow>
      (\<exists>i m'. AllocSessionID m = Some (m', serverID m OR i, None)
         \<and> \<not> BitSet_Test (sessionIDs m) (unat i)
         \<and> sessionIDs m' = BitSet_Set (sessionIDs m) (unat i)
         \<and> count m' = count m + 1
         \<and> (allocIDx m \<le> sessionIDMask m \<longrightarrow>
              i \<le> sessionIDMask m \<and> (serverID m OR i) AND sessionIDMask m = i)))
   \<and> (NewSessionIDManager sid ib = Inr m0 \<longrightarrow>
        (\<forall>n < 2 ^ unat ib. \<exists>m1. allocN n (setAllocInterval v m0) = Some m1
                                \<and> \<not> isFullWithoutLock m1)
      \<and> (\<exists>m1. allocN (2 ^ unat ib) (setAllocInterval v m0) = Some m1
              \<and> isFullWithoutLock m1
              \<and> AllocSessionID m1 = Some (m1, sessionIDMask m1, Some ErrSessionIDFull)))"
proof (intro conjI impI)
  assume a: "wf k m \<and> \<not> isFullWithoutLock m"
  then obtain i where i:
    "AllocSessionID m =
       Some (m\<lparr> sessionIDs := insert (unat i) (sessionIDs m), count := count m + 1,
                allocIDx := (i + allocInterval m) AND sessionIDMask m \<rparr>,
             serverID m OR i, None)"
    "unat i \<notin> sessionIDs m" "i = allocIDx m \<or> i \<le> sessionIDMask m"
    using AllocSessionID_not_full [of k m] by blast
  have msk: "sessionIDMask m = mask k" and pre: "serverID m AND mask k = 0" and k: "k \<le> 24"
    using a by (simp_all add: wf_def)
  have "allocIDx m \<le> sessionIDMask m \<longrightarrow>
          i \<le> sessionIDMask m \<and> (serverID m OR i) AND sessionIDMask m = i"
    using i(3) pre k or_prefix_and_mask [of "serverID m" k i] by (auto simp: msk)
  then show "\<exists>i m'. AllocSessionID m = Some (m', serverID m OR i, None)
         \<and> \<not> BitSet_Test (sessionIDs m) (unat i)
         \<and> sessionIDs m' = BitSet_Set (sessionIDs m) (unat i)
         \<and> count m' = count m + 1
         \<and> (allocIDx m \<le> sessionIDMask m \<longrightarrow>
              i \<le> sessionIDMask m \<and> (serverID m OR i) AND sessionIDMask m = i)"
    using i(1,2)
    by (intro exI [of _ i]
          exI [of _ "m\<lparr> sessionIDs := insert (unat i) (sessionIDs m), count := count m + 1,
                        allocIDx := (i + allocInterval m) AND sessionIDMask m \<rparr>"])
       (simp add: BitSet_Test_def BitSet_Set_def)
next
  assume new: "NewSessionIDManager sid ib = Inr m0"
  have w: "wf (unat ib) (setAllocInterval v m0)" and e: "sessionIDs (setAllocInterval v m0) = {}"
    using wf_New [OF new] by simp_all
  show "\<forall>n < 2 ^ unat ib. \<exists>m1. allocN n (setAllocInterval v m0) = Some m1
                                \<and> \<not> isFullWithoutLock m1"
    using allocN_partial [OF w] e by fastforce
next
  assume new: "NewSessionIDManager sid ib = Inr m0"
  have w: "wf (unat ib) (setAllocInterval v m0)" and e: "sessionIDs (setAllocInterval v m0) = {}"
    using wf_New [OF new] by simp_all
  obtain m1 where "allocN (2 ^ unat ib) (setAllocInterval v m0) = Some m1" "isFullWithoutLock m1"
    using allocN_fill [OF w, of "2 ^ unat ib"] e by auto
  then show "\<exists>m1. allocN (2 ^ unat ib) (setAllocInterval v m0) = Some m1
              \<and> isFullWithoutLock m1
              \<and> AllocSessionID m1 = Some (m1, sessionIDMask m1, Some ErrSessionIDFull)"
    using AllocSessionID_full by blast
qed

lemma AllocSessionID_fresh_until_full_example:
  "wf 16 (setAllocInterval 256 ethManager0)
   \<and> \<not> isFullWithoutLock (setAllocInterval 256 ethManager0)
   \<and> AllocSessionID (setAllocInterval 256 ethManager0)
       = Some (\<lparr> serverID = 0x20000, sessionIDs = {128}, count = 1, allocIDx = 384,
                 allocInterval = 256, indexBits = 0, sessionIDMask = 0xFFFF \<rparr>, 0x20080, None)
   \<and> NewSessionIDManager 2 16 = Inr ethManager0
   \<and> (\<exists>m1. allocN 65535 (setAllocInterval 256 ethManager0) = Some m1
         \<and> \<not> isFullWithoutLock m1)
   \<and> (\<exists>m1. allocN 65536 (setAllocInterval 256 ethManager0) = Some m1
         \<and> isFullWithoutLock m1
         \<and> AllocSessionID m1 = Some (m1, sessionIDMask m1, Some ErrSessionIDFull))"
proof -
  have new: "NewSessionIDManager 2 16 = Inr ethManager0"
    by (simp add: NewSessionIDManager_def ethManager0_def)
  have m16: "(mask 16 :: uint32) = 0xFFFF" by (simp add: mask_eq_exp_minus_1)
  have w: "wf 16 (setAllocInterval 256 ethManager0)"
    by (simp add: wf_def m16 setAllocInterval_def ethManager0_def)
  have nf: "\<not> isFullWithoutLock (setAllocInterval 256 ethManager0)"
    by (simp add: isFullWithoutLock_def setAllocInterval_def ethManager0_def)
  have al: "AllocSessionID (setAllocInterval 256 ethManager0)
       = Some (\<lparr> serverID = 0x20000, sessionIDs = {128}, count = 1, allocIDx = 384,
                 allocInterval = 256, indexBits = 0, sessionIDMask = 0xFFFF \<rparr>, 0x20080, None)"
    by (simp add: AllocSessionID_def isFullWithoutLock_def findEmptyBit.simps BitSet_Test_def
          BitSet_Set_def setAllocInterval_def ethManager0_def)
  have "(2::nat) ^ unat (16 :: uint8) = 65536" by simp
  then show ?thesis
    using AllocSessionID_fresh_until_full [of 16 "setAllocInterval 256 ethManager0" 2 16
            ethManager0 256] new w nf al
    by simp
qed

text \<open>
  C3, evaluated on server 3 with 16 index bits and stride 256. Resuming the session ID
  \<open>0x03ff80\<close> leaves the cursor at \<open>0xff80 + 256 = 0x10080\<close>, beyond the mask; the session
  ID \<open>0x030080\<close> is resumed next, which sets the bit of its index \<open>0x80\<close>. The allocator is
  not full, and \<open>AllocSessionID\<close> returns \<open>0x030000 OR 0x10080 = 0x030080\<close>: the ID of the
  resumed session, whose index bit was set before the call. The bit that the call sets is
  the bit \<open>0x10080\<close> of the cursor, not the bit of the index of the ID it returns.
\<close>

theorem AllocSessionID_returns_resumed_ID:
  "NewSessionIDManager 3 16 = Inr server3Manager0
   \<and> ResumeSessionID 0x0003FF80 (setAllocInterval 256 server3Manager0)
     = (\<lparr> serverID = 0x30000, sessionIDs = {0xFF80}, count = 1, allocIDx = 0x10080,
          allocInterval = 256, indexBits = 0, sessionIDMask = 0xFFFF \<rparr>, None)
   \<and> ResumeSessionID 0x00030080
        \<lparr> serverID = 0x30000, sessionIDs = {0xFF80}, count = 1, allocIDx = 0x10080,
          allocInterval = 256, indexBits = 0, sessionIDMask = 0xFFFF \<rparr>
     = (server3Resumed, None)
   \<and> wf 16 server3Resumed
   \<and> \<not> isFullWithoutLock server3Resumed
   \<and> AllocSessionID server3Resumed
     = Some (\<lparr> serverID = 0x30000, sessionIDs = {0x10080, 0x80, 0xFF80}, count = 3,
               allocIDx = 0x180, allocInterval = 256, indexBits = 0, sessionIDMask = 0xFFFF \<rparr>,
             0x00030080, None)
   \<and> (0x00030080 :: uint32) AND sessionIDMask server3Resumed = 0x80
   \<and> BitSet_Test (sessionIDs server3Resumed) 0x80"
proof (intro conjI)
  show "NewSessionIDManager 3 16 = Inr server3Manager0"
    by (simp add: NewSessionIDManager_def server3Manager0_def)
  show "ResumeSessionID 0x0003FF80 (setAllocInterval 256 server3Manager0)
     = (\<lparr> serverID = 0x30000, sessionIDs = {0xFF80}, count = 1, allocIDx = 0x10080,
          allocInterval = 256, indexBits = 0, sessionIDMask = 0xFFFF \<rparr>, None)"
    by (simp add: ResumeSessionID_def setAllocInterval_def server3Manager0_def BitSet_Test_def
          BitSet_Set_def Let_def)
  show "ResumeSessionID 0x00030080
        \<lparr> serverID = 0x30000, sessionIDs = {0xFF80}, count = 1, allocIDx = 0x10080,
          allocInterval = 256, indexBits = 0, sessionIDMask = 0xFFFF \<rparr>
     = (server3Resumed, None)"
    by (simp add: ResumeSessionID_def server3Resumed_def BitSet_Test_def BitSet_Set_def Let_def)
  have "(mask 16 :: uint32) = 0xFFFF" by (simp add: mask_eq_exp_minus_1)
  then show "wf 16 server3Resumed" by (simp add: wf_def server3Resumed_def)
  show "\<not> isFullWithoutLock server3Resumed"
    by (simp add: isFullWithoutLock_def server3Resumed_def)
  show "AllocSessionID server3Resumed
     = Some (\<lparr> serverID = 0x30000, sessionIDs = {0x10080, 0x80, 0xFF80}, count = 3,
               allocIDx = 0x180, allocInterval = 256, indexBits = 0, sessionIDMask = 0xFFFF \<rparr>,
             0x00030080, None)"
    by (simp add: AllocSessionID_def isFullWithoutLock_def findEmptyBit.simps BitSet_Test_def
          BitSet_Set_def server3Resumed_def)
  show "(0x00030080 :: uint32) AND sessionIDMask server3Resumed = 0x80"
    by (simp add: server3Resumed_def)
  show "BitSet_Test (sessionIDs server3Resumed) 0x80"
    by (simp add: BitSet_Test_def server3Resumed_def)
qed

text \<open>
  C2, evaluated on the Ethereum configuration (16 index bits, stride 256) of server 2:
  resuming the session ID \<open>0x02ff80\<close> leaves the cursor at \<open>0xff80 + 256\<close>, beyond the
  mask, and the next \<open>AllocSessionID\<close> returns \<open>0x030080\<close>, whose bits above the index are
  3 and not the server ID 2.
\<close>

theorem AllocSessionID_after_ResumeSessionID_server_bits:
  "NewSessionIDManager 2 16 = Inr ethManager0
   \<and> ResumeSessionID 0x0002FF80 (setAllocInterval 256 ethManager0)
     = (\<lparr> serverID = 0x20000, sessionIDs = {0xFF80}, count = 1, allocIDx = 0x10080,
          allocInterval = 256, indexBits = 0, sessionIDMask = 0xFFFF \<rparr>, None)
   \<and> AllocSessionID \<lparr> serverID = 0x20000, sessionIDs = {0xFF80}, count = 1, allocIDx = 0x10080,
          allocInterval = 256, indexBits = 0, sessionIDMask = 0xFFFF \<rparr>
     = Some (\<lparr> serverID = 0x20000, sessionIDs = {0x10080, 0xFF80}, count = 2, allocIDx = 0x180,
               allocInterval = 256, indexBits = 0, sessionIDMask = 0xFFFF \<rparr>, 0x00030080, None)
   \<and> drop_bit 16 (0x00030080 :: uint32) = 3
   \<and> drop_bit 16 (0x00030080 :: uint32) \<noteq> 2"
  by (simp add: NewSessionIDManager_def ResumeSessionID_def AllocSessionID_def
        setAllocInterval_def isFullWithoutLock_def findEmptyBit.simps BitSet_Test_def
        BitSet_Set_def Let_def drop_bit_eq_div ethManager0_def)

section \<open>Properties of the coordinator client\<close>

text \<open>
  C10. Where the watcher map has a watcher for the path, \<open>GetW\<close> makes no call of
  \<open>zookeeperConn.GetW\<close> and does not read the coordinator: whatever the coordinator holds,
  it returns the value the watcher holds with a new channel of capacity 1, empty and open,
  and no error; the channel is stored under the session ID in place of any channel stored
  there before, and every channel that existed is left as it was (none is closed). The
  value a watcher holds is the one read when \<open>GetW\<close> created it, so that a later \<open>GetW\<close>
  returns it whatever the coordinator holds by then.
\<close>

theorem GetW_existing_watcher:
  "(watcherMap manager path = Some watcher \<longrightarrow>
      GetW zk manager path sid =
        (manager\<lparr> chans := chans manager @ [makeChan 1],
                   watcherMap := (watcherMap manager)(path \<mapsto>
                     watcher\<lparr>watcherChannels :=
                       (watcherChannels watcher)(sid \<mapsto> length (chans manager))\<rparr>) \<rparr>,
         nodeValue watcher, Some (length (chans manager)), None)
      \<and> zkGetWCalls (fst (GetW zk manager path sid)) = zkGetWCalls manager
      \<and> take (length (chans manager)) (chans (fst (GetW zk manager path sid))) = chans manager)
   \<and> (watcherMap manager path = None \<and> zk path = Some v \<longrightarrow>
        fst (snd (GetW zk manager path sid)) = v
      \<and> zkGetWCalls (fst (GetW zk manager path sid)) = zkGetWCalls manager @ [path]
      \<and> fst (snd (GetW zk' (fst (GetW zk manager path sid)) path sid')) = v
      \<and> zkGetWCalls (fst (GetW zk' (fst (GetW zk manager path sid)) path sid'))
          = zkGetWCalls manager @ [path])"
  by (simp add: GetW_def addWatcherChannel_def NewNodeWatcher_def Let_def)

theorem GetW_existing_watcher_witness:
  "watcherMap exampleZookeeperManager ''/switcher/alice''
     = Some \<lparr> nodePath = ''/switcher/alice'', nodeValue = ''btc'', zkWatchEvent = Some 0,
              watcherChannels = [0x03000001 \<mapsto> 1] \<rparr>
   \<and> snd (GetW [''/switcher/alice'' \<mapsto> ''bch''] exampleZookeeperManager ''/switcher/alice''
          0x03000001) = (''btc'', Some 2, None)
   \<and> zkGetWCalls (fst (GetW [''/switcher/alice'' \<mapsto> ''bch''] exampleZookeeperManager
          ''/switcher/alice'' 0x03000001)) = [''/switcher/alice'']
   \<and> chans (fst (GetW [''/switcher/alice'' \<mapsto> ''bch''] exampleZookeeperManager
          ''/switcher/alice'' 0x03000001)) = [makeChan 1, makeChan 1, makeChan 1]"
  using GetW_existing_watcher [of exampleZookeeperManager "''/switcher/alice''"
      "\<lparr> nodePath = ''/switcher/alice'', nodeValue = ''btc'', zkWatchEvent = Some 0,
              watcherChannels = [0x03000001 \<mapsto> 1] \<rparr>" "[''/switcher/alice'' \<mapsto> ''bch'']" "0x03000001"]
  by (simp add: exampleZookeeperManager_def)

section \<open>Properties of the handshake with the client\<close>

text \<open>
  C6. \<open>stratumHandleRequest\<close> answers a \<open>mining.subscribe\<close> in a state other than
  \<open>StatConnected\<close> with the error 102 and a \<open>mining.authorize\<close> in a state other than
  \<open>StatSubScribed\<close> with the error 101, and leaves the state and the session as they
  are. An \<open>eth_submitLogin\<close> on a session of protocol \<open>ProtocolEthereumProxy\<close> is the
  authorize branch run in the state \<open>StatSubScribed\<close> on the session with the subscribe
  request of EthProxy and JSON-RPC version 2, whatever the state was.
\<close>

theorem stratumHandleRequest_ordering:
  "(Method request = ''mining.subscribe'' \<and> stat \<noteq> StatConnected \<longrightarrow>
      stratumHandleRequest unicodeLower mgr zk session request stat
        = Inr (session, stat, None, Some StratumErrDuplicateSubscribed))
   \<and> (Method request = ''mining.authorize'' \<and> stat \<noteq> StatSubScribed \<longrightarrow>
      stratumHandleRequest unicodeLower mgr zk session request stat
        = Inr (session, stat, None, Some StratumErrNeedSubscribed))
   \<and> (Method request = ''eth_submitLogin'' \<and> protocolType session = ProtocolEthereumProxy \<longrightarrow>
      stratumHandleRequest unicodeLower mgr zk session request stat
        = (case parseAuthorizeRequest unicodeLower mgr zk
                  ((makeSubscribeMessageForEthProxy session)\<lparr>jsonRPCVersion := 2\<rparr>) request of
             (session2, result, err) \<Rightarrow>
               Inr (session2, (if err = None then StatAuthorized else StatSubScribed), result, err)))
   \<and> ErrNo StratumErrDuplicateSubscribed = 102
   \<and> ErrMsg StratumErrDuplicateSubscribed = ''Duplicate Subscribed''
   \<and> ErrNo StratumErrNeedSubscribed = 101
   \<and> ErrMsg StratumErrNeedSubscribed = ''Need Subscribed''"
  by (simp add: stratumHandleRequest_def StratumErrDuplicateSubscribed_def
        StratumErrNeedSubscribed_def NewStratumError_def)

lemma isHexDigit_hexDigit: "isHexDigit (hexDigit n)"
proof -
  have "n mod 16 < length ''0123456789abcdef''" by simp
  then have "''0123456789abcdef'' ! (n mod 16) \<in> set ''0123456789abcdef''"
    by (rule nth_mem)
  then show ?thesis unfolding isHexDigit_def hexDigit_def by auto
qed

lemma Uint32ToHex_shape: "length (Uint32ToHex w) = 8 \<and> list_all isHexDigit (Uint32ToHex w)"
  by (simp add: Uint32ToHex_def nibble_def isHexDigit_hexDigit)

lemma Uint32ToHex_slice:
  "goSlice (Uint32ToHex w) 2 8 = Some (map (nibble w) [5, 4, 3, 2, 1, 0])"
  by (simp add: goSlice_def Uint32ToHex_def)

theorem stratumHandleRequest_ordering_witness:
  "\<forall>unicodeLower.
     stratumHandleRequest unicodeLower btcManager Map.empty btcSession subscribeRequest
          StatSubScribed
        = Inr (btcSession, StatSubScribed, None,
               Some \<lparr> ErrNo = 102, ErrMsg = ''Duplicate Subscribed'' \<rparr>)
      \<and> stratumHandleRequest unicodeLower btcManager Map.empty btcSession authorizeRequest
          StatConnected
        = Inr (btcSession, StatConnected, None,
               Some \<lparr> ErrNo = 101, ErrMsg = ''Need Subscribed'' \<rparr>)
      \<and> stratumHandleRequest unicodeLower ethManager Map.empty ethSession loginRequest StatConnected
        = Inr (ethSession\<lparr> jsonRPCVersion := 2, fullWorkerName := ''alice.rig1'',
                 subaccountName := ''alice'', minerNameWithDot := ''.rig1'',
                 stratumSubscribeRequest :=
                   Some \<lparr> ID = JNull, Method = ''mining.subscribe'',
                          Params = [JStr ''ETHProxy'', JStr ''ETHProxy/1.0.0''], Worker = [] \<rparr>,
                 stratumAuthorizeRequest := Some loginRequest \<rparr>,
               StatAuthorized, None, None)"
  (is "\<forall>unicodeLower. ?P unicodeLower")
proof (intro allI)
  fix unicodeLower :: "string \<Rightarrow> string"
  have a: "Method subscribeRequest = ''mining.subscribe'' \<and> StatSubScribed \<noteq> StatConnected"
    by (simp add: subscribeRequest_def)
  have b: "Method authorizeRequest = ''mining.authorize'' \<and> StatConnected \<noteq> StatSubScribed"
    by (simp add: authorizeRequest_def)
  have c: "Method loginRequest = ''eth_submitLogin'' \<and> protocolType ethSession = ProtocolEthereumProxy"
    by (simp add: loginRequest_def ethSession_def)
  have p: "parseAuthorizeRequest unicodeLower ethManager Map.empty
             ((makeSubscribeMessageForEthProxy ethSession)\<lparr>jsonRPCVersion := 2\<rparr>) loginRequest
           = (ethSession\<lparr> jsonRPCVersion := 2, fullWorkerName := ''alice.rig1'',
                subaccountName := ''alice'', minerNameWithDot := ''.rig1'',
                stratumSubscribeRequest :=
                  Some \<lparr> ID = JNull, Method = ''mining.subscribe'',
                         Params = [JStr ''ETHProxy'', JStr ''ETHProxy/1.0.0''], Worker = [] \<rparr>,
                stratumAuthorizeRequest := Some loginRequest \<rparr>, None, None)"
    by (simp add: parseAuthorizeRequest_def makeSubscribeMessageForEthProxy_def ethproxyVersion_def
          loginRequest_def ethSession_def ethSession0_def btcSession0_def btcSession_def
          ethManager_def btcManager_def FilterWorkerName_def StripEthAddrFromFullName_def
          splitWorkerName_def GetRegularSubaccountName_def Let_def)
  show "?P unicodeLower"
    using stratumHandleRequest_ordering [of subscribeRequest StatSubScribed unicodeLower btcManager
        Map.empty btcSession]
      stratumHandleRequest_ordering [of authorizeRequest StatConnected unicodeLower btcManager
        Map.empty btcSession]
      stratumHandleRequest_ordering [of loginRequest StatConnected unicodeLower ethManager
        Map.empty ethSession]
      a b c p
    by simp
qed

text \<open>
  C7. The session ID string of a session on a Bitcoin chain is the 8 hex characters of
  \<open>Uint32ToHex\<close>, and the subscribe response carries it as the extranonce; on an Ethereum
  chain it is the last 6 of them. In the subscribe response of the NiceHash protocol the
  extranonce is the first 4 characters of the session ID string for a NiceHash client, 4
  hex characters, and the whole session ID string for any other client.
\<close>

theorem extranonce_lengths:
  "NewStratumSession mgr addr sid = Inr session0 \<and> sessionIDString session = sessionIDString session0
   \<longrightarrow>
     (chainType mgr = ChainTypeBitcoin \<longrightarrow>
        sessionIDString session = Uint32ToHex sid
      \<and> length (sessionIDString session) = 8
      \<and> list_all isHexDigit (sessionIDString session)
      \<and> (\<exists>session'. parseSubscribeRequest unicodeLower mgr session request =
            Inr (session',
                 Some (JArr [JArr [JArr [JStr ''mining.set_difficulty'', JStr (sessionIDString session)],
                                   JArr [JStr ''mining.notify'', JStr (sessionIDString session)]],
                             JStr (sessionIDString session), JNum 8]),
                 None)))
   \<and> (chainType mgr = ChainTypeEthereum \<longrightarrow>
        sessionIDString session = drop 2 (Uint32ToHex sid)
      \<and> length (sessionIDString session) = 6
      \<and> list_all isHexDigit (sessionIDString session)
      \<and> (\<exists>session' result. parseSubscribeRequest unicodeLower mgr session request
                              = Inr (session', result, None)
            \<and> (protocolType session' = ProtocolEthereumStratumNiceHash \<longrightarrow>
                  result = Some (JArr [JArr [JStr ''mining.notify'', JStr (sessionIDString session),
                                             JStr ethereumStratumNiceHashVersion],
                                       JStr (if isNiceHashClient session'
                                             then take 4 (sessionIDString session)
                                             else sessionIDString session)]))
            \<and> (protocolType session' \<noteq> ProtocolEthereumStratumNiceHash \<longrightarrow>
                  result = Some (JBool True))
            \<and> length (take 4 (sessionIDString session)) = 4
            \<and> list_all isHexDigit (take 4 (sessionIDString session))))"
proof (intro impI conjI)
  assume a: "NewStratumSession mgr addr sid = Inr session0 \<and> sessionIDString session = sessionIDString session0"
  assume b: "chainType mgr = ChainTypeBitcoin"
  show s: "sessionIDString session = Uint32ToHex sid"
    using a b by (auto simp: NewStratumSession_def Let_def)
  show "length (sessionIDString session) = 8" "list_all isHexDigit (sessionIDString session)"
    using s Uint32ToHex_shape by simp_all
  show "\<exists>session'. parseSubscribeRequest unicodeLower mgr session request =
            Inr (session',
                 Some (JArr [JArr [JArr [JStr ''mining.set_difficulty'', JStr (sessionIDString session)],
                                   JArr [JStr ''mining.notify'', JStr (sessionIDString session)]],
                             JStr (sessionIDString session), JNum 8]),
                 None)"
    using b by (simp add: parseSubscribeRequest_def Let_def)
next
  assume a: "NewStratumSession mgr addr sid = Inr session0 \<and> sessionIDString session = sessionIDString session0"
  assume b: "chainType mgr = ChainTypeEthereum"
  show s: "sessionIDString session = drop 2 (Uint32ToHex sid)"
    using a b by (auto simp: NewStratumSession_def Let_def goSlice_def Uint32ToHex_def)
  show l: "length (sessionIDString session) = 6"
    using s by (simp add: Uint32ToHex_def)
  show h: "list_all isHexDigit (sessionIDString session)"
    using s by (simp add: Uint32ToHex_def nibble_def isHexDigit_hexDigit)
  have sl: "goSlice (sessionIDString session) 0 4 = Some (take 4 (sessionIDString session))"
    using l by (simp add: goSlice_def)
  show "\<exists>session' result. parseSubscribeRequest unicodeLower mgr session request
                              = Inr (session', result, None)
            \<and> (protocolType session' = ProtocolEthereumStratumNiceHash \<longrightarrow>
                  result = Some (JArr [JArr [JStr ''mining.notify'', JStr (sessionIDString session),
                                             JStr ethereumStratumNiceHashVersion],
                                       JStr (if isNiceHashClient session'
                                             then take 4 (sessionIDString session)
                                             else sessionIDString session)]))
            \<and> (protocolType session' \<noteq> ProtocolEthereumStratumNiceHash \<longrightarrow>
                  result = Some (JBool True))
            \<and> length (take 4 (sessionIDString session)) = 4
            \<and> list_all isHexDigit (take 4 (sessionIDString session))"
    using b sl l s by (auto simp: parseSubscribeRequest_def Let_def Uint32ToHex_def nibble_def isHexDigit_hexDigit)
qed

theorem extranonce_lengths_witness:
  "\<forall>unicodeLower.
     NewStratumSession btcManager ''10.0.0.7:51234'' 0x03000001 = Inr btcSession0
      \<and> chainType btcManager = ChainTypeBitcoin
      \<and> sessionIDString btcSession0 = ''03000001''
      \<and> length (sessionIDString btcSession0) = 8
      \<and> NewStratumSession ethManager ''10.0.0.7:51234'' 0x0002003F = Inr ethSession0
      \<and> chainType ethManager = ChainTypeEthereum
      \<and> sessionIDString ethSession0 = ''02003f''
      \<and> length (sessionIDString ethSession0) = 6
      \<and> parseSubscribeRequest unicodeLower ethManager ethSession0 niceHashSubscribeRequest
          = Inr (ethSession0\<lparr> protocolType := ProtocolEthereumStratumNiceHash,
                   isNiceHashClient := True,
                   stratumSubscribeRequest := Some niceHashSubscribeRequest \<rparr>,
                 Some (JArr [JArr [JStr ''mining.notify'', JStr ''02003f'',
                                   JStr ''EthereumStratum/1.0.0''],
                             JStr ''0200'']),
                 None)"
  (is "\<forall>unicodeLower. ?P unicodeLower")
proof (intro allI)
  fix unicodeLower :: "string \<Rightarrow> string"
  have b: "NewStratumSession btcManager ''10.0.0.7:51234'' 0x03000001 = Inr btcSession0"
    by (simp add: NewStratumSession_def btcManager_def btcSession0_def btcSession_def
          Uint32ToHex_def nibble_def hexDigit_def Let_def)
  have e: "NewStratumSession ethManager ''10.0.0.7:51234'' 0x0002003F = Inr ethSession0"
    by (simp add: NewStratumSession_def ethManager_def btcManager_def ethSession0_def
          btcSession0_def btcSession_def Uint32ToHex_def nibble_def hexDigit_def goSlice_def Let_def)
  have p: "parseSubscribeRequest unicodeLower ethManager ethSession0 niceHashSubscribeRequest
       = Inr (ethSession0\<lparr> protocolType := ProtocolEthereumStratumNiceHash,
                isNiceHashClient := True,
                stratumSubscribeRequest := Some niceHashSubscribeRequest \<rparr>,
              Some (JArr [JArr [JStr ''mining.notify'', JStr ''02003f'',
                                JStr ''EthereumStratum/1.0.0''],
                          JStr ''0200'']),
              None)"
    by (simp add: parseSubscribeRequest_def ethManager_def btcManager_def ethSession0_def
          btcSession0_def btcSession_def niceHashSubscribeRequest_def paramString_def
          hasLowerPrefix_def HasPrefix_def ToLower_def isASCII_def toLowerChar_def
          niceHashClientTypePrefix_def btcAgentClientTypePrefix_def
          ethereumStratumNiceHashPrefix_def ethereumStratumNiceHashVersion_def goSlice_def Let_def)
  have cb: "chainType btcManager = ChainTypeBitcoin" by (simp add: btcManager_def)
  have ce: "chainType ethManager = ChainTypeEthereum" by (simp add: ethManager_def)
  have s1: "sessionIDString btcSession0 = ''03000001''"
    by (simp add: btcSession0_def btcSession_def)
  have s2: "sessionIDString ethSession0 = ''02003f''"
    by (simp add: ethSession0_def)
  have t1: "length (sessionIDString btcSession0) = 8"
    using extranonce_lengths [of btcManager "''10.0.0.7:51234''" "0x03000001" btcSession0
            btcSession0 unicodeLower subscribeRequest] b cb
    by blast
  have t2: "length (sessionIDString ethSession0) = 6"
    using extranonce_lengths [of ethManager "''10.0.0.7:51234''" "0x0002003F" ethSession0
            ethSession0 unicodeLower niceHashSubscribeRequest] e ce
    by blast
  show "?P unicodeLower"
    by (intro conjI) (fact b cb s1 t1 e ce s2 t2 p)+
qed

lemma FilterWorkerName_dot: "FilterWorkerName ''.'' = ''.''"
  by (simp add: FilterWorkerName_def)

lemma StripEthAddr_dot: "StripEthAddrFromFullName (CHR ''.'' # cs) = CHR ''.'' # cs"
  by (simp add: StripEthAddrFromFullName_def)

text \<open>
  C9. For an authorize request whose first parameter is the string \<open>"."\<close>, the name
  handed to \<open>GetRegularSubaccountName\<close> is empty; where that function leaves the empty
  name empty, \<open>parseAuthorizeRequest\<close> sets an empty sub-account name and returns the
  error 105, and \<open>stratumHandleRequest\<close> leaves the state at \<open>StatSubScribed\<close>.
\<close>

theorem parseAuthorizeRequest_dot:
  "Params request = JStr ''.'' # rest \<and> GetRegularSubaccountName unicodeLower mgr zk [] = []
   \<longrightarrow> (\<exists>session'. parseAuthorizeRequest unicodeLower mgr zk session request
                       = (session', None, Some StratumErrWorkerNameStartWrong)
                   \<and> subaccountName session' = []
                   \<and> (Method request = ''mining.authorize'' \<longrightarrow>
                        stratumHandleRequest unicodeLower mgr zk session request StatSubScribed
                          = Inr (session', StatSubScribed, None, Some StratumErrWorkerNameStartWrong)))
       \<and> ErrNo StratumErrWorkerNameStartWrong = 105
       \<and> ErrMsg StratumErrWorkerNameStartWrong = ''Sub-account Name Cannot be Empty''"
  by (auto simp: parseAuthorizeRequest_def Let_def FilterWorkerName_dot StripEthAddr_dot
        splitWorkerName_def stratumHandleRequest_def StratumErrWorkerNameStartWrong_def
        NewStratumError_def)

theorem parseAuthorizeRequest_dot_witness:
  "\<forall>unicodeLower.
     Params dotAuthorizeRequest = JStr ''.'' # [JStr ''x'']
      \<and> GetRegularSubaccountName unicodeLower btcManager Map.empty [] = []
      \<and> parseAuthorizeRequest unicodeLower btcManager Map.empty btcSession0 dotAuthorizeRequest
          = (btcSession0\<lparr> fullWorkerName := ''.'', minerNameWithDot := ''.'',
               stratumAuthorizeRequest := Some dotAuthorizeRequest \<rparr>,
             None, Some \<lparr> ErrNo = 105, ErrMsg = ''Sub-account Name Cannot be Empty'' \<rparr>)"
  (is "\<forall>unicodeLower. ?P unicodeLower")
proof (intro allI)
  fix unicodeLower :: "string \<Rightarrow> string"
  have a: "Params dotAuthorizeRequest = JStr ''.'' # [JStr ''x'']"
    by (simp add: dotAuthorizeRequest_def)
  have g: "GetRegularSubaccountName unicodeLower btcManager Map.empty [] = []"
    by (simp add: GetRegularSubaccountName_def btcManager_def)
  have p: "parseAuthorizeRequest unicodeLower btcManager Map.empty btcSession0 dotAuthorizeRequest
       = (btcSession0\<lparr> fullWorkerName := ''.'', minerNameWithDot := ''.'',
            stratumAuthorizeRequest := Some dotAuthorizeRequest \<rparr>,
          None, Some \<lparr> ErrNo = 105, ErrMsg = ''Sub-account Name Cannot be Empty'' \<rparr>)"
    using a g
    by (simp add: parseAuthorizeRequest_def Let_def FilterWorkerName_dot splitWorkerName_def
          btcSession0_def btcSession_def StratumErrWorkerNameStartWrong_def NewStratumError_def)
  show "?P unicodeLower"
    using parseAuthorizeRequest_dot [of dotAuthorizeRequest "[JStr ''x'']" unicodeLower btcManager
            Map.empty btcSession0] a g p
    by simp
qed

section \<open>What the handshake with the upstream server leaves unchanged\<close>

lemma writeJSONRequestToServer_events:
  "writeJSONRequestToServer w r = (w', e) \<Longrightarrow> events w' = events w"
  by (auto simp: writeJSONRequestToServer_def split: option.splits if_splits)

lemma writeJSONResponseToClient_events:
  "writeJSONResponseToClient s w r = (w', e) \<Longrightarrow> events w' = events w"
  by (auto simp: writeJSONResponseToClient_def split: if_splits)

lemma writeJSONNotifyToClient_events:
  "writeJSONNotifyToClient w r = (w', e) \<Longrightarrow> events w' = events w"
  by (auto simp: writeJSONNotifyToClient_def split: if_splits)

lemma sendMiningConfigureToServer_events:
  "sendMiningConfigureToServer s w = (w', e) \<Longrightarrow> events w' = events w"
  by (auto simp: sendMiningConfigureToServer_def dest: writeJSONRequestToServer_events
      split: if_splits)

lemma sendMiningSubscribeToServer_frame:
  assumes "sendMiningSubscribeToServer s w = (s', w', e)"
  shows "events w' = events w \<and> (\<exists>x. s' = s\<lparr>stratumSubscribeRequest := x\<rparr>)"
proof (cases "stratumSubscribeRequest s")
  case None
  then show ?thesis using assms
    by (auto simp: sendMiningSubscribeToServer_def intro: exI [of _ None])
next
  case (Some request0)
  show ?thesis
  proof (cases "protocolType s = ProtocolUnknown \<or> LastIndexColon (clientIPPort s) = None")
    case True
    then show ?thesis using assms Some
      by (auto simp: sendMiningSubscribeToServer_def Let_def split: if_splits)
  next
    case False
    then obtain pos where pos: "LastIndexColon (clientIPPort s) = Some pos" by auto
    show ?thesis using assms Some False pos
      by (auto simp: sendMiningSubscribeToServer_def Let_def
          dest: writeJSONRequestToServer_events split: if_splits prod.splits)
  qed
qed

lemma sendMiningAuthorizeToServer_events:
  "sendMiningAuthorizeToServer mgr s w b = (w', e) \<Longrightarrow> events w' = events w"
  by (auto simp: sendMiningAuthorizeToServer_def dest: writeJSONRequestToServer_events
      split: option.splits if_splits)

lemma serverResponseStep_events:
  "serverResponseStep mgr s w st l = (e, st', w') \<Longrightarrow> events w' = events w"
  by (auto simp: serverResponseStep_def dest: sendMiningAuthorizeToServer_events
      split: option.splits prod.splits if_splits)

lemma serverResponseLoop_events:
  "serverResponseLoop mgr s w st ls = (e, st', w', rest) \<Longrightarrow> events w' = events w"
proof (induction ls arbitrary: w st)
  case Nil
  then show ?case by (auto split: if_splits)
next
  case (Cons l ls)
  show ?case
  proof (cases "authMsgCounter st < 2")
    case False
    then show ?thesis using Cons.prems by simp
  next
    case True
    obtain e1 st1 w1 where h: "serverResponseStep mgr s w st l = (e1, st1, w1)"
      by (cases "serverResponseStep mgr s w st l")
    have ev: "events w1 = events w" using h by (rule serverResponseStep_events)
    show ?thesis
    proof (cases e1)
      case (Some a)
      then show ?thesis using Cons.prems True h ev by simp
    next
      case None
      then have "serverResponseLoop mgr s w1 st1 ls = (e, st', w', rest)"
        using Cons.prems True h by simp
      then show ?thesis using Cons.IH ev by simp
    qed
  qed
qed

lemma forwardAuthResponse_events:
  "forwardAuthResponse s w st = (w', e) \<Longrightarrow> events w' = events w"
  by (auto simp: forwardAuthResponse_def
      dest!: writeJSONResponseToClient_events writeJSONNotifyToClient_events
      split: option.splits prod.splits if_splits)

lemma serverSubscribeAndAuthorize_frame:
  assumes "serverSubscribeAndAuthorize mgr s w = (s', w', e)"
  shows "events w' = events w \<and> (\<exists>x. s' = s\<lparr>stratumSubscribeRequest := x\<rparr>)"
proof -
  obtain w1 e1 where c: "sendMiningConfigureToServer s w = (w1, e1)"
    by (cases "sendMiningConfigureToServer s w")
  have ev1: "events w1 = events w" using c by (rule sendMiningConfigureToServer_events)
  have same: "\<exists>x. s = s\<lparr>stratumSubscribeRequest := x\<rparr>"
    by (rule exI [of _ "stratumSubscribeRequest s"]) simp
  show ?thesis
  proof (cases e1)
    case (Some a)
    then show ?thesis using assms c ev1 same by (simp add: serverSubscribeAndAuthorize_def)
  next
    case None
    note e1 = None
    obtain s1 w2 e2 where sb: "sendMiningSubscribeToServer s w1 = (s1, w2, e2)"
      by (cases "sendMiningSubscribeToServer s w1")
    have f2: "events w2 = events w1" "\<exists>x. s1 = s\<lparr>stratumSubscribeRequest := x\<rparr>"
      using sendMiningSubscribeToServer_frame [OF sb] by simp_all
    show ?thesis
    proof (cases e2)
      case (Some a)
      then show ?thesis using assms c e1 sb f2 ev1 by (simp add: serverSubscribeAndAuthorize_def)
    next
      case None
      note e2 = None
      obtain w3 e3 where au: "sendMiningAuthorizeToServer mgr s1 w2 False = (w3, e3)"
        by (cases "sendMiningAuthorizeToServer mgr s1 w2 False")
      have ev3: "events w3 = events w2" using au by (rule sendMiningAuthorizeToServer_events)
      show ?thesis
      proof (cases e3)
        case (Some a)
        then show ?thesis using assms c e1 sb e2 au f2 ev1 ev3
          by (simp add: serverSubscribeAndAuthorize_def)
      next
        case None
        note e3 = None
        show ?thesis
        proof (cases "serverConn w3")
          case None
          then show ?thesis using assms c e1 sb e2 au e3 f2 ev1 ev3
            by (simp add: serverSubscribeAndAuthorize_def)
        next
          case (Some cn)
          obtain err st w4 rest where lp:
            "serverResponseLoop mgr s1 w3 initAuthState (incoming cn) = (err, st, w4, rest)"
            by (cases "serverResponseLoop mgr s1 w3 initAuthState (incoming cn)") auto
          have ev4: "events w4 = events w3" using lp by (rule serverResponseLoop_events)
          obtain w6 e6 where fw:
            "forwardAuthResponse s1 (w4\<lparr>serverConn := Some (cn\<lparr>incoming := rest\<rparr>)\<rparr>) st = (w6, e6)"
            by (cases "forwardAuthResponse s1 (w4\<lparr>serverConn := Some (cn\<lparr>incoming := rest\<rparr>)\<rparr>) st")
          have ev6: "events w6 = events w4" using forwardAuthResponse_events [OF fw] by simp
          show ?thesis using assms c e1 sb e2 au e3 Some lp fw f2 ev1 ev3 ev4 ev6
            by (auto simp: serverSubscribeAndAuthorize_def Let_def split: option.splits)
        qed
      qed
    qed
  qed
qed


lemma connectStratumServer_dial_failed:
  assumes "stratumServerInfoMap mgr (miningCoin s) = Some info"
    and "dials w = [] \<or> (\<exists>ds. dials w = None # ds)"
  shows "connectStratumServer mgr s w =
           (s,
            (if runningStat s \<noteq> StatReconnecting then
               fst (writeJSONResponseToClient s
                      ((logEvent CallConnectStratumServer w)\<lparr>dials := tl (dials w)\<rparr>)
                      \<lparr> RespID = (case stratumAuthorizeRequest s of
                                     None \<Rightarrow> JNull | Some saved \<Rightarrow> ID saved),
                        Result = JNull,
                        Error = ToJSONRPCArray (Some StratumErrConnectStratumServerFailed)
                                  (JNum (uint (mgrServerID mgr))) \<rparr>)
             else (logEvent CallConnectStratumServer w)\<lparr>dials := tl (dials w)\<rparr>),
            Some (ErrStratum StratumErrConnectStratumServerFailed))"
  using assms
  by (elim disjE exE) (simp_all add: connectStratumServer_def Let_def logEvent_def)

lemma connectStratumServer_frame:
  assumes "connectStratumServer mgr s w = (s', w', e)"
  shows "events w' = events w @ [CallConnectStratumServer]
         \<and> (\<exists>x. s' = s\<lparr>stratumSubscribeRequest := x\<rparr>)"
proof -
  have same: "\<exists>x. s = s\<lparr>stratumSubscribeRequest := x\<rparr>"
    by (rule exI [of _ "stratumSubscribeRequest s"]) simp
  have wr: "\<And>w0 r. events (fst (writeJSONResponseToClient s w0 r)) = events w0"
    by (simp add: writeJSONResponseToClient_def)
  show ?thesis
  proof (cases "stratumServerInfoMap mgr (miningCoin s)")
    case None
    then have "s' = s \<and> events w' = events w @ [CallConnectStratumServer]"
      using assms wr by (auto simp: connectStratumServer_def Let_def logEvent_def split: if_splits)
    then show ?thesis using same by simp
  next
    case (Some info)
    have "(\<exists>c ds. dials w = Some c # ds) \<or> dials w = [] \<or> (\<exists>ds. dials w = None # ds)"
    proof (cases "dials w")
      case Nil
      then show ?thesis by simp
    next
      case (Cons a ds)
      then show ?thesis by (cases a) simp_all
    qed
    then consider (ok) c ds where "dials w = Some c # ds"
      | (fail) "dials w = [] \<or> (\<exists>ds. dials w = None # ds)"
      by blast
    then show ?thesis
    proof cases
      case ok
      have "serverSubscribeAndAuthorize mgr s
              ((logEvent CallConnectStratumServer w)\<lparr>dials := ds, serverConn := Some c\<rparr>) = (s', w', e)"
        using assms Some ok by (simp add: connectStratumServer_def Let_def logEvent_def)
      from serverSubscribeAndAuthorize_frame [OF this] show ?thesis
        by (simp add: logEvent_def)
    next
      case fail
      have "s' = s \<and> events w' = events w @ [CallConnectStratumServer]"
        using assms connectStratumServer_dial_failed [OF Some fail] wr
        by (auto simp: logEvent_def split: if_splits)
      then show ?thesis using same by simp
    qed
  qed
qed

section \<open>Properties of reconnecting and switching\<close>

lemma reconnectLoop_trace:
  assumes "reconnectLoop mgr r i err s w = (s', w', e')"
  shows "(\<exists>x. s' = s\<lparr>stratumSubscribeRequest := x\<rparr>)
       \<and> (\<exists>k. (k < nat (r - i)
                 \<and> (e' = None \<or> e' = Some GoPanic \<or> e' = Some GlogFatal)
                 \<and> events w' = events w
                      @ concat (replicate k [CallConnectStratumServer, Sleep 1])
                      @ [CallConnectStratumServer])
              \<or> (k = nat (r - i)
                 \<and> events w' = events w
                      @ concat (replicate k [CallConnectStratumServer, Sleep 1])
                 \<and> (if k = 0 then e' = err
                     else e' \<noteq> None \<and> e' \<noteq> Some GoPanic \<and> e' \<noteq> Some GlogFatal)))"
  using assms
proof (induction mgr r i err s w arbitrary: s' w' e' rule: reconnectLoop.induct)
  case (1 mgr retryTime i err session w)
  show ?case
  proof (cases "i < retryTime")
    case False
    then have "s' = session" "w' = w" "e' = err" "nat (retryTime - i) = 0"
      using "1.prems" by (simp_all add: reconnectLoop.simps)
    then show ?thesis
      by (auto intro: exI [of _ "stratumSubscribeRequest session"])
  next
    case True
    obtain s1 w1 e1 where c: "connectStratumServer mgr session w = (s1, w1, e1)"
      by (cases "connectStratumServer mgr session w")
    have f: "events w1 = events w @ [CallConnectStratumServer]"
      "\<exists>x. s1 = session\<lparr>stratumSubscribeRequest := x\<rparr>"
      using connectStratumServer_frame [OF c] by simp_all
    have pos: "0 < nat (retryTime - i)" using True by simp
    show ?thesis
    proof (cases "e1 = None \<or> e1 = Some GoPanic \<or> e1 = Some GlogFatal")
      case True
      then have "s' = s1" "w' = w1" "e' = e1"
        using "1.prems" c \<open>i < retryTime\<close> by (auto simp: reconnectLoop.simps)
      then show ?thesis using f pos True
        by (intro conjI) (simp, rule exI [of _ 0], simp)
    next
      case False
      then obtain e where e: "e1 = Some e" "\<not> (e = GoPanic \<or> e = GlogFatal)" by auto
      have rec: "reconnectLoop mgr retryTime (i + 1) (Some e) s1 (logEvent (Sleep 1) w1) = (s', w', e')"
        using "1.prems" c \<open>i < retryTime\<close> e by (simp add: reconnectLoop.simps)
      have ih: "(\<exists>x. s' = s1\<lparr>stratumSubscribeRequest := x\<rparr>)
       \<and> (\<exists>k. (k < nat (retryTime - (i + 1))
                 \<and> (e' = None \<or> e' = Some GoPanic \<or> e' = Some GlogFatal)
                 \<and> events w' = events (logEvent (Sleep 1) w1)
                      @ concat (replicate k [CallConnectStratumServer, Sleep 1])
                      @ [CallConnectStratumServer])
              \<or> (k = nat (retryTime - (i + 1))
                 \<and> events w' = events (logEvent (Sleep 1) w1)
                      @ concat (replicate k [CallConnectStratumServer, Sleep 1])
                 \<and> (if k = 0 then e' = Some e
                     else e' \<noteq> None \<and> e' \<noteq> Some GoPanic \<and> e' \<noteq> Some GlogFatal)))"
        using "1.IH" [OF \<open>i < retryTime\<close> c [symmetric] refl e(1) e(2) rec] .
      then obtain k where k:
        "(k < nat (retryTime - (i + 1))
                 \<and> (e' = None \<or> e' = Some GoPanic \<or> e' = Some GlogFatal)
                 \<and> events w' = events (logEvent (Sleep 1) w1)
                      @ concat (replicate k [CallConnectStratumServer, Sleep 1])
                      @ [CallConnectStratumServer])
              \<or> (k = nat (retryTime - (i + 1))
                 \<and> events w' = events (logEvent (Sleep 1) w1)
                      @ concat (replicate k [CallConnectStratumServer, Sleep 1])
                 \<and> (if k = 0 then e' = Some e
                     else e' \<noteq> None \<and> e' \<noteq> Some GoPanic \<and> e' \<noteq> Some GlogFatal))"
        by blast
      have same: "\<exists>x. s' = session\<lparr>stratumSubscribeRequest := x\<rparr>"
        using ih f(2) by auto
      have n: "nat (retryTime - i) = Suc (nat (retryTime - (i + 1)))"
        using \<open>i < retryTime\<close> by simp
      have ev: "events (logEvent (Sleep 1) w1)
                  = events w @ concat (replicate 1 [CallConnectStratumServer, Sleep 1])"
        using f(1) by (simp add: logEvent_def)
      have "(Suc k < nat (retryTime - i)
                 \<and> (e' = None \<or> e' = Some GoPanic \<or> e' = Some GlogFatal)
                 \<and> events w' = events w
                      @ concat (replicate (Suc k) [CallConnectStratumServer, Sleep 1])
                      @ [CallConnectStratumServer])
              \<or> (Suc k = nat (retryTime - i)
                 \<and> events w' = events w
                      @ concat (replicate (Suc k) [CallConnectStratumServer, Sleep 1])
                 \<and> (if Suc k = 0 then e' = err
                     else e' \<noteq> None \<and> e' \<noteq> Some GoPanic \<and> e' \<noteq> Some GlogFatal))"
        using k n ev e(2) by (auto split: if_splits)
      then show ?thesis using same by blast
    qed
  qed
qed

lemma count_attempts:
  "count_list (concat (replicate k [CallConnectStratumServer, Sleep n])) CallConnectStratumServer = k"
  by (induction k) simp_all

lemma count_list_append: "count_list (xs @ ys) x = count_list xs x + count_list ys x"
  by (induction xs) simp_all

lemma reconnectStratumServer_trace:
  assumes "reconnectStratumServer mgr session w retryTimeWhenServerDown = Inr (mgr', session', w')"
  shows "\<exists>k x. (k \<le> 10
              \<and> session' = session\<lparr>stratumSubscribeRequest := x, runningStat := StatRunning\<rparr>
              \<and> events w' = events w @ [CloseServerConn]
                   @ concat (replicate k [CallConnectStratumServer, Sleep 1])
                   @ [CallConnectStratumServer, GoProxyStratum])
            \<or> (k = 11
              \<and> session' = session\<lparr>stratumSubscribeRequest := x\<rparr>
              \<and> events w' = events w @ [CloseServerConn]
                   @ concat (replicate k [CallConnectStratumServer, Sleep 1])
                   @ [GoStop])"
proof -
  obtain mgr1 where u: "UnRegisterStratumSession mgr session = Inr mgr1"
    using assms by (auto simp: reconnectStratumServer_def split: sum.splits)
  obtain c where c: "serverConn w = Some c"
    using assms u by (auto simp: reconnectStratumServer_def split: option.splits)
  let ?w1 = "(logEvent CloseServerConn w)\<lparr>serverConn := None\<rparr>"
  obtain s1 w2 e where l: "reconnectLoop mgr1 retryTimeWhenServerDown (- 1) None session ?w1 = (s1, w2, e)"
    by (cases "reconnectLoop mgr1 retryTimeWhenServerDown (- 1) None session ?w1")
  have n: "nat (retryTimeWhenServerDown - (- 1)) = 11" by (simp add: retryTimeWhenServerDown_def)
  have ev1: "events ?w1 = events w @ [CloseServerConn]" by (simp add: logEvent_def)
  from reconnectLoop_trace [OF l] obtain x k where
    x: "s1 = session\<lparr>stratumSubscribeRequest := x\<rparr>" and
    k: "(k < 11 \<and> (e = None \<or> e = Some GoPanic \<or> e = Some GlogFatal)
          \<and> events w2 = events w @ [CloseServerConn]
               @ concat (replicate k [CallConnectStratumServer, Sleep 1])
               @ [CallConnectStratumServer])
        \<or> (k = 11
          \<and> events w2 = events w @ [CloseServerConn]
               @ concat (replicate k [CallConnectStratumServer, Sleep 1])
          \<and> (if k = 0 then e = None
              else e \<noteq> None \<and> e \<noteq> Some GoPanic \<and> e \<noteq> Some GlogFatal))"
    unfolding n ev1 by auto
  show ?thesis
  proof (cases e)
    case None
    then have r: "session' = s1\<lparr>runningStat := StatRunning\<rparr>" "w' = logEvent GoProxyStratum w2"
      using assms u c l by (simp_all add: reconnectStratumServer_def)
    have "k \<le> 10 \<and> events w2 = events w @ [CloseServerConn]
               @ concat (replicate k [CallConnectStratumServer, Sleep 1])
               @ [CallConnectStratumServer]"
      using k None by auto
    then show ?thesis using r x
      by (intro exI [of _ k] exI [of _ x] disjI1) (simp add: logEvent_def)
  next
    case (Some a)
    then have nf: "a \<noteq> GoPanic \<and> a \<noteq> GlogFatal"
      using assms u c l by (auto simp: reconnectStratumServer_def split: if_splits)
    then have r: "session' = s1" "w' = logEvent GoStop w2"
      using assms u c l Some by (simp_all add: reconnectStratumServer_def)
    have "k = 11 \<and> events w2 = events w @ [CloseServerConn]
               @ concat (replicate k [CallConnectStratumServer, Sleep 1])"
      using k Some nf by auto
    then show ?thesis using r x
      by (intro exI [of _ k] exI [of _ x] disjI2) (simp add: logEvent_def)
  qed
qed

text \<open>
  C4, amended. Whenever \<open>reconnectStratumServer\<close> returns with the retry time
  \<open>retryTimeWhenServerDown\<close>, it has closed the old connection and then called
  \<open>connectStratumServer\<close> at most 11 times: one first attempt and at most 10 retries, since
  the loop counts from \<open>-1\<close>. Every failed attempt is followed by a sleep of 1 second.
  Either an attempt succeeds after at most 10 failed ones, the session is running and
  \<open>proxyStratum\<close> is started; or all 11 attempts fail, the running state stays as it was
  and \<open>Stop\<close> is started in a goroutine of its own.
\<close>

theorem reconnectStratumServer_attempts:
  "reconnectStratumServer mgr session w retryTimeWhenServerDown = Inr (mgr', session', w') \<longrightarrow>
     (\<exists>k. (k \<le> 10 \<and> runningStat session' = StatRunning
            \<and> events w' = events w @ [CloseServerConn]
                 @ concat (replicate k [CallConnectStratumServer, Sleep 1])
                 @ [CallConnectStratumServer, GoProxyStratum])
          \<or> (k = 11 \<and> runningStat session' = runningStat session
            \<and> events w' = events w @ [CloseServerConn]
                 @ concat (replicate k [CallConnectStratumServer, Sleep 1])
                 @ [GoStop]))
     \<and> count_list (events w') CallConnectStratumServer
          \<le> count_list (events w) CallConnectStratumServer + 11"
proof
  assume a: "reconnectStratumServer mgr session w retryTimeWhenServerDown = Inr (mgr', session', w')"
  from reconnectStratumServer_trace [OF a] obtain k x where
    k: "(k \<le> 10
              \<and> session' = session\<lparr>stratumSubscribeRequest := x, runningStat := StatRunning\<rparr>
              \<and> events w' = events w @ [CloseServerConn]
                   @ concat (replicate k [CallConnectStratumServer, Sleep 1])
                   @ [CallConnectStratumServer, GoProxyStratum])
            \<or> (k = 11
              \<and> session' = session\<lparr>stratumSubscribeRequest := x\<rparr>
              \<and> events w' = events w @ [CloseServerConn]
                   @ concat (replicate k [CallConnectStratumServer, Sleep 1])
                   @ [GoStop])"
    by blast
  have 1: "(k \<le> 10 \<and> runningStat session' = StatRunning
            \<and> events w' = events w @ [CloseServerConn]
                 @ concat (replicate k [CallConnectStratumServer, Sleep 1])
                 @ [CallConnectStratumServer, GoProxyStratum])
          \<or> (k = 11 \<and> runningStat session' = runningStat session
            \<and> events w' = events w @ [CloseServerConn]
                 @ concat (replicate k [CallConnectStratumServer, Sleep 1])
                 @ [GoStop])"
    using k by auto
  have 2: "count_list (events w') CallConnectStratumServer
          \<le> count_list (events w) CallConnectStratumServer + 11"
    using k by (auto simp: count_list_append count_attempts)
  show "(\<exists>k. (k \<le> 10 \<and> runningStat session' = StatRunning
            \<and> events w' = events w @ [CloseServerConn]
                 @ concat (replicate k [CallConnectStratumServer, Sleep 1])
                 @ [CallConnectStratumServer, GoProxyStratum])
          \<or> (k = 11 \<and> runningStat session' = runningStat session
            \<and> events w' = events w @ [CloseServerConn]
                 @ concat (replicate k [CallConnectStratumServer, Sleep 1])
                 @ [GoStop]))
     \<and> count_list (events w') CallConnectStratumServer
          \<le> count_list (events w) CallConnectStratumServer + 11"
    using 1 2 by blast
qed

lemma reconnectStratumServer_down:
  "reconnectStratumServer btcManager
      (btcSession\<lparr>runningStat := StatReconnecting, reconnectCounter := 1\<rparr>) downWorld
      retryTimeWhenServerDown
   = Inr (btcManager, btcSession\<lparr>runningStat := StatReconnecting, reconnectCounter := 1\<rparr>,
          downWorld\<lparr> serverConn := None,
            events := [CloseServerConn,
              CallConnectStratumServer, Sleep 1, CallConnectStratumServer, Sleep 1,
              CallConnectStratumServer, Sleep 1, CallConnectStratumServer, Sleep 1,
              CallConnectStratumServer, Sleep 1, CallConnectStratumServer, Sleep 1,
              CallConnectStratumServer, Sleep 1, CallConnectStratumServer, Sleep 1,
              CallConnectStratumServer, Sleep 1, CallConnectStratumServer, Sleep 1,
              CallConnectStratumServer, Sleep 1, GoStop] \<rparr>)"
  by (simp add: reconnectStratumServer_def UnRegisterStratumSession_def ReleaseW_def
        btcManager_def btcSession_def downWorld_def logEvent_def retryTimeWhenServerDown_def
        reconnectLoop.simps connectStratumServer_def Let_def)

text \<open>
  C4 as stated fails: with the upstream server down, \<open>connectStratumServer\<close> is called 11
  times, not at most 10.
\<close>

theorem reconnectStratumServer_ten_attempts_counterexample:
  "\<not> count_list
        (events (snd (snd (projr (reconnectStratumServer btcManager
           (btcSession\<lparr>runningStat := StatReconnecting, reconnectCounter := 1\<rparr>) downWorld
           retryTimeWhenServerDown)))))
        CallConnectStratumServer \<le> 10"
  by (simp add: reconnectStratumServer_down)

theorem reconnectStratumServer_attempts_witness:
  "reconnectStratumServer btcManager
      (btcSession\<lparr>runningStat := StatReconnecting, reconnectCounter := 1\<rparr>) downWorld
      retryTimeWhenServerDown
   = Inr (btcManager, btcSession\<lparr>runningStat := StatReconnecting, reconnectCounter := 1\<rparr>,
          downWorld\<lparr> serverConn := None,
            events := [CloseServerConn,
              CallConnectStratumServer, Sleep 1, CallConnectStratumServer, Sleep 1,
              CallConnectStratumServer, Sleep 1, CallConnectStratumServer, Sleep 1,
              CallConnectStratumServer, Sleep 1, CallConnectStratumServer, Sleep 1,
              CallConnectStratumServer, Sleep 1, CallConnectStratumServer, Sleep 1,
              CallConnectStratumServer, Sleep 1, CallConnectStratumServer, Sleep 1,
              CallConnectStratumServer, Sleep 1, GoStop] \<rparr>)
   \<and> count_list
        (events (downWorld\<lparr> serverConn := None,
            events := [CloseServerConn,
              CallConnectStratumServer, Sleep 1, CallConnectStratumServer, Sleep 1,
              CallConnectStratumServer, Sleep 1, CallConnectStratumServer, Sleep 1,
              CallConnectStratumServer, Sleep 1, CallConnectStratumServer, Sleep 1,
              CallConnectStratumServer, Sleep 1, CallConnectStratumServer, Sleep 1,
              CallConnectStratumServer, Sleep 1, CallConnectStratumServer, Sleep 1,
              CallConnectStratumServer, Sleep 1, GoStop] \<rparr>))
        CallConnectStratumServer
       \<le> count_list (events downWorld) CallConnectStratumServer + 11"
  using reconnectStratumServer_attempts [of btcManager
          "btcSession\<lparr>runningStat := StatReconnecting, reconnectCounter := 1\<rparr>" downWorld
          btcManager "btcSession\<lparr>runningStat := StatReconnecting, reconnectCounter := 1\<rparr>"
          "downWorld\<lparr> serverConn := None,
            events := [CloseServerConn,
              CallConnectStratumServer, Sleep 1, CallConnectStratumServer, Sleep 1,
              CallConnectStratumServer, Sleep 1, CallConnectStratumServer, Sleep 1,
              CallConnectStratumServer, Sleep 1, CallConnectStratumServer, Sleep 1,
              CallConnectStratumServer, Sleep 1, CallConnectStratumServer, Sleep 1,
              CallConnectStratumServer, Sleep 1, CallConnectStratumServer, Sleep 1,
              CallConnectStratumServer, Sleep 1, GoStop] \<rparr>"]
    reconnectStratumServer_down
  by blast

text \<open>
  \<open>switchCoinType\<close> assigns the new coin to the session before it takes the
  lock and looks at the state. On a session that is not running, or whose reconnect
  counter differs from the epoch given, it does nothing more: the running state, the
  reconnect counter, every other field of the session, the manager and the world are as
  before. On a running session whose counter is the epoch it sets the state to
  \<open>StatReconnecting\<close>, adds one to the counter and runs \<open>reconnectStratumServer\<close>; when
  that returns the counter is the epoch plus one, the coin is the new coin, and the state
  is \<open>StatRunning\<close> (reconnected) or \<open>StatReconnecting\<close> (given up, \<open>Stop\<close> started).
\<close>

lemma switchCoinType_gate:
  "(runningStat session \<noteq> StatRunning \<or> reconnectCounter session \<noteq> epoch \<longrightarrow>
      switchCoinType mgr session w newCoin epoch = Inr (mgr, session\<lparr>miningCoin := newCoin\<rparr>, w))
   \<and> (runningStat session = StatRunning \<and> reconnectCounter session = epoch \<longrightarrow>
        switchCoinType mgr session w newCoin epoch
          = reconnectStratumServer mgr
              (session\<lparr>miningCoin := newCoin, runningStat := StatReconnecting,
                       reconnectCounter := epoch + 1\<rparr>)
              w retryTimeWhenServerDown
      \<and> (\<forall>mgr' session' w'.
            switchCoinType mgr session w newCoin epoch = Inr (mgr', session', w') \<longrightarrow>
              reconnectCounter session' = epoch + 1
            \<and> miningCoin session' = newCoin
            \<and> (runningStat session' = StatRunning \<or> runningStat session' = StatReconnecting)))"
proof (intro conjI impI allI)
  assume "runningStat session \<noteq> StatRunning \<or> reconnectCounter session \<noteq> epoch"
  then show "switchCoinType mgr session w newCoin epoch = Inr (mgr, session\<lparr>miningCoin := newCoin\<rparr>, w)"
    by (auto simp: switchCoinType_def Let_def)
next
  assume a: "runningStat session = StatRunning \<and> reconnectCounter session = epoch"
  then show eq: "switchCoinType mgr session w newCoin epoch
          = reconnectStratumServer mgr
              (session\<lparr>miningCoin := newCoin, runningStat := StatReconnecting,
                       reconnectCounter := epoch + 1\<rparr>)
              w retryTimeWhenServerDown"
    by (simp add: switchCoinType_def Let_def)
  fix mgr' session' w'
  assume r: "switchCoinType mgr session w newCoin epoch = Inr (mgr', session', w')"
  from reconnectStratumServer_trace [OF r [unfolded eq]] obtain x where
    "session' = session\<lparr>miningCoin := newCoin, runningStat := StatReconnecting,
                       reconnectCounter := epoch + 1,
                       stratumSubscribeRequest := x, runningStat := StatRunning\<rparr>
     \<or> session' = session\<lparr>miningCoin := newCoin, runningStat := StatReconnecting,
                       reconnectCounter := epoch + 1, stratumSubscribeRequest := x\<rparr>"
    by blast
  then show "reconnectCounter session' = epoch + 1" "miningCoin session' = newCoin"
    "runningStat session' = StatRunning \<or> runningStat session' = StatReconnecting"
    by auto
qed

text \<open>
  C5, evaluated on the running session of \<open>alice.rig1\<close> that mines \<open>btc\<close> and has
  reconnected once. Called for \<open>bch\<close> with the stale epoch 0, \<open>switchCoinType\<close> gives the
  switch up: the session is still running with the counter 1, the manager and the world
  (the connection to the server of \<open>btc\<close> in it) are as before, nothing is logged in the
  world. The current mining coin of the session is \<open>bch\<close> all the same.
\<close>

theorem switchCoinType_stale_epoch_sets_coin:
  "runningStat reconnectedSession = StatRunning
   \<and> reconnectCounter reconnectedSession = 1
   \<and> miningCoin reconnectedSession = ''btc''
   \<and> switchCoinType btcManager reconnectedSession downWorld ''bch'' 0
     = Inr (btcManager, reconnectedSession\<lparr>miningCoin := ''bch''\<rparr>, downWorld)
   \<and> runningStat (reconnectedSession\<lparr>miningCoin := ''bch''\<rparr>) = StatRunning
   \<and> reconnectCounter (reconnectedSession\<lparr>miningCoin := ''bch''\<rparr>) = 1
   \<and> miningCoin (reconnectedSession\<lparr>miningCoin := ''bch''\<rparr>) = ''bch''
   \<and> miningCoin (reconnectedSession\<lparr>miningCoin := ''bch''\<rparr>) \<noteq> miningCoin reconnectedSession
   \<and> serverConn downWorld
     = Some \<lparr> remoteAddr = Some ''btc.pool:3333'', incoming = [], writable = True \<rparr>
   \<and> events downWorld = []"
  by (simp add: switchCoinType_def Let_def reconnectedSession_def btcSession_def downWorld_def)

section \<open>The two authorize requests of the upstream handshake\<close>

lemma writeJSONRequestToServer_ok:
  "serverConn w = Some c \<Longrightarrow> writable c \<Longrightarrow>
     writeJSONRequestToServer w r = (w\<lparr>toServer := toServer w @ [r]\<rparr>, None)"
  by (simp add: writeJSONRequestToServer_def)

lemma sendMiningAuthorizeToServer_ok:
  assumes "stratumAuthorizeRequest s = Some saved" "Params saved \<noteq> []"
    "serverConn w = Some c" "writable c"
  shows "sendMiningAuthorizeToServer mgr s w b
           = (w\<lparr>toServer := toServer w @ [upstreamAuthorizeRequest mgr s saved b]\<rparr>, None)"
  using assms by (simp add: sendMiningAuthorizeToServer_def writeJSONRequestToServer_ok)

lemma stratumHandleServerResponse_other:
  "RespID r \<noteq> JStr ''auth'' \<Longrightarrow>
     stratumHandleServerResponse s r st = (fst (stratumHandleServerResponse s r st0), st)"
  by (cases "RespID r") (simp_all add: stratumHandleServerResponse_def)

lemma stratumHandleServerResponse_auth:
  "RespID r = JStr ''auth'' \<Longrightarrow>
     stratumHandleServerResponse s r st = (None, handleAuthResponse r st)"
  by (simp add: stratumHandleServerResponse_def)

lemma stratumHandleServerNotify_mask:
  "\<exists>m. stratumHandleServerNotify n st = st\<lparr>allowedVersionMask := m\<rparr>"
proof (cases "stratumHandleServerNotify n st = st")
  case True
  then show ?thesis by (intro exI [of _ "allowedVersionMask st"]) simp
next
  case False
  then show ?thesis
    by (auto simp: stratumHandleServerNotify_def split: if_splits option.splits)
qed

lemma serverResponseStep_noAuth:
  assumes "noAuthLine s l" "authMsgCounter st \<noteq> 1 \<or> authSuccess st"
  shows "\<exists>m. serverResponseStep mgr s w st l = (None, st\<lparr>allowedVersionMask := m\<rparr>, w)"
proof (cases "responseWithID l")
  case None
  show ?thesis
  proof (cases "asRequest l")
    case None
    then show ?thesis using \<open>responseWithID l = None\<close>
      by (intro exI [of _ "allowedVersionMask st"]) (simp add: serverResponseStep_def)
  next
    case (Some n)
    obtain m where "stratumHandleServerNotify n st = st\<lparr>allowedVersionMask := m\<rparr>"
      using stratumHandleServerNotify_mask by blast
    then show ?thesis using Some \<open>responseWithID l = None\<close>
      by (intro exI [of _ m]) (simp add: serverResponseStep_def)
  qed
next
  case (Some r)
  then have r: "RespID r \<noteq> JStr ''auth''"
      "fst (stratumHandleServerResponse s r initAuthState) = None"
    using assms(1) by (simp_all add: noAuthLine_def)
  have "stratumHandleServerResponse s r st = (None, st)"
    using stratumHandleServerResponse_other [OF r(1), of s st initAuthState] r(2) by simp
  then show ?thesis using Some assms(2)
    by (intro exI [of _ "allowedVersionMask st"]) (auto simp: serverResponseStep_def)
qed

lemma serverResponseLoop_skip:
  assumes "list_all (noAuthLine s) pre" "authMsgCounter st = 0"
  shows "\<exists>m. serverResponseLoop mgr s w st (pre @ ls)
              = serverResponseLoop mgr s w (st\<lparr>allowedVersionMask := m\<rparr>) ls"
  using assms
proof (induction pre arbitrary: st)
  case Nil
  show ?case by (intro exI [of _ "allowedVersionMask st"]) simp
next
  case (Cons l pre)
  obtain m where m: "serverResponseStep mgr s w st l = (None, st\<lparr>allowedVersionMask := m\<rparr>, w)"
    using serverResponseStep_noAuth [of s l st mgr w] Cons.prems by auto
  have "\<exists>m'. serverResponseLoop mgr s w (st\<lparr>allowedVersionMask := m\<rparr>) (pre @ ls)
              = serverResponseLoop mgr s w (st\<lparr>allowedVersionMask := m, allowedVersionMask := m'\<rparr>) ls"
    using Cons.IH [of "st\<lparr>allowedVersionMask := m\<rparr>"] Cons.prems by simp
  then show ?case using m Cons.prems(2) by simp
qed

lemma serverResponseStep_noAuth_retry:
  assumes "noAuthLine s l" "authMsgCounter st = 1" "\<not> authSuccess st"
    "stratumAuthorizeRequest s = Some saved" "Params saved \<noteq> []"
    "serverConn w = Some c" "writable c"
  shows "\<exists>m. serverResponseStep mgr s w st l
            = (None, st\<lparr>allowedVersionMask := m\<rparr>,
               w\<lparr>toServer := toServer w
                    @ (if responseWithID l = None then []
                       else [upstreamAuthorizeRequest mgr s saved True])\<rparr>)"
proof (cases "responseWithID l")
  case None
  have w: "w\<lparr>toServer := toServer w @ []\<rparr> = w" by simp
  show ?thesis
  proof (cases "asRequest l")
    case None
    then show ?thesis using \<open>responseWithID l = None\<close> w
      by (intro exI [of _ "allowedVersionMask st"]) (simp add: serverResponseStep_def)
  next
    case (Some n)
    obtain m where "stratumHandleServerNotify n st = st\<lparr>allowedVersionMask := m\<rparr>"
      using stratumHandleServerNotify_mask by blast
    then show ?thesis using Some \<open>responseWithID l = None\<close> w
      by (intro exI [of _ m]) (simp add: serverResponseStep_def)
  qed
next
  case (Some r)
  then have r: "RespID r \<noteq> JStr ''auth''"
      "fst (stratumHandleServerResponse s r initAuthState) = None"
    using assms(1) by (simp_all add: noAuthLine_def)
  have "stratumHandleServerResponse s r st = (None, st)"
    using stratumHandleServerResponse_other [OF r(1), of s st initAuthState] r(2) by simp
  then show ?thesis using Some assms(2,3) sendMiningAuthorizeToServer_ok [OF assms(4-7)]
    by (intro exI [of _ "allowedVersionMask st"]) (simp add: serverResponseStep_def)
qed

lemma serverResponseLoop_skip_retry:
  assumes "list_all (noAuthLine s) pre" "authMsgCounter st = 1" "\<not> authSuccess st"
    "stratumAuthorizeRequest s = Some saved" "Params saved \<noteq> []"
    "serverConn w = Some c" "writable c"
  shows "\<exists>m n. serverResponseLoop mgr s w st (pre @ ls)
              = serverResponseLoop mgr s
                  (w\<lparr>toServer := toServer w
                       @ replicate n (upstreamAuthorizeRequest mgr s saved True)\<rparr>)
                  (st\<lparr>allowedVersionMask := m\<rparr>) ls"
  using assms(1,2,3,6)
proof (induction pre arbitrary: st w)
  case Nil
  have "w\<lparr>toServer := toServer w @ replicate 0 (upstreamAuthorizeRequest mgr s saved True)\<rparr> = w"
    by simp
  then show ?case
    by (intro exI [of _ "allowedVersionMask st"] exI [of _ 0]) simp
next
  case (Cons l pre)
  let ?q = "upstreamAuthorizeRequest mgr s saved True"
  let ?k = "if responseWithID l = None then [] else [?q]"
  obtain m where m: "serverResponseStep mgr s w st l
            = (None, st\<lparr>allowedVersionMask := m\<rparr>, w\<lparr>toServer := toServer w @ ?k\<rparr>)"
    using serverResponseStep_noAuth_retry [of s l st saved w c mgr] Cons.prems assms(4,5,7)
    by auto
  have "\<exists>m' n. serverResponseLoop mgr s (w\<lparr>toServer := toServer w @ ?k\<rparr>)
                  (st\<lparr>allowedVersionMask := m\<rparr>) (pre @ ls)
              = serverResponseLoop mgr s
                  (w\<lparr>toServer := toServer w @ ?k, toServer := toServer (w\<lparr>toServer := toServer w @ ?k\<rparr>)
                       @ replicate n ?q\<rparr>)
                  (st\<lparr>allowedVersionMask := m, allowedVersionMask := m'\<rparr>) ls"
    using Cons.IH [of "st\<lparr>allowedVersionMask := m\<rparr>" "w\<lparr>toServer := toServer w @ ?k\<rparr>"]
      Cons.prems by simp
  then obtain m' n where r: "serverResponseLoop mgr s (w\<lparr>toServer := toServer w @ ?k\<rparr>)
                  (st\<lparr>allowedVersionMask := m\<rparr>) (pre @ ls)
              = serverResponseLoop mgr s
                  (w\<lparr>toServer := toServer w @ ?k @ replicate n ?q\<rparr>)
                  (st\<lparr>allowedVersionMask := m'\<rparr>) ls"
    by auto
  have "?k @ replicate n ?q = replicate (if responseWithID l = None then n else Suc n) ?q"
    by simp
  then have "serverResponseLoop mgr s w st ((l # pre) @ ls)
              = serverResponseLoop mgr s
                  (w\<lparr>toServer := toServer w
                     @ replicate (if responseWithID l = None then n else Suc n) ?q\<rparr>)
                  (st\<lparr>allowedVersionMask := m'\<rparr>) ls"
    using m r Cons.prems(2) by simp
  then show ?case by blast
qed

lemma authLine_responseWithID: "authLine l r \<Longrightarrow> responseWithID l = Some r"
  by (simp add: authLine_def responseWithID_def)

lemma serverResponseStep_auth_success:
  assumes "authLine l r" "Result r = JBool True"
  shows "serverResponseStep mgr s w st l
           = (None, st\<lparr>authMsgCounter := 2, authSuccess := True, authResponse := r\<rparr>, w)"
proof -
  have "handleAuthResponse r st = st\<lparr>authMsgCounter := 2, authSuccess := True, authResponse := r\<rparr>"
    using assms(2) by (simp add: handleAuthResponse_def stratumHandleServerAuthorizeResponse_def Let_def)
  then show ?thesis
    using assms(1) authLine_responseWithID [OF assms(1)]
    by (simp add: serverResponseStep_def stratumHandleServerResponse_auth authLine_def)
qed

lemma serverResponseStep_auth_failure_first:
  assumes "authLine l r" "Result r \<noteq> JBool True" "authMsgCounter st = 0" "\<not> authSuccess st"
    "stratumAuthorizeRequest s = Some saved" "Params saved \<noteq> []"
    "serverConn w = Some c" "writable c"
  shows "serverResponseStep mgr s w st l
           = (None, st\<lparr>authMsgCounter := 1, authResponse := r\<rparr>,
              w\<lparr>toServer := toServer w @ [upstreamAuthorizeRequest mgr s saved True]\<rparr>)"
proof -
  have "handleAuthResponse r st = st\<lparr>authMsgCounter := 1, authResponse := r\<rparr>"
    using assms(2,3,4)
    by (simp add: handleAuthResponse_def stratumHandleServerAuthorizeResponse_def Let_def)
  then show ?thesis
    using assms(1) authLine_responseWithID [OF assms(1)] assms(4)
      sendMiningAuthorizeToServer_ok [OF assms(5-8)]
    by (simp add: serverResponseStep_def stratumHandleServerResponse_auth authLine_def)
qed

lemma serverResponseStep_auth_failure_second:
  assumes "authLine l r" "Result r \<noteq> JBool True" "authMsgCounter st = 1" "\<not> authSuccess st"
  shows "serverResponseStep mgr s w st l
           = (None, st\<lparr>authMsgCounter := 2, authResponse := r\<rparr>, w)"
proof -
  have "handleAuthResponse r st = st\<lparr>authMsgCounter := 2, authResponse := r\<rparr>"
    using assms(2,3,4)
    by (simp add: handleAuthResponse_def stratumHandleServerAuthorizeResponse_def Let_def)
  then show ?thesis
    using assms(1) authLine_responseWithID [OF assms(1)] assms(4)
    by (simp add: serverResponseStep_def stratumHandleServerResponse_auth authLine_def)
qed

lemma serverResponseLoop_done:
  "authMsgCounter st = 2 \<Longrightarrow> serverResponseLoop mgr s w st ls = (None, st, w, ls)"
  by (cases ls) simp_all

lemma writeJSONRequestToServer_grows:
  "writeJSONRequestToServer w r = (w', e) \<Longrightarrow>
     (\<exists>more. toServer w' = toServer w @ more) \<and> toClient w' = toClient w
     \<and> clientConn w' = clientConn w"
  by (auto simp: writeJSONRequestToServer_def split: option.splits if_splits)

lemma serverResponseStep_grows:
  assumes "serverResponseStep mgr s w st l = (e, st', w')"
  shows "(\<exists>more. toServer w' = toServer w @ more) \<and> toClient w' = toClient w
         \<and> clientConn w' = clientConn w"
proof -
  have "w' = w \<or> (\<exists>e'. sendMiningAuthorizeToServer mgr s w True = (w', e'))"
    using assms
    by (auto simp: serverResponseStep_def split: option.splits prod.splits if_splits)
  moreover have "\<And>e'. sendMiningAuthorizeToServer mgr s w True = (w', e') \<Longrightarrow>
     (\<exists>more. toServer w' = toServer w @ more) \<and> toClient w' = toClient w
     \<and> clientConn w' = clientConn w"
    by (auto simp: sendMiningAuthorizeToServer_def dest: writeJSONRequestToServer_grows
        split: option.splits if_splits)
  ultimately show ?thesis by auto
qed

lemma serverResponseLoop_grows:
  "serverResponseLoop mgr s w st ls = (e, st', w', rest) \<Longrightarrow>
     (\<exists>more. toServer w' = toServer w @ more) \<and> toClient w' = toClient w
     \<and> clientConn w' = clientConn w"
proof (induction ls arbitrary: w st)
  case Nil
  then show ?case by (auto split: if_splits)
next
  case (Cons l ls)
  show ?case
  proof (cases "authMsgCounter st < 2")
    case False
    then show ?thesis using Cons.prems by simp
  next
    case True
    obtain e1 st1 w1 where h: "serverResponseStep mgr s w st l = (e1, st1, w1)"
      by (cases "serverResponseStep mgr s w st l")
    have g: "(\<exists>more. toServer w1 = toServer w @ more) \<and> toClient w1 = toClient w
         \<and> clientConn w1 = clientConn w"
      using h by (rule serverResponseStep_grows)
    show ?thesis
    proof (cases e1)
      case (Some a)
      then show ?thesis using Cons.prems True h g by simp
    next
      case None
      then have "serverResponseLoop mgr s w1 st1 ls = (e, st', w', rest)"
        using Cons.prems True h by simp
      from Cons.IH [OF this] show ?thesis using g by auto
    qed
  qed
qed

lemma forwardAuthResponse_ok:
  assumes "stratumAuthorizeRequest s = Some saved" "writable (clientConn w)"
  shows "\<exists>notify. forwardAuthResponse s w st
           = (w\<lparr>toClient := toClient w
                  @ ClientResponse (jsonRPCVersion s) ((authResponse st)\<lparr>RespID := ID saved\<rparr>)
                  # notify\<rparr>,
              if authSuccess st then None else Some ErrAuthorizeFailedForServer)"
proof (cases "authSuccess st \<and> versionMask s \<noteq> 0")
  case True
  then show ?thesis using assms
    by (intro exI [of _ "[ClientNotify (setVersionMaskNotify (allowedVersionMask st AND versionMask s))]"])
       (simp add: forwardAuthResponse_def writeJSONResponseToClient_def writeJSONNotifyToClient_def)
next
  case False
  then show ?thesis using assms
    by (intro exI [of _ "[]"])
       (auto simp: forwardAuthResponse_def writeJSONResponseToClient_def)
qed

lemma noAuthLine_subscribe_request [simp]:
  "noAuthLine (s\<lparr>stratumSubscribeRequest := x\<rparr>) l = noAuthLine s l"
proof -
  have "stratumHandleServerSubscribeResponse (s\<lparr>stratumSubscribeRequest := x\<rparr>) r
          = stratumHandleServerSubscribeResponse s r" for r
    by (simp add: stratumHandleServerSubscribeResponse_def sessionExtraNonce_def
        cong: ProtocolType.case_cong json.case_cong option.case_cong if_cong)
  then have "stratumHandleServerResponse (s\<lparr>stratumSubscribeRequest := x\<rparr>) r st
          = stratumHandleServerResponse s r st" for r st
    by (simp add: stratumHandleServerResponse_def cong: json.case_cong if_cong)
  then show ?thesis by (simp add: noAuthLine_def cong: option.case_cong)
qed

lemma noAuthLine_subscribe_request_fun [simp]:
  "noAuthLine (s\<lparr>stratumSubscribeRequest := x\<rparr>) = noAuthLine s"
  by (rule ext) simp

lemma upstreamAuthorizeRequest_subscribe_request [simp]:
  "upstreamAuthorizeRequest mgr (s\<lparr>stratumSubscribeRequest := x\<rparr>) saved b
     = upstreamAuthorizeRequest mgr s saved b"
  by (simp add: upstreamAuthorizeRequest_def authWorkerName_def getUserSuffix_def
      split: option.splits)

lemma sendMiningSubscribeToServer_ok:
  assumes "stratumSubscribeRequest s = Some sub" "protocolType s \<noteq> ProtocolUnknown"
    "LastIndexColon (clientIPPort s) = Some pos" "serverConn w = Some c" "writable c"
  shows "\<exists>sub1. notAuthorize sub1
           \<and> sendMiningSubscribeToServer s w
               = (s\<lparr>stratumSubscribeRequest := Some sub1\<rparr>,
                  w\<lparr>toServer := toServer w @ [sub1]\<rparr>, None)"
proof (cases "protocolType s = ProtocolBitcoinStratum")
  case True
  let ?sub1 = "sub\<lparr>ID := JStr ''subscribe'',
      Params := [JStr (paramOrDefault (Params sub) 0 ''stratumSwitcher''),
                 JStr (Uint32ToHex (sessionID s)),
                 JNum (uint (IP2Long w (take pos (clientIPPort s))))]\<rparr>"
  have "notAuthorize ?sub1" by (simp add: notAuthorize_def)
  moreover have "sendMiningSubscribeToServer s w
               = (s\<lparr>stratumSubscribeRequest := Some ?sub1\<rparr>,
                  w\<lparr>toServer := toServer w @ [?sub1]\<rparr>, None)"
    using assms True
    by (simp add: sendMiningSubscribeToServer_def Let_def writeJSONRequestToServer_ok)
  ultimately show ?thesis by blast
next
  case False
  let ?sub1 = "sub\<lparr>ID := JStr ''subscribe'',
      Params := [JStr (paramOrDefault (Params sub) 0 ''stratumSwitcher''),
                 JStr (paramOrDefault (Params sub) 1 ''Stratum''),
                 JStr (sessionIDString s),
                 JNum (uint (IP2Long w (take pos (clientIPPort s))))]\<rparr>"
  have "notAuthorize ?sub1" by (simp add: notAuthorize_def)
  moreover have "sendMiningSubscribeToServer s w
               = (s\<lparr>stratumSubscribeRequest := Some ?sub1\<rparr>,
                  w\<lparr>toServer := toServer w @ [?sub1]\<rparr>, None)"
    using assms False
    by (simp add: sendMiningSubscribeToServer_def Let_def writeJSONRequestToServer_ok)
  ultimately show ?thesis by blast
qed

lemma sendMiningConfigureToServer_ok:
  assumes "serverConn w = Some c" "writable c"
  shows "\<exists>cfg. list_all notAuthorize cfg
           \<and> sendMiningConfigureToServer s w = (w\<lparr>toServer := toServer w @ cfg\<rparr>, None)"
proof (cases "versionMask s = 0")
  case True
  have "w\<lparr>toServer := toServer w @ []\<rparr> = w" by simp
  then show ?thesis using True
    by (intro exI [of _ "[]"]) (simp add: sendMiningConfigureToServer_def)
next
  case False
  let ?q = "\<lparr> ID = JStr ''configure'', Method = ''mining.configure'',
               Params = [JArr [JStr ''version-rolling''],
                         JObj [(''version-rolling.mask'', JStr (getVersionMaskStr s))]],
               Worker = [] \<rparr>"
  show ?thesis using False assms
    by (intro exI [of _ "[?q]"])
       (simp add: sendMiningConfigureToServer_def writeJSONRequestToServer_ok notAuthorize_def)
qed

text \<open>The requests are sent, and what is left is the loop and the forwarding.\<close>

lemma serverSubscribeAndAuthorize_sent:
  assumes "stratumAuthorizeRequest s = Some saved" "Params saved \<noteq> []"
    "stratumSubscribeRequest s = Some sub" "protocolType s \<noteq> ProtocolUnknown"
    "LastIndexColon (clientIPPort s) = Some pos" "serverConn w = Some c" "writable c"
  shows "\<exists>before sub1. list_all notAuthorize before
     \<and> serverSubscribeAndAuthorize mgr s w =
        (case serverResponseLoop mgr (s\<lparr>stratumSubscribeRequest := Some sub1\<rparr>)
                (w\<lparr>toServer := toServer w @ before @ [upstreamAuthorizeRequest mgr s saved False]\<rparr>)
                initAuthState (incoming c) of
           (err, st, w4, rest) \<Rightarrow>
             (case err of
                Some e \<Rightarrow> (s\<lparr>stratumSubscribeRequest := Some sub1\<rparr>,
                           w4\<lparr>serverConn := Some (c\<lparr>incoming := rest\<rparr>)\<rparr>, Some e)
              | None \<Rightarrow>
                  (case forwardAuthResponse (s\<lparr>stratumSubscribeRequest := Some sub1\<rparr>)
                          (w4\<lparr>serverConn := Some (c\<lparr>incoming := rest\<rparr>)\<rparr>) st of
                     (w6, err1) \<Rightarrow> (s\<lparr>stratumSubscribeRequest := Some sub1\<rparr>, w6, err1))))"
proof -
  obtain cfg where cfg: "list_all notAuthorize cfg"
    "sendMiningConfigureToServer s w = (w\<lparr>toServer := toServer w @ cfg\<rparr>, None)"
    using sendMiningConfigureToServer_ok [OF assms(6,7)] by blast
  let ?w1 = "w\<lparr>toServer := toServer w @ cfg\<rparr>"
  have c1: "serverConn ?w1 = Some c" using assms(6) by simp
  obtain sub1 where sub1: "notAuthorize sub1"
    "sendMiningSubscribeToServer s ?w1
       = (s\<lparr>stratumSubscribeRequest := Some sub1\<rparr>, ?w1\<lparr>toServer := toServer ?w1 @ [sub1]\<rparr>, None)"
    using sendMiningSubscribeToServer_ok [OF assms(3,4,5) c1 assms(7)] by blast
  let ?s1 = "s\<lparr>stratumSubscribeRequest := Some sub1\<rparr>"
  let ?w2 = "?w1\<lparr>toServer := toServer ?w1 @ [sub1]\<rparr>"
  have c2: "serverConn ?w2 = Some c" using assms(6) by simp
  have a1: "stratumAuthorizeRequest ?s1 = Some saved" using assms(1) by simp
  have sb: "sendMiningSubscribeToServer s (w\<lparr>toServer := toServer w @ cfg\<rparr>)
              = (?s1, w\<lparr>toServer := toServer w @ cfg @ [sub1]\<rparr>, None)"
    using sub1(2) by simp
  have au: "sendMiningAuthorizeToServer mgr ?s1 (w\<lparr>toServer := toServer w @ cfg @ [sub1]\<rparr>) False
           = (w\<lparr>toServer := toServer w @ cfg @ [sub1, upstreamAuthorizeRequest mgr s saved False]\<rparr>,
              None)"
    using sendMiningAuthorizeToServer_ok [OF a1 assms(2) c2 assms(7), of mgr False] by simp
  have "list_all notAuthorize (cfg @ [sub1])" using cfg(1) sub1(1) by simp
  moreover have "serverSubscribeAndAuthorize mgr s w =
        (case serverResponseLoop mgr ?s1
                (w\<lparr>toServer := toServer w @ (cfg @ [sub1]) @ [upstreamAuthorizeRequest mgr s saved False]\<rparr>)
                initAuthState (incoming c) of
           (err, st, w4, rest) \<Rightarrow>
             (case err of
                Some e \<Rightarrow> (?s1, w4\<lparr>serverConn := Some (c\<lparr>incoming := rest\<rparr>)\<rparr>, Some e)
              | None \<Rightarrow>
                  (case forwardAuthResponse ?s1 (w4\<lparr>serverConn := Some (c\<lparr>incoming := rest\<rparr>)\<rparr>) st of
                     (w6, err1) \<Rightarrow> (?s1, w6, err1))))"
    by (simp add: serverSubscribeAndAuthorize_def cfg(2) sb au assms(6) Let_def split: prod.splits)
  ultimately show ?thesis by blast
qed

lemma authWorkerName_params:
  assumes "Params saved \<noteq> []"
  shows "Params (upstreamAuthorizeRequest mgr session saved False) ! 0 = JStr (fullWorkerName session)"
    and "Params (upstreamAuthorizeRequest mgr session saved True) ! 0
       = JStr (subaccountName session @ ''_''
               @ (case stratumServerInfoMap mgr (miningCoin session) of
                    None \<Rightarrow> miningCoin session
                  | Some serverInfo \<Rightarrow> UserSuffix serverInfo)
               @ minerNameWithDot session)"
  using assms
  by (simp_all add: upstreamAuthorizeRequest_def authWorkerName_def getUserSuffix_def)

lemma serverSubscribeAndAuthorize_first_success:
  assumes "stratumAuthorizeRequest s = Some saved" "Params saved \<noteq> []"
    "stratumSubscribeRequest s = Some sub" "protocolType s \<noteq> ProtocolUnknown"
    "LastIndexColon (clientIPPort s) = Some pos" "serverConn w = Some c" "writable c"
    "writable (clientConn w)"
    "incoming c = pre @ l1 # rest" "list_all (noAuthLine s) pre" "authLine l1 r1"
    "Result r1 = JBool True"
  shows "\<exists>s1 w' before notify.
           serverSubscribeAndAuthorize mgr s w = (s1, w', None)
         \<and> list_all notAuthorize before
         \<and> toServer w' = toServer w @ before @ [upstreamAuthorizeRequest mgr s saved False]
         \<and> toClient w' = toClient w
              @ ClientResponse (jsonRPCVersion s) (r1\<lparr>RespID := ID saved\<rparr>) # notify"
proof -
  obtain before sub1 where b: "list_all notAuthorize before" and
    nf: "serverSubscribeAndAuthorize mgr s w =
        (case serverResponseLoop mgr (s\<lparr>stratumSubscribeRequest := Some sub1\<rparr>)
                (w\<lparr>toServer := toServer w @ before @ [upstreamAuthorizeRequest mgr s saved False]\<rparr>)
                initAuthState (incoming c) of
           (err, st, w4, rest) \<Rightarrow>
             (case err of
                Some e \<Rightarrow> (s\<lparr>stratumSubscribeRequest := Some sub1\<rparr>,
                           w4\<lparr>serverConn := Some (c\<lparr>incoming := rest\<rparr>)\<rparr>, Some e)
              | None \<Rightarrow>
                  (case forwardAuthResponse (s\<lparr>stratumSubscribeRequest := Some sub1\<rparr>)
                          (w4\<lparr>serverConn := Some (c\<lparr>incoming := rest\<rparr>)\<rparr>) st of
                     (w6, err1) \<Rightarrow> (s\<lparr>stratumSubscribeRequest := Some sub1\<rparr>, w6, err1))))"
    using serverSubscribeAndAuthorize_sent [OF assms(1-7), of mgr] by blast
  define s1 where "s1 = s\<lparr>stratumSubscribeRequest := Some sub1\<rparr>"
  define w3 where "w3 = w\<lparr>toServer := toServer w @ before @ [upstreamAuthorizeRequest mgr s saved False]\<rparr>"
  have la: "list_all (noAuthLine s1) pre" using assms(10) by (simp add: s1_def)
  obtain m where sk: "serverResponseLoop mgr s1 w3 initAuthState (pre @ l1 # rest)
              = serverResponseLoop mgr s1 w3 (initAuthState\<lparr>allowedVersionMask := m\<rparr>) (l1 # rest)"
    using serverResponseLoop_skip [OF la, of initAuthState mgr w3 "l1 # rest"]
    by (auto simp: initAuthState_def)
  define st1 where "st1 = initAuthState\<lparr>allowedVersionMask := m, authMsgCounter := 2,
                             authSuccess := True, authResponse := r1\<rparr>"
  have stp: "serverResponseStep mgr s1 w3 (initAuthState\<lparr>allowedVersionMask := m\<rparr>) l1
               = (None, st1, w3)"
    using serverResponseStep_auth_success [OF assms(11,12)] by (simp add: st1_def)
  have lp: "serverResponseLoop mgr s1 w3 initAuthState (incoming c) = (None, st1, w3, rest)"
    using sk stp serverResponseLoop_done [of st1 mgr s1 w3 rest] assms(9)
    by (simp add: initAuthState_def st1_def)
  define w5 where "w5 = w3\<lparr>serverConn := Some (c\<lparr>incoming := rest\<rparr>)\<rparr>"
  have a1: "stratumAuthorizeRequest s1 = Some saved" using assms(1) by (simp add: s1_def)
  have wc: "writable (clientConn w5)" using assms(8) by (simp add: w5_def w3_def)
  obtain notify where fw: "forwardAuthResponse s1 w5 st1
           = (w5\<lparr>toClient := toClient w5
                  @ ClientResponse (jsonRPCVersion s1) ((authResponse st1)\<lparr>RespID := ID saved\<rparr>)
                  # notify\<rparr>,
              if authSuccess st1 then None else Some ErrAuthorizeFailedForServer)"
    using forwardAuthResponse_ok [OF a1 wc] by blast
  have res: "serverSubscribeAndAuthorize mgr s w
          = (s1, w5\<lparr>toClient := toClient w5
                  @ ClientResponse (jsonRPCVersion s1) ((authResponse st1)\<lparr>RespID := ID saved\<rparr>)
                  # notify\<rparr>, None)"
    using nf lp fw by (simp add: s1_def [symmetric] w3_def [symmetric] w5_def [symmetric] st1_def)
  show ?thesis
    using res b
    by (intro exI [of _ s1] exI [of _ "w5\<lparr>toClient := toClient w5
                  @ ClientResponse (jsonRPCVersion s1) ((authResponse st1)\<lparr>RespID := ID saved\<rparr>)
                  # notify\<rparr>"] exI [of _ before] exI [of _ notify])
       (simp add: w5_def w3_def s1_def st1_def)
qed

lemma serverResponseLoop_second_response:
  assumes "list_all (noAuthLine s) pre2" "authLine l2 r2" "authMsgCounter st = 1"
    "\<not> authSuccess st" "stratumAuthorizeRequest s = Some saved" "Params saved \<noteq> []"
    "serverConn w = Some c" "writable c"
  shows "\<exists>st' w'. serverResponseLoop mgr s w st (pre2 @ l2 # rest2) = (None, st', w', rest2)
           \<and> authResponse st' = r2 \<and> authSuccess st' = (Result r2 = JBool True)"
proof -
  obtain m n where sk: "serverResponseLoop mgr s w st (pre2 @ l2 # rest2)
              = serverResponseLoop mgr s
                  (w\<lparr>toServer := toServer w
                       @ replicate n (upstreamAuthorizeRequest mgr s saved True)\<rparr>)
                  (st\<lparr>allowedVersionMask := m\<rparr>) (l2 # rest2)"
    using serverResponseLoop_skip_retry [OF assms(1,3,4,5,6,7,8), of mgr "l2 # rest2"] by blast
  define w1 where "w1 = w\<lparr>toServer := toServer w
                       @ replicate n (upstreamAuthorizeRequest mgr s saved True)\<rparr>"
  define st1 where "st1 = st\<lparr>allowedVersionMask := m\<rparr>"
  have c1: "authMsgCounter st1 = 1" "\<not> authSuccess st1" using assms(3,4) by (simp_all add: st1_def)
  show ?thesis
  proof (cases "Result r2 = JBool True")
    case True
    define st2 where "st2 = st1\<lparr>authMsgCounter := 2, authSuccess := True, authResponse := r2\<rparr>"
    have "serverResponseStep mgr s w1 st1 l2 = (None, st2, w1)"
      using serverResponseStep_auth_success [OF assms(2) True] by (simp add: st2_def)
    then have "serverResponseLoop mgr s w1 st1 (l2 # rest2) = (None, st2, w1, rest2)"
      using c1 serverResponseLoop_done [of st2 mgr s w1 rest2] by (simp add: st2_def)
    then show ?thesis using sk True by (simp add: w1_def st1_def st2_def)
  next
    case False
    define st2 where "st2 = st1\<lparr>authMsgCounter := 2, authResponse := r2\<rparr>"
    have "serverResponseStep mgr s w1 st1 l2 = (None, st2, w1)"
      using serverResponseStep_auth_failure_second [OF assms(2) False c1] by (simp add: st2_def)
    then have "serverResponseLoop mgr s w1 st1 (l2 # rest2) = (None, st2, w1, rest2)"
      using c1 serverResponseLoop_done [of st2 mgr s w1 rest2] by (simp add: st2_def)
    then show ?thesis using sk False c1 by (simp add: w1_def st1_def st2_def)
  qed
qed

lemma serverSubscribeAndAuthorize_first_failure:
  assumes "stratumAuthorizeRequest s = Some saved" "Params saved \<noteq> []"
    "stratumSubscribeRequest s = Some sub" "protocolType s \<noteq> ProtocolUnknown"
    "LastIndexColon (clientIPPort s) = Some pos" "serverConn w = Some c" "writable c"
    "writable (clientConn w)"
    "incoming c = pre @ l1 # rest" "list_all (noAuthLine s) pre" "authLine l1 r1"
    "Result r1 \<noteq> JBool True"
  shows "\<exists>s1 w' err before.
           serverSubscribeAndAuthorize mgr s w = (s1, w', err)
         \<and> list_all notAuthorize before
         \<and> (\<exists>more. toServer w' = toServer w @ before
               @ [upstreamAuthorizeRequest mgr s saved False,
                  upstreamAuthorizeRequest mgr s saved True] @ more)
         \<and> (\<forall>pre2 l2 r2 rest2.
               rest = pre2 @ l2 # rest2 \<and> list_all (noAuthLine s) pre2 \<and> authLine l2 r2 \<longrightarrow>
                 (\<exists>notify. toClient w' = toClient w
                    @ ClientResponse (jsonRPCVersion s) (r2\<lparr>RespID := ID saved\<rparr>) # notify)
               \<and> (Result r2 = JBool True \<longrightarrow> err = None)
               \<and> (Result r2 \<noteq> JBool True \<longrightarrow> err = Some ErrAuthorizeFailedForServer))"
proof -
  obtain before sub1 where b: "list_all notAuthorize before" and
    nf: "serverSubscribeAndAuthorize mgr s w =
        (case serverResponseLoop mgr (s\<lparr>stratumSubscribeRequest := Some sub1\<rparr>)
                (w\<lparr>toServer := toServer w @ before @ [upstreamAuthorizeRequest mgr s saved False]\<rparr>)
                initAuthState (incoming c) of
           (err, st, w4, rest) \<Rightarrow>
             (case err of
                Some e \<Rightarrow> (s\<lparr>stratumSubscribeRequest := Some sub1\<rparr>,
                           w4\<lparr>serverConn := Some (c\<lparr>incoming := rest\<rparr>)\<rparr>, Some e)
              | None \<Rightarrow>
                  (case forwardAuthResponse (s\<lparr>stratumSubscribeRequest := Some sub1\<rparr>)
                          (w4\<lparr>serverConn := Some (c\<lparr>incoming := rest\<rparr>)\<rparr>) st of
                     (w6, err1) \<Rightarrow> (s\<lparr>stratumSubscribeRequest := Some sub1\<rparr>, w6, err1))))"
    using serverSubscribeAndAuthorize_sent [OF assms(1-7), of mgr] by blast
  define s1 where "s1 = s\<lparr>stratumSubscribeRequest := Some sub1\<rparr>"
  define authF where "authF = upstreamAuthorizeRequest mgr s saved False"
  define authT where "authT = upstreamAuthorizeRequest mgr s saved True"
  define w3 where "w3 = w\<lparr>toServer := toServer w @ before @ [authF]\<rparr>"
  have la: "list_all (noAuthLine s1) pre" using assms(10) by (simp add: s1_def)
  have a1: "stratumAuthorizeRequest s1 = Some saved" using assms(1) by (simp add: s1_def)
  have aT: "upstreamAuthorizeRequest mgr s1 saved True = authT" by (simp add: s1_def authT_def)
  have c3: "serverConn w3 = Some c" using assms(6) by (simp add: w3_def)
  obtain m where sk: "serverResponseLoop mgr s1 w3 initAuthState (pre @ l1 # rest)
              = serverResponseLoop mgr s1 w3 (initAuthState\<lparr>allowedVersionMask := m\<rparr>) (l1 # rest)"
    using serverResponseLoop_skip [OF la, of initAuthState mgr w3 "l1 # rest"]
    by (auto simp: initAuthState_def)
  define st0 where "st0 = initAuthState\<lparr>allowedVersionMask := m\<rparr>"
  define stF where "stF = st0\<lparr>authMsgCounter := 1, authResponse := r1\<rparr>"
  define w3F where "w3F = w3\<lparr>toServer := toServer w3 @ [authT]\<rparr>"
  have st0: "authMsgCounter st0 = 0" "\<not> authSuccess st0" by (simp_all add: st0_def initAuthState_def)
  have stp: "serverResponseStep mgr s1 w3 st0 l1 = (None, stF, w3F)"
    using serverResponseStep_auth_failure_first [OF assms(11,12) st0 a1 assms(2) c3 assms(7), of mgr] aT
    by (simp add: stF_def w3F_def)
  have stF: "authMsgCounter stF = 1" "\<not> authSuccess stF" using st0 by (simp_all add: stF_def)
  have lp0: "serverResponseLoop mgr s1 w3 initAuthState (incoming c)
               = serverResponseLoop mgr s1 w3F stF rest"
    using sk stp st0 assms(9) by (simp add: st0_def)
  obtain e st w4 rest' where lp: "serverResponseLoop mgr s1 w3F stF rest = (e, st, w4, rest')"
    by (cases "serverResponseLoop mgr s1 w3F stF rest") auto
  obtain more where g: "toServer w4 = toServer w3F @ more" "toClient w4 = toClient w3F"
    "clientConn w4 = clientConn w3F"
    using serverResponseLoop_grows [OF lp] by blast
  define w5 where "w5 = w4\<lparr>serverConn := Some (c\<lparr>incoming := rest'\<rparr>)\<rparr>"
  have wc: "writable (clientConn w5)" using assms(8) g(3) by (simp add: w5_def w3F_def w3_def)
  obtain notify where fw: "forwardAuthResponse s1 w5 st
           = (w5\<lparr>toClient := toClient w5
                  @ ClientResponse (jsonRPCVersion s1) ((authResponse st)\<lparr>RespID := ID saved\<rparr>)
                  # notify\<rparr>,
              if authSuccess st then None else Some ErrAuthorizeFailedForServer)"
    using forwardAuthResponse_ok [OF a1 wc] by blast
  define w' where "w' = (case e of Some x \<Rightarrow> w5
      | None \<Rightarrow> w5\<lparr>toClient := toClient w5
                  @ ClientResponse (jsonRPCVersion s1) ((authResponse st)\<lparr>RespID := ID saved\<rparr>)
                  # notify\<rparr>)"
  define err where "err = (case e of Some x \<Rightarrow> Some x
      | None \<Rightarrow> if authSuccess st then None else Some ErrAuthorizeFailedForServer)"
  have res: "serverSubscribeAndAuthorize mgr s w = (s1, w', err)"
    using nf lp0 lp fw
    by (simp add: s1_def [symmetric] authF_def [symmetric] w3_def [symmetric]
          w5_def [symmetric] w'_def err_def split: option.splits)
  have ts: "toServer w' = toServer w @ before @ [authF, authT] @ more"
    using g(1) by (simp add: w'_def w5_def w3F_def w3_def split: option.splits)
  have second: "(\<exists>notify. toClient w' = toClient w
                    @ ClientResponse (jsonRPCVersion s) (r2\<lparr>RespID := ID saved\<rparr>) # notify)
               \<and> (Result r2 = JBool True \<longrightarrow> err = None)
               \<and> (Result r2 \<noteq> JBool True \<longrightarrow> err = Some ErrAuthorizeFailedForServer)"
    if h: "rest = pre2 @ l2 # rest2 \<and> list_all (noAuthLine s) pre2 \<and> authLine l2 r2"
    for pre2 l2 r2 rest2
  proof -
    have la2: "list_all (noAuthLine s1) pre2" using h by (simp add: s1_def)
    have al: "authLine l2 r2" using h by simp
    have c3F: "serverConn w3F = Some c" using c3 by (simp add: w3F_def)
    obtain st' wx where "serverResponseLoop mgr s1 w3F stF (pre2 @ l2 # rest2) = (None, st', wx, rest2)"
      "authResponse st' = r2" "authSuccess st' = (Result r2 = JBool True)"
      using serverResponseLoop_second_response [OF la2 al stF a1 assms(2) c3F assms(7), of mgr rest2]
      by blast
    then have e: "e = None" "authResponse st = r2" "authSuccess st = (Result r2 = JBool True)"
      using lp h by simp_all
    have "toClient w' = toClient w
            @ ClientResponse (jsonRPCVersion s) (r2\<lparr>RespID := ID saved\<rparr>) # notify"
      using e g(2) by (simp add: w'_def w5_def w3F_def w3_def s1_def)
    then show ?thesis using e by (auto simp: err_def)
  qed
  have ts': "\<exists>more. toServer w' = toServer w @ before
               @ [upstreamAuthorizeRequest mgr s saved False,
                  upstreamAuthorizeRequest mgr s saved True] @ more"
    using ts unfolding authF_def authT_def by blast
  have "serverSubscribeAndAuthorize mgr s w = (s1, w', err)
         \<and> list_all notAuthorize before
         \<and> (\<exists>more. toServer w' = toServer w @ before
               @ [upstreamAuthorizeRequest mgr s saved False,
                  upstreamAuthorizeRequest mgr s saved True] @ more)
         \<and> (\<forall>pre2 l2 r2 rest2.
               rest = pre2 @ l2 # rest2 \<and> list_all (noAuthLine s) pre2 \<and> authLine l2 r2 \<longrightarrow>
                 (\<exists>notify. toClient w' = toClient w
                    @ ClientResponse (jsonRPCVersion s) (r2\<lparr>RespID := ID saved\<rparr>) # notify)
               \<and> (Result r2 = JBool True \<longrightarrow> err = None)
               \<and> (Result r2 \<noteq> JBool True \<longrightarrow> err = Some ErrAuthorizeFailedForServer))"
    using res b ts' second by (intro conjI allI impI) (assumption | blast)+
  then show ?thesis by blast
qed

lemma handshake_example_requests: "stratumAuthorizeRequest btcSession = Some authorizeRequest"
    "Params authorizeRequest \<noteq> []"
    "stratumSubscribeRequest btcSession = Some subscribeRequest"
    "protocolType btcSession \<noteq> ProtocolUnknown"
  by (simp_all add: btcSession_def authorizeRequest_def)

lemma handshake_example_colon:    "LastIndexColon (clientIPPort btcSession) = Some 8"
  by (simp add: btcSession_def LastIndexColon_def)

lemma handshake_example_conn:
    "serverConn handshakeWorld = Some handshakeConn" "writable handshakeConn"
    "writable (clientConn handshakeWorld)"
    "incoming handshakeConn = [subscribeResponseLine] @ authFailureLine # [authSuccessLine]"
  by (simp_all add: handshakeWorld_def downWorld_def handshakeConn_def)

lemma handshake_example_subscribe_line:
    "list_all (noAuthLine btcSession) [subscribeResponseLine]"
  by (simp add: btcSession_def noAuthLine_def responseWithID_def
          subscribeResponseLine_def stratumHandleServerResponse_def
          stratumHandleServerSubscribeResponse_def)

lemma handshake_example_failure_line:
    "authLine authFailureLine authFailureResponse"
  by (simp add: authLine_def authFailureLine_def authFailureResponse_def)

lemma handshake_example_names: "fullWorkerName btcSession = ''alice.rig1''"
    "subaccountName btcSession @ ''_''
       @ (case stratumServerInfoMap btcManager (miningCoin btcSession) of
            None \<Rightarrow> miningCoin btcSession
          | Some serverInfo \<Rightarrow> UserSuffix serverInfo)
       @ minerNameWithDot btcSession = ''alice_btc.rig1''"
    "toServer handshakeWorld = []" "toClient handshakeWorld = []"
    "jsonRPCVersion btcSession = 1" "ID authorizeRequest = JNum 2"
    by (simp_all add: btcSession_def btcManager_def handshakeWorld_def downWorld_def
          authorizeRequest_def)

text \<open>
  C8. In a handshake whose requests can be written and in which the server answers the
  first authorize with \<open>r1\<close> (after lines that are no authorize response and raise no
  error): the first authorize request carries the full worker name, unsuffixed, and the
  authorize request with the suffix carries the sub-account name, an underscore, the user
  suffix of the coin (the coin itself where the coin has no server entry) and the miner
  name with its dot. No authorize request is sent before the first. Where \<open>r1\<close> is a
  success, the first authorize is the only one sent, and \<open>r1\<close> is forwarded to the client
  under the ID of the client's request. Where \<open>r1\<close> is no success, the suffixed authorize
  follows the first, and the response \<open>r2\<close> to it is the one forwarded; the handshake
  succeeds exactly if \<open>r2\<close> is a success.
\<close>

theorem serverSubscribeAndAuthorize_authorize_retry:
  assumes "stratumAuthorizeRequest session = Some saved" and "Params saved \<noteq> []"
    and "stratumSubscribeRequest session = Some sub"
    and "protocolType session \<noteq> ProtocolUnknown"
    and "LastIndexColon (clientIPPort session) = Some pos"
    and "serverConn w = Some c" and "writable c" and "writable (clientConn w)"
    and "incoming c = pre @ l1 # rest" and "list_all (noAuthLine session) pre"
    and "authLine l1 r1"
  shows "Params (upstreamAuthorizeRequest mgr session saved False) ! 0
           = JStr (fullWorkerName session)
       \<and> Params (upstreamAuthorizeRequest mgr session saved True) ! 0
           = JStr (subaccountName session @ ''_''
                   @ (case stratumServerInfoMap mgr (miningCoin session) of
                        None \<Rightarrow> miningCoin session
                      | Some serverInfo \<Rightarrow> UserSuffix serverInfo)
                   @ minerNameWithDot session)
       \<and> (\<exists>session1 w' err before.
             serverSubscribeAndAuthorize mgr session w = (session1, w', err)
           \<and> list_all notAuthorize before
           \<and> (Result r1 = JBool True \<longrightarrow>
                 toServer w' = toServer w @ before
                   @ [upstreamAuthorizeRequest mgr session saved False]
               \<and> (\<exists>notify. toClient w' = toClient w
                     @ ClientResponse (jsonRPCVersion session) (r1\<lparr>RespID := ID saved\<rparr>)
                     # notify)
               \<and> err = None)
           \<and> (Result r1 \<noteq> JBool True \<longrightarrow>
                 (\<exists>more. toServer w' = toServer w @ before
                    @ [upstreamAuthorizeRequest mgr session saved False,
                       upstreamAuthorizeRequest mgr session saved True] @ more)
               \<and> (\<forall>pre2 l2 r2 rest2.
                     rest = pre2 @ l2 # rest2 \<and> list_all (noAuthLine session) pre2
                     \<and> authLine l2 r2 \<longrightarrow>
                       (\<exists>notify. toClient w' = toClient w
                          @ ClientResponse (jsonRPCVersion session) (r2\<lparr>RespID := ID saved\<rparr>)
                          # notify)
                     \<and> (Result r2 = JBool True \<longrightarrow> err = None)
                     \<and> (Result r2 \<noteq> JBool True \<longrightarrow>
                          err = Some ErrAuthorizeFailedForServer))))"
proof (intro conjI)
  show "Params (upstreamAuthorizeRequest mgr session saved False) ! 0
          = JStr (fullWorkerName session)"
    using authWorkerName_params(1) [OF assms(2)] .
  show "Params (upstreamAuthorizeRequest mgr session saved True) ! 0
           = JStr (subaccountName session @ ''_''
                   @ (case stratumServerInfoMap mgr (miningCoin session) of
                        None \<Rightarrow> miningCoin session
                      | Some serverInfo \<Rightarrow> UserSuffix serverInfo)
                   @ minerNameWithDot session)"
    using authWorkerName_params(2) [OF assms(2)] .
  show "\<exists>session1 w' err before.
             serverSubscribeAndAuthorize mgr session w = (session1, w', err)
           \<and> list_all notAuthorize before
           \<and> (Result r1 = JBool True \<longrightarrow>
                 toServer w' = toServer w @ before
                   @ [upstreamAuthorizeRequest mgr session saved False]
               \<and> (\<exists>notify. toClient w' = toClient w
                     @ ClientResponse (jsonRPCVersion session) (r1\<lparr>RespID := ID saved\<rparr>)
                     # notify)
               \<and> err = None)
           \<and> (Result r1 \<noteq> JBool True \<longrightarrow>
                 (\<exists>more. toServer w' = toServer w @ before
                    @ [upstreamAuthorizeRequest mgr session saved False,
                       upstreamAuthorizeRequest mgr session saved True] @ more)
               \<and> (\<forall>pre2 l2 r2 rest2.
                     rest = pre2 @ l2 # rest2 \<and> list_all (noAuthLine session) pre2
                     \<and> authLine l2 r2 \<longrightarrow>
                       (\<exists>notify. toClient w' = toClient w
                          @ ClientResponse (jsonRPCVersion session) (r2\<lparr>RespID := ID saved\<rparr>)
                          # notify)
                     \<and> (Result r2 = JBool True \<longrightarrow> err = None)
                     \<and> (Result r2 \<noteq> JBool True \<longrightarrow>
                          err = Some ErrAuthorizeFailedForServer)))"
  proof (cases "Result r1 = JBool True")
    case True
    from serverSubscribeAndAuthorize_first_success [OF assms True, of mgr]
    obtain s1 w' before notify where
      "serverSubscribeAndAuthorize mgr session w = (s1, w', None)"
      "list_all notAuthorize before"
      "toServer w' = toServer w @ before @ [upstreamAuthorizeRequest mgr session saved False]"
      "toClient w' = toClient w
         @ ClientResponse (jsonRPCVersion session) (r1\<lparr>RespID := ID saved\<rparr>) # notify"
      by blast
    with True show ?thesis
      by (intro exI [of _ s1] exI [of _ w'] exI [of _ None] exI [of _ before]) simp
  next
    case False
    from serverSubscribeAndAuthorize_first_failure [OF assms False, of mgr]
    obtain s1 w' err before where
      "serverSubscribeAndAuthorize mgr session w = (s1, w', err)"
      "list_all notAuthorize before"
      "\<exists>more. toServer w' = toServer w @ before
               @ [upstreamAuthorizeRequest mgr session saved False,
                  upstreamAuthorizeRequest mgr session saved True] @ more"
      "\<forall>pre2 l2 r2 rest2.
               rest = pre2 @ l2 # rest2 \<and> list_all (noAuthLine session) pre2 \<and> authLine l2 r2 \<longrightarrow>
                 (\<exists>notify. toClient w' = toClient w
                    @ ClientResponse (jsonRPCVersion session) (r2\<lparr>RespID := ID saved\<rparr>) # notify)
               \<and> (Result r2 = JBool True \<longrightarrow> err = None)
               \<and> (Result r2 \<noteq> JBool True \<longrightarrow> err = Some ErrAuthorizeFailedForServer)"
      by blast
    with False show ?thesis
      by (intro exI [of _ s1] exI [of _ w'] exI [of _ err] exI [of _ before]) simp
  qed
qed

theorem serverSubscribeAndAuthorize_authorize_retry_witness:
  "Params (upstreamAuthorizeRequest btcManager btcSession authorizeRequest False) ! 0
     = JStr ''alice.rig1''
   \<and> Params (upstreamAuthorizeRequest btcManager btcSession authorizeRequest True) ! 0
     = JStr ''alice_btc.rig1''
   \<and> (\<exists>session1 w' before more notify.
         serverSubscribeAndAuthorize btcManager btcSession handshakeWorld = (session1, w', None)
       \<and> list_all notAuthorize before
       \<and> toServer w' = before
           @ [upstreamAuthorizeRequest btcManager btcSession authorizeRequest False,
              upstreamAuthorizeRequest btcManager btcSession authorizeRequest True] @ more
       \<and> toClient w' = ClientResponse 1 (authSuccessResponse\<lparr>RespID := JNum 2\<rparr>) # notify)"
proof -
  have f: "Result authFailureResponse \<noteq> JBool True" by (simp add: authFailureResponse_def)
  have s: "[authSuccessLine] = [] @ authSuccessLine # [] \<and> list_all (noAuthLine btcSession) []
           \<and> authLine authSuccessLine authSuccessResponse"
    by (simp add: authLine_def authSuccessLine_def authSuccessResponse_def)
  have s2: "Result authSuccessResponse = JBool True"
    by (simp add: authSuccessResponse_def)
  note t = serverSubscribeAndAuthorize_authorize_retry
      [OF handshake_example_requests handshake_example_colon handshake_example_conn
          handshake_example_subscribe_line handshake_example_failure_line, of btcManager]
  from t have t1: "Params (upstreamAuthorizeRequest btcManager btcSession authorizeRequest False) ! 0
     = JStr ''alice.rig1''"
    unfolding handshake_example_names by (rule conjunct1)
  from t have t2: "Params (upstreamAuthorizeRequest btcManager btcSession authorizeRequest True) ! 0
     = JStr ''alice_btc.rig1''"
    unfolding handshake_example_names by (rule conjunct2 [THEN conjunct1])
  from t [THEN conjunct2, THEN conjunct2] obtain s1 w' err before where
    r1: "serverSubscribeAndAuthorize btcManager btcSession handshakeWorld = (s1, w', err)"
    and r2: "list_all notAuthorize before"
    and r3: "Result authFailureResponse \<noteq> JBool True \<longrightarrow>
      (\<exists>more. toServer w' = toServer handshakeWorld @ before
                    @ [upstreamAuthorizeRequest btcManager btcSession authorizeRequest False,
                       upstreamAuthorizeRequest btcManager btcSession authorizeRequest True] @ more)
      \<and> (\<forall>pre2 l2 r2 rest2.
          [authSuccessLine] = pre2 @ l2 # rest2 \<and> list_all (noAuthLine btcSession) pre2
          \<and> authLine l2 r2 \<longrightarrow>
            (\<exists>notify. toClient w' = toClient handshakeWorld
               @ ClientResponse (jsonRPCVersion btcSession) (r2\<lparr>RespID := ID authorizeRequest\<rparr>)
               # notify)
          \<and> (Result r2 = JBool True \<longrightarrow> err = None)
          \<and> (Result r2 \<noteq> JBool True \<longrightarrow> err = Some ErrAuthorizeFailedForServer))"
    by (elim exE conjE)
  from r3 [rule_format, OF f] obtain more where
    m: "toServer w' = toServer handshakeWorld @ before
                    @ [upstreamAuthorizeRequest btcManager btcSession authorizeRequest False,
                       upstreamAuthorizeRequest btcManager btcSession authorizeRequest True] @ more"
    by (elim exE conjE)
  from r3 [rule_format, OF f] have a: "\<forall>pre2 l2 r2 rest2.
          [authSuccessLine] = pre2 @ l2 # rest2 \<and> list_all (noAuthLine btcSession) pre2
          \<and> authLine l2 r2 \<longrightarrow>
            (\<exists>notify. toClient w' = toClient handshakeWorld
               @ ClientResponse (jsonRPCVersion btcSession) (r2\<lparr>RespID := ID authorizeRequest\<rparr>)
               # notify)
          \<and> (Result r2 = JBool True \<longrightarrow> err = None)
          \<and> (Result r2 \<noteq> JBool True \<longrightarrow> err = Some ErrAuthorizeFailedForServer)"
    by (rule conjunct2)
  note a' = a [rule_format, OF s]
  from a' obtain notify where
    c: "toClient w' = toClient handshakeWorld
               @ ClientResponse (jsonRPCVersion btcSession)
                   (authSuccessResponse\<lparr>RespID := ID authorizeRequest\<rparr>)
               # notify"
    by (elim exE conjE)
  from a' s2 have e: "err = None" by (elim conjE) (rule mp)
  have "serverSubscribeAndAuthorize btcManager btcSession handshakeWorld = (s1, w', None)
       \<and> list_all notAuthorize before
       \<and> toServer w' = before
           @ [upstreamAuthorizeRequest btcManager btcSession authorizeRequest False,
              upstreamAuthorizeRequest btcManager btcSession authorizeRequest True] @ more
       \<and> toClient w' = ClientResponse 1 (authSuccessResponse\<lparr>RespID := JNum 2\<rparr>) # notify"
    using r1 r2 m c e unfolding handshake_example_names by (simp only: append_Nil simp_thms)
  then have "\<exists>session1 w' before more notify.
         serverSubscribeAndAuthorize btcManager btcSession handshakeWorld = (session1, w', None)
       \<and> list_all notAuthorize before
       \<and> toServer w' = before
           @ [upstreamAuthorizeRequest btcManager btcSession authorizeRequest False,
              upstreamAuthorizeRequest btcManager btcSession authorizeRequest True] @ more
       \<and> toClient w' = ClientResponse 1 (authSuccessResponse\<lparr>RespID := JNum 2\<rparr>) # notify"
    by (intro exI)
  with t1 t2 show ?thesis by (intro conjI)
qed

section \<open>Resuming with an occupied session ID\<close>

text \<open>
  C1. Where the session ID of the saved session is already occupied, \<open>ResumeSessionID\<close>
  returns its error and leaves the allocator as it is, and \<open>ResumeStratumSession\<close> logs
  the error and goes on: on the manager that holds the ID \<open>0x03000001\<close>, for the saved
  session with that ID, a session with the ID is built and resumed; it is running and
  registered, and its relay is started.
\<close>

theorem ResumeStratumSession_occupied_session_ID:
  "ResumeSessionID (SessionID resumeData) (sessionIDManager resumedManager)
     = (sessionIDManager resumedManager, Some ErrSessionIDOccupied)
   \<and> (case ResumeStratumSession unicodeLower resumeZk resumedManager resumeWorld resumeData
              (Inr resumeClientConn) (Inr resumeServerConn) of
         Inr (mgr', Some session', w') \<Rightarrow>
           sessionID session' = SessionID resumeData
           \<and> runningStat session' = StatRunning
           \<and> sessionID session' \<in> sessions mgr'
           \<and> events w' = [GlogError (Some ErrSessionIDOccupied), StartRelay]
       | _ \<Rightarrow> False)"
  by code_simp

end
